theory Spec2Isabelle
  imports Complex_Main "HOL-Library.Char_ord" "HOL-Library.List_Lexorder"
begin

section \<open>Tables: the part of pandas the notebook uses\<close>

text \<open>
  A cell of a loaded table is a number, a missing value or a string. Numbers are the
  reals: the notebook only compares them with constants and hands them to library
  routines, and a comparison of two finite floats is the comparison of the reals they
  denote. \<open>NaN\<close> is kept apart because every comparison with it is false.
\<close>

datatype cell = Num real | NaN | Str string

text \<open>
  The exceptions of Python and of the libraries that the notebook can meet. The notebook
  defines no exception class of its own.
\<close>

datatype error =
    FileNotFoundError string
  | ParserError string
  | KeyError string
  | TypeError
  | ValueError
  | IndexError
  | ZeroDivisionError
  | LibraryError string

fun is_str :: "cell \<Rightarrow> bool" where
  "is_str (Str s) = True"
| "is_str c = False"

text \<open>
  The type of an index. \<^verbatim>\<open>read_csv\<close> makes the index column an \<open>Int64\<close> index
  when all its entries are whole numbers, a \<open>Float64\<close> index when they are numbers
  and one has a fraction or is missing, and an \<open>Object\<close> index otherwise.
\<close>

datatype dtype = Int64 | Float64 | Object

text \<open>
  A DataFrame: the column labels, for every row its index label (the \<open>objid\<close>
  after \<open>index_col=0\<close>) with the cells of the row in the order of the labels, and the
  type of the index.
\<close>

record frame =
  names :: "string list"
  recs :: "(cell \<times> cell list) list"
  index_dtype :: dtype

fun bind_e :: "error + 'a \<Rightarrow> ('a \<Rightarrow> error + 'b) \<Rightarrow> error + 'b" where
  "bind_e (Inl e) f = Inl e"
| "bind_e (Inr x) f = f x"

fun traverse :: "('a \<Rightarrow> error + 'b) \<Rightarrow> 'a list \<Rightarrow> error + 'b list" where
  "traverse f [] = Inr []"
| "traverse f (x # xs) = bind_e (f x) (\<lambda>y. bind_e (traverse f xs) (\<lambda>ys. Inr (y # ys)))"

fun position :: "string \<Rightarrow> string list \<Rightarrow> nat option" where
  "position c [] = None"
| "position c (n # ns) = (if c = n then Some 0 else map_option Suc (position c ns))"

text \<open>The cell of a row in column number \<open>j\<close>; a row that is too short reads as missing.\<close>

definition cell_at :: "nat \<Rightarrow> cell \<times> cell list \<Rightarrow> cell" where
  "cell_at j r = (if j < length (snd r) then snd r ! j else NaN)"

text \<open>\<^verbatim>\<open>df[c]\<close>: the column labelled \<open>c\<close>, or \<open>KeyError\<close>.\<close>

definition getitem :: "frame \<Rightarrow> string \<Rightarrow> error + cell list" where
  "getitem df c =
     (case position c (names df) of
        None \<Rightarrow> Inl (KeyError c)
      | Some j \<Rightarrow> Inr (map (cell_at j) (recs df)))"

text \<open>
  \<^verbatim>\<open>series > c\<close> and \<^verbatim>\<open>series < c\<close>, element by element. A missing value compares
  false; a string against a number is a \<open>TypeError\<close> (the catalogue columns compared
  here are numeric).
\<close>

fun cell_gt :: "real \<Rightarrow> cell \<Rightarrow> error + bool" where
  "cell_gt c (Num x) = Inr (x > c)"
| "cell_gt c NaN = Inr False"
| "cell_gt c (Str s) = Inl TypeError"

fun cell_lt :: "real \<Rightarrow> cell \<Rightarrow> error + bool" where
  "cell_lt c (Num x) = Inr (x < c)"
| "cell_lt c NaN = Inr False"
| "cell_lt c (Str s) = Inl TypeError"

definition series_gt :: "cell list \<Rightarrow> real \<Rightarrow> error + bool list" where
  "series_gt xs c = traverse (cell_gt c) xs"

definition series_lt :: "cell list \<Rightarrow> real \<Rightarrow> error + bool list" where
  "series_lt xs c = traverse (cell_lt c) xs"

text \<open>\<^verbatim>\<open>a & b\<close> on two boolean series.\<close>

definition mask_and :: "bool list \<Rightarrow> bool list \<Rightarrow> bool list" where
  "mask_and a b = map (\<lambda>(x, y). x \<and> y) (zip a b)"

text \<open>\<^verbatim>\<open>df[mask]\<close>: the rows whose mask entry is true, in their order.\<close>

definition select_rows :: "frame \<Rightarrow> bool list \<Rightarrow> frame" where
  "select_rows df m = df\<lparr>recs := map fst (filter snd (zip (recs df) m))\<rparr>"

text \<open>
  \<^verbatim>\<open>df[(df["dered_r"] > -9999) & (df["g_r_color"] > -10) & (df["g_r_color"] < 10)]\<close>,
  the cleaning line of both the regression and the classification pipeline.
\<close>

definition clean :: "frame \<Rightarrow> error + frame" where
  "clean df =
     bind_e (getitem df ''dered_r'') (\<lambda>dered_r.
     bind_e (series_gt dered_r (- 9999)) (\<lambda>m1.
     bind_e (getitem df ''g_r_color'') (\<lambda>g_r_color.
     bind_e (series_gt g_r_color (- 10)) (\<lambda>m2.
     bind_e (getitem df ''g_r_color'') (\<lambda>g_r_color'.
     bind_e (series_lt g_r_color' 10) (\<lambda>m3.
     Inr (select_rows df (mask_and (mask_and m1 m2) m3))))))))"


text \<open>\<^verbatim>\<open>df.head(n)\<close>: the first \<open>n\<close> rows, whatever the index.\<close>

definition head :: "nat \<Rightarrow> frame \<Rightarrow> frame" where
  "head n df = df\<lparr>recs := take n (recs df)\<rparr>"

text \<open>
  \<^verbatim>\<open>df[a:b]\<close> with whole numbers \<open>a\<close> and \<open>b\<close>, either of which may be left out. On
  an \<open>Int64\<close> or \<open>Object\<close> index the numbers are positions. On a \<open>Float64\<close> index
  they are labels, and pandas looks for the positions that the labels bound
  (\<^verbatim>\<open>Index.get_slice_bound\<close>): where the label occurs, the bound is the first
  occurrence on the left and one past the last on the right, and occurrences that do
  not lie side by side raise \<open>KeyError\<close>; where it does not occur, a sorted index is
  searched for the place where the label would go, and an index that is not sorted
  (one with a missing label is not) raises \<open>KeyError\<close> with the label.
\<close>

fun is_monotonic_increasing :: "cell list \<Rightarrow> bool" where
  "is_monotonic_increasing [] = True"
| "is_monotonic_increasing [Num a] = True"
| "is_monotonic_increasing (Num a # Num b # xs) = (a \<le> b \<and> is_monotonic_increasing (Num b # xs))"
| "is_monotonic_increasing xs = False"

fun is_monotonic_decreasing :: "cell list \<Rightarrow> bool" where
  "is_monotonic_decreasing [] = True"
| "is_monotonic_decreasing [Num a] = True"
| "is_monotonic_decreasing (Num a # Num b # xs) = (b \<le> a \<and> is_monotonic_decreasing (Num b # xs))"
| "is_monotonic_decreasing xs = False"

fun label_lt :: "real \<Rightarrow> cell \<Rightarrow> bool" where
  "label_lt v (Num x) = (x < v)"
| "label_lt v c = False"

fun label_gt :: "real \<Rightarrow> cell \<Rightarrow> bool" where
  "label_gt v (Num x) = (v < x)"
| "label_gt v c = False"

definition get_loc :: "cell list \<Rightarrow> real \<Rightarrow> nat list" where
  "get_loc idx v = filter (\<lambda>i. idx ! i = Num v) [0..<length idx]"

text \<open>The label as Python prints it in the message of the error.\<close>

fun decimal :: "nat \<Rightarrow> string" where
  "decimal n = (if n < 10 then [''0123456789'' ! n]
                else decimal (n div 10) @ [''0123456789'' ! (n mod 10)])"

declare decimal.simps [simp del]

definition get_slice_bound :: "cell list \<Rightarrow> nat \<Rightarrow> bool \<Rightarrow> error + nat" where
  "get_slice_bound idx label right =
     (let ps = get_loc idx (real label) in
      if ps \<noteq> [] then
        (if ps = [hd ps..<Suc (last ps)] then Inr (if right then Suc (last ps) else hd ps)
         else Inl (KeyError (''Cannot get '' @ (if right then ''right'' else ''left'') @
                             '' slice bound for non-unique label: '' @ decimal label)))
      else if is_monotonic_increasing idx then Inr (length (filter (label_lt (real label)) idx))
      else if is_monotonic_decreasing idx then Inr (length (filter (label_gt (real label)) idx))
      else Inl (KeyError (decimal label)))"

definition getitem_slice :: "frame \<Rightarrow> nat option \<Rightarrow> nat option \<Rightarrow> error + frame" where
  "getitem_slice df start stop =
     (if index_dtype df = Float64 then
        bind_e (case start of None \<Rightarrow> Inr 0
                | Some a \<Rightarrow> get_slice_bound (map fst (recs df)) a False) (\<lambda>i.
        bind_e (case stop of None \<Rightarrow> Inr (length (recs df))
                | Some b \<Rightarrow> get_slice_bound (map fst (recs df)) b True) (\<lambda>j.
        Inr (df\<lparr>recs := drop i (take j (recs df))\<rparr>)))
      else
        Inr (df\<lparr>recs := drop (case start of None \<Rightarrow> 0 | Some a \<Rightarrow> a)
                            (take (case stop of None \<Rightarrow> length (recs df) | Some b \<Rightarrow> b)
                               (recs df))\<rparr>))"

text \<open>
  \<^verbatim>\<open>a.append(b)\<close>: a new table with the rows of \<open>a\<close> followed by the rows of \<open>b\<close>.
  Columns are matched by label; a label that one table lacks reads as missing there.
  Two indexes of one type give that type, whole numbers with floats give floats, and
  any other pair gives objects.
\<close>

definition join_dtype :: "dtype \<Rightarrow> dtype \<Rightarrow> dtype" where
  "join_dtype a b =
     (if a = b then a
      else if a \<noteq> Object \<and> b \<noteq> Object then Float64
      else Object)"

definition reorder :: "string list \<Rightarrow> frame \<Rightarrow> (cell \<times> cell list) list" where
  "reorder ns df =
     map (\<lambda>r. (fst r, map (\<lambda>n. case position n (names df) of
                                  None \<Rightarrow> NaN
                                | Some j \<Rightarrow> cell_at j r) ns)) (recs df)"

definition append_frame :: "frame \<Rightarrow> frame \<Rightarrow> frame" where
  "append_frame a b =
     (let ns = names a @ filter (\<lambda>n. n \<notin> set (names a)) (names b)
      in \<lparr>names = ns, recs = reorder ns a @ reorder ns b,
          index_dtype = join_dtype (index_dtype a) (index_dtype b)\<rparr>)"

text \<open>\<^verbatim>\<open>del df[c]\<close> on the table itself: the column goes, or \<open>KeyError\<close>.\<close>

definition drop_nth :: "nat \<Rightarrow> 'a list \<Rightarrow> 'a list" where
  "drop_nth j xs = take j xs @ drop (Suc j) xs"

definition del_column :: "string \<Rightarrow> frame \<Rightarrow> error + frame" where
  "del_column c df =
     (case position c (names df) of
        None \<Rightarrow> Inl (KeyError c)
      | Some j \<Rightarrow> Inr \<lparr>names = drop_nth j (names df),
                       recs = map (\<lambda>r. (fst r, drop_nth j (snd r))) (recs df),
                       index_dtype = index_dtype df\<rparr>)"

text \<open>\<^verbatim>\<open>df.values\<close>: the cells without labels, row by row.\<close>

definition values_of :: "frame \<Rightarrow> cell list list" where
  "values_of df = map snd (recs df)"

section \<open>The notebook's state and its effects\<close>

text \<open>Values that a cell prints or shows as its result.\<close>

datatype pvalue = I int | T string

datatype shown =
    Text string
  | Number real
  | Float "real option"
  | Value cell
  | Array "cell list"
  | Array2 "cell list list"
  | Reals "real list"
  | Floats "real option list"
  | Counts "nat list list"
  | Table frame
  | Params "(string \<times> pvalue) list"
  | Grid "(string \<times> pvalue list) list"
  | Ranking "(string \<times> real) list"
  | Curve "real list" "real list" string cell real
  | Object string
  | Attr string shown

text \<open>
  What a Python program can do to the world outside the kernel: open a file for
  reading, put something on the notebook's display (printed text, the value of a cell,
  a figure, the progress lines of a verbose library call), write a file, send a request
  over the network.
\<close>

datatype event =
    Read_csv string
  | Print "shown list"
  | Out shown
  | Figure nat
  | Progress string
  | Write_file string
  | Request string

text \<open>
  The state threaded through a run: the file system (path to contents), the events so
  far, the DataFrame objects by reference, and the position of the libraries' random
  number generator.
\<close>

record state =
  files :: "string \<rightharpoonup> string"
  trace :: "event list"
  heap :: "nat \<Rightarrow> frame"
  next_ref :: nat
  rng :: nat

text \<open>
  A statement of the notebook: it returns a value or raises, and leaves a state. There
  is no operation that catches an error: \<open>bind_nb\<close> stops at the first one.
\<close>

type_synonym 'a nb = "state \<Rightarrow> (error + 'a) \<times> state"

definition ret :: "'a \<Rightarrow> 'a nb" where
  "ret x st = (Inr x, st)"

definition lift :: "error + 'a \<Rightarrow> 'a nb" where
  "lift r st = (r, st)"

definition bind_nb :: "'a nb \<Rightarrow> ('a \<Rightarrow> 'b nb) \<Rightarrow> 'b nb" where
  "bind_nb m f st =
     (case m st of
        (Inl e, st') \<Rightarrow> (Inl e, st')
      | (Inr x, st') \<Rightarrow> f x st')"

definition emit :: "event \<Rightarrow> unit nb" where
  "emit ev st = (Inr (), st\<lparr>trace := trace st @ [ev]\<rparr>)"

fun traverse_nb :: "('a \<Rightarrow> 'b nb) \<Rightarrow> 'a list \<Rightarrow> 'b list nb" where
  "traverse_nb f [] = ret []"
| "traverse_nb f (x # xs) =
     bind_nb (f x) (\<lambda>y. bind_nb (traverse_nb f xs) (\<lambda>ys. ret (y # ys)))"

text \<open>A library call that draws random numbers: it gets the generator's position.\<close>

type_synonym seed = "nat list"

definition random_call :: "(seed \<Rightarrow> error + 'a) \<Rightarrow> 'a nb" where
  "random_call f st = (f [rng st], st\<lparr>rng := Suc (rng st)\<rparr>)"

subsection \<open>DataFrame objects\<close>

definition new_frame :: "frame \<Rightarrow> nat nb" where
  "new_frame df st =
     (Inr (next_ref st), st\<lparr>heap := (heap st)(next_ref st := df), next_ref := Suc (next_ref st)\<rparr>)"

definition frame_of :: "nat \<Rightarrow> frame nb" where
  "frame_of r st = (Inr (heap st r), st)"

text \<open>
  \<^verbatim>\<open>copy.copy(df)\<close> is \<^verbatim>\<open>df.copy(deep=True)\<close>: a new object with the same labels and
  cells.
\<close>

definition copy_copy :: "nat \<Rightarrow> nat nb" where
  "copy_copy r = bind_nb (frame_of r) new_frame"

text \<open>\<^verbatim>\<open>del df[c]\<close>: changes the object that \<open>r\<close> refers to.\<close>

definition delitem :: "nat \<Rightarrow> string \<Rightarrow> unit nb" where
  "delitem r c st =
     (case del_column c (heap st r) of
        Inl e \<Rightarrow> (Inl e, st)
      | Inr df \<Rightarrow> (Inr (), st\<lparr>heap := (heap st)(r := df)\<rparr>))"

text \<open>
  Expressions on DataFrame objects: each builds a new object or value and leaves its
  operands as they are.
\<close>

definition slice_ref :: "nat \<Rightarrow> nat option \<Rightarrow> nat option \<Rightarrow> nat nb" where
  "slice_ref r start stop =
     bind_nb (frame_of r) (\<lambda>df. bind_nb (lift (getitem_slice df start stop)) new_frame)"

definition append_ref :: "nat \<Rightarrow> nat \<Rightarrow> nat nb" where
  "append_ref a b =
     bind_nb (frame_of a) (\<lambda>x.
     bind_nb (frame_of b) (\<lambda>y.
     new_frame (append_frame x y)))"

definition clean_ref :: "nat \<Rightarrow> nat nb" where
  "clean_ref r = bind_nb (frame_of r) (\<lambda>df. bind_nb (lift (clean df)) new_frame)"

definition column :: "nat \<Rightarrow> string \<Rightarrow> cell list nb" where
  "column r c = bind_nb (frame_of r) (\<lambda>df. lift (getitem df c))"

subsection \<open>The libraries\<close>

text \<open>
  The routines of pandas, scikit-learn and matplotlib that the notebook calls and that
  are not spelled out here are parameters of the model. Each may raise. \<open>'m\<close> is the
  type of estimator objects. The attributes \<^verbatim>\<open>classes_\<close>, \<^verbatim>\<open>feature_importances_\<close>
  and \<^verbatim>\<open>oob_score_\<close> are written without the final underscore.
\<close>

type_synonym split = "cell list list \<times> cell list list \<times> cell list \<times> cell list"

record 'm library =
  parse_csv :: "string \<Rightarrow> nat \<Rightarrow> string list \<Rightarrow> error + frame"
  train_test_split :: "seed \<Rightarrow> cell list list \<Rightarrow> cell list \<Rightarrow> real option \<Rightarrow> error + split"
  scale :: "cell list list \<Rightarrow> error + cell list list"
  LinearRegression :: "'m"
  KNeighborsRegressor :: "nat \<Rightarrow> 'm"
  RandomForestClassifier :: "nat \<Rightarrow> bool \<Rightarrow> 'm"
  clone :: "'m \<Rightarrow> 'm"
  set_params :: "'m \<Rightarrow> (string \<times> pvalue) list \<Rightarrow> error + 'm"
  fit :: "seed \<Rightarrow> 'm \<Rightarrow> cell list list \<Rightarrow> cell list \<Rightarrow> error + 'm"
  predict :: "'m \<Rightarrow> cell list list \<Rightarrow> error + cell list"
  predict_proba :: "'m \<Rightarrow> cell list list \<Rightarrow> error + real list list"
  score :: "'m \<Rightarrow> cell list list \<Rightarrow> cell list \<Rightarrow> error + real"
  scorer :: "string \<Rightarrow> 'm \<Rightarrow> cell list list \<Rightarrow> cell list \<Rightarrow> error + real"
  classes :: "'m \<Rightarrow> error + cell list"
  feature_importances :: "'m \<Rightarrow> error + real list"
  oob_score :: "'m \<Rightarrow> error + real"
  repr :: "'m \<Rightarrow> string"
  cv_mean_score :: "seed \<Rightarrow> 'm \<Rightarrow> nat option \<Rightarrow> cell list list \<Rightarrow> cell list \<Rightarrow> error + real"
  kfold :: "nat \<Rightarrow> nat \<Rightarrow> cell list list \<Rightarrow> cell list \<Rightarrow> error + split"
  validation_curve ::
    "'m \<Rightarrow> cell list list \<Rightarrow> cell list \<Rightarrow> string \<Rightarrow> pvalue list \<Rightarrow> nat \<Rightarrow> string
      \<Rightarrow> error + real list list \<times> real list list"
  confusion_matrix :: "cell list \<Rightarrow> cell list \<Rightarrow> error + nat list list"
  roc_curve :: "cell list \<Rightarrow> real list \<Rightarrow> cell \<Rightarrow> error + real list \<times> real list \<times> real list"
  auc :: "real list \<Rightarrow> real list \<Rightarrow> error + real"
  draw :: "nat \<Rightarrow> shown list \<Rightarrow> error + unit"

text \<open>
  \<^verbatim>\<open>pd.read_csv(path, index_col=0, usecols=cols)\<close>: opens the file (a missing file
  raises), parses it, and returns a new DataFrame object.
\<close>

definition read_csv :: "'m library \<Rightarrow> string \<Rightarrow> nat \<Rightarrow> string list \<Rightarrow> nat nb" where
  "read_csv L path index_col usecols st =
     (case files st path of
        None \<Rightarrow> (Inl (FileNotFoundError path), st)
      | Some text \<Rightarrow>
          bind_nb (emit (Read_csv path)) (\<lambda>_.
          bind_nb (lift (parse_csv L text index_col usecols)) new_frame) st)"

text \<open>The figure that a cell renders on the display, from the values it plots.\<close>

definition figure :: "'m library \<Rightarrow> nat \<Rightarrow> shown list \<Rightarrow> unit nb" where
  "figure L n args = bind_nb (lift (draw L n args)) (\<lambda>_. emit (Figure n))"

definition print :: "shown list \<Rightarrow> unit nb" where
  "print xs = emit (Print xs)"

definition out :: "shown \<Rightarrow> unit nb" where
  "out x = emit (Out x)"

text \<open>
  The two ways out of the kernel that no cell of the notebook takes: writing a file
  (\<^verbatim>\<open>DataFrame.to_csv\<close>, \<^verbatim>\<open>savefig\<close>, \<^verbatim>\<open>open(path, 'w')\<close>) and a request over the
  network (\<^verbatim>\<open>urlopen\<close>). They are defined so that a run can be compared with a program
  that does take them.
\<close>

definition write_file :: "string \<Rightarrow> string \<Rightarrow> unit nb" where
  "write_file path contents st =
     (Inr (), st\<lparr>files := (files st)(path \<mapsto> contents), trace := trace st @ [Write_file path]\<rparr>)"

definition urlopen :: "string \<Rightarrow> unit nb" where
  "urlopen url = emit (Request url)"

section \<open>Numeric routines\<close>

text \<open>
  numpy on arrays of floats, over the reals. \<open>None\<close> stands for a result that is not a
  finite number (\<open>nan\<close>, \<open>inf\<close>): the mean of an empty array, a division by zero, the
  root of a negative number. These do not raise.
\<close>

definition np_mean :: "real list \<Rightarrow> real option" where
  "np_mean xs = (if xs = [] then None else Some (foldl (+) 0 xs / real (length xs)))"

text \<open>\<^verbatim>\<open>np.std(x)\<close> is \<^verbatim>\<open>sqrt(mean(abs(x - x.mean())**2))\<close>.\<close>

definition np_std :: "real list \<Rightarrow> real option" where
  "np_std xs =
     (case np_mean xs of
        None \<Rightarrow> None
      | Some m \<Rightarrow> map_option sqrt (np_mean (map (\<lambda>x. \<bar>x - m\<bar> ^ 2) xs)))"

definition np_sqrt :: "real \<Rightarrow> real option" where
  "np_sqrt x = (if x < 0 then None else Some (sqrt x))"

definition np_divide :: "real option \<Rightarrow> real option \<Rightarrow> real option" where
  "np_divide a b =
     (case (a, b) of
        (Some x, Some y) \<Rightarrow> (if y = 0 then None else Some (x / y))
      | _ \<Rightarrow> None)"

text \<open>\<^verbatim>\<open>meanR2, errR2 = np.mean(R2), np.std(R2)/np.sqrt(len(R2))\<close>\<close>

definition meanR2 :: "real list \<Rightarrow> real option" where
  "meanR2 R2 = np_mean R2"

definition errR2 :: "real list \<Rightarrow> real option" where
  "errR2 R2 = np_divide (np_std R2) (np_sqrt (real (length R2)))"

text \<open>
  The textbook quantities, to compare with: the arithmetic mean and the (population)
  standard deviation of a sample.
\<close>

definition arithmetic_mean :: "real list \<Rightarrow> real" where
  "arithmetic_mean xs = sum_list xs / real (length xs)"

definition standard_deviation :: "real list \<Rightarrow> real" where
  "standard_deviation xs =
     sqrt (sum_list (map (\<lambda>x. (x - arithmetic_mean xs) ^ 2) xs) / real (length xs))"

text \<open>
  \<^verbatim>\<open>sklearn.metrics.mean_squared_error(y_true, y_pred)\<close>: the mean of the squared
  differences; it raises on a value that is not a number, on arrays of different lengths
  and on empty arrays.
\<close>

fun as_real :: "cell \<Rightarrow> error + real" where
  "as_real (Num x) = Inr x"
| "as_real c = Inl ValueError"

definition mean_squared_error :: "cell list \<Rightarrow> cell list \<Rightarrow> error + real" where
  "mean_squared_error y_true y_pred =
     bind_e (traverse as_real y_true) (\<lambda>t.
     bind_e (traverse as_real y_pred) (\<lambda>p.
       if length t \<noteq> length p \<or> t = [] then Inl ValueError
       else Inr (sum_list (map (\<lambda>(a, b). (a - b) ^ 2) (zip t p)) / real (length t))))"

text \<open>\<^verbatim>\<open>mse_linear = np.sqrt(mean_squared_error(y_test,y_lr_pred))\<close>\<close>

definition mse_linear :: "cell list \<Rightarrow> cell list \<Rightarrow> error + real" where
  "mse_linear y_test y_lr_pred =
     bind_e (mean_squared_error y_test y_lr_pred) (\<lambda>v. Inr (sqrt v))"

text \<open>\<^verbatim>\<open>mse_knn = mean_squared_error(y_test,y_knn_pred)\<close>\<close>

definition mse_knn :: "cell list \<Rightarrow> cell list \<Rightarrow> error + real" where
  "mse_knn y_test y_knn_pred = mean_squared_error y_test y_knn_pred"

text \<open>\<^verbatim>\<open>((1./len(y_train))*(y_train - y_train.mean())**2).sum()\<close>\<close>

fun num_of :: "cell \<Rightarrow> real" where
  "num_of (Num x) = x"
| "num_of c = 0"

definition naive_mse :: "cell list \<Rightarrow> error + real option" where
  "naive_mse y_train =
     (if y_train = [] then Inl ZeroDivisionError
      else if list_ex is_str y_train then Inl TypeError
      else if list_ex (\<lambda>c. c = NaN) y_train then Inr None
      else let ys = map num_of y_train;
               m = sum_list ys / real (length ys)
           in Inr (Some (sum_list (map (\<lambda>v. (1 / real (length ys)) * (v - m) ^ 2) ys))))"

section \<open>Grid search\<close>

text \<open>
  \<^verbatim>\<open>ParameterGrid\<close>: the keys sorted, then every combination of their values, the last
  key varying fastest.
\<close>

definition ParameterGrid :: "(string \<times> pvalue list) list \<Rightarrow> (string \<times> pvalue) list list" where
  "ParameterGrid grid =
     (let items = sort_key fst grid
      in map (zip (map fst items)) (product_lists (map snd items)))"

record 'm GridSearchCV =
  estimator :: "'m"
  param_grid :: "(string \<times> pvalue list) list"
  cv :: "nat option"
  verbose :: nat

record 'm fitted_search =
  best_params :: "(string \<times> pvalue) list"
  best_score :: real
  best_estimator :: "'m"

text \<open>The first candidate among those with the highest score.\<close>

fun best_index :: "real list \<Rightarrow> nat" where
  "best_index [] = 0"
| "best_index [x] = 0"
| "best_index (x # y # ys) =
     (let j = best_index (y # ys) in if (y # ys) ! j \<le> x then 0 else Suc j)"

text \<open>
  \<^verbatim>\<open>GridSearchCV.fit\<close>: every candidate of the grid gets its mean cross-validation score
  (computed by the library on a clone of the estimator with the candidate's values); the
  best candidate is then fitted on all the data given (\<open>refit=True\<close>).
\<close>

definition candidate :: "'m library \<Rightarrow> 'm \<Rightarrow> (string \<times> pvalue) list \<Rightarrow> error + 'm" where
  "candidate L est params = set_params L (clone L est) params"

definition search ::
  "'m library \<Rightarrow> seed \<Rightarrow> 'm GridSearchCV \<Rightarrow> cell list list \<Rightarrow> cell list \<Rightarrow> error + 'm fitted_search"
where
  "search L s gs X y =
     (let candidates = ParameterGrid (param_grid gs) in
      if candidates = [] then Inl ValueError
      else
        bind_e (traverse (\<lambda>(k, params).
                  bind_e (candidate L (estimator gs) params) (\<lambda>est.
                  cv_mean_score L (k # s) est (cv gs) X y))
                (enumerate 0 candidates)) (\<lambda>scores.
        let i = best_index scores in
        bind_e (candidate L (estimator gs) (candidates ! i)) (\<lambda>est.
        bind_e (fit L (length candidates # s) est X y) (\<lambda>fitted.
        Inr \<lparr>best_params = candidates ! i,
             best_score = scores ! i,
             best_estimator = fitted\<rparr>))))"

definition GridSearchCV_fit ::
  "'m library \<Rightarrow> 'm GridSearchCV \<Rightarrow> cell list list \<Rightarrow> cell list \<Rightarrow> 'm fitted_search nb"
where
  "GridSearchCV_fit L gs X y =
     bind_nb (if 0 < verbose gs then emit (Progress ''GridSearchCV'') else ret ()) (\<lambda>_.
     random_call (\<lambda>s. search L s gs X y))"

text \<open>
  \<^verbatim>\<open>cross_val_score(gs, X, y, cv=n, scoring=name)\<close> on a grid search: the data is cut
  into \<open>n\<close> folds; on each, a fresh grid search is fitted on the training part and its
  best estimator is scored on the held-out part.
\<close>

definition cross_val_score ::
  "'m library \<Rightarrow> 'm GridSearchCV \<Rightarrow> cell list list \<Rightarrow> cell list \<Rightarrow> nat \<Rightarrow> string \<Rightarrow> real list nb"
where
  "cross_val_score L gs X y n scoring =
     bind_nb (lift (traverse (\<lambda>k. kfold L n k X y) [0..<n])) (\<lambda>folds.
     traverse_nb (\<lambda>(X_tr, X_te, y_tr, y_te).
       bind_nb (GridSearchCV_fit L gs X_tr y_tr) (\<lambda>f.
       lift (scorer L scoring (best_estimator f) X_te y_te))) folds)"

section \<open>The notebook, cell by cell\<close>

text \<open>
  Every code cell is a definition, named after its position in the notebook. The names
  bound by \<open>\<lambda>\<close> are the notebook's variables. The first cell only imports modules and
  sets display options.
\<close>

definition usecols_z :: "string list" where
  "usecols_z = [''objid'', ''dered_r'', ''spec_z'', ''u_g_color'', ''g_r_color'', ''r_i_color'',
                ''i_z_color'', ''diff_u'', ''diff_g1'', ''diff_i'', ''diff_z'']"

definition usecols_class :: "string list" where
  "usecols_class = [''objid'', ''dered_r'', ''u_g_color'', ''g_r_color'', ''r_i_color'',
                    ''i_z_color'', ''diff_u'', ''diff_g1'', ''diff_i'', ''diff_z'', ''class'']"

definition qso_path :: string where
  "qso_path = ''../examples/SDSScatalog/data/qso10000.csv''"

definition qso_path2 :: string where
  "qso_path2 = ''../examples/SDSSCatalog/data/qso10000.csv''"

definition star_path :: string where
  "star_path = ''../examples/SDSSCatalog/data/star1000.csv''"

definition galaxy_path :: string where
  "galaxy_path = ''../examples/SDSSCatalog/data/galaxy1000.csv''"

subsection \<open>Regression: loading\<close>

text \<open>
  \<^verbatim>\<open>qsos = pd.read_csv(..., index_col=0, usecols=[...])\<close>
  \<^verbatim>\<open>qsos = qsos[(qsos["dered_r"] > -9999) & (qsos["g_r_color"] > -10) & (qsos["g_r_color"] < 10)]\<close>
  \<^verbatim>\<open>qso_redshifts = qsos["spec_z"]\<close>
  \<^verbatim>\<open>qso_features = copy.copy(qsos)\<close>
  \<^verbatim>\<open>del qso_features["spec_z"]\<close>
  \<^verbatim>\<open>qso_features.head()\<close>
\<close>

definition cell7 :: "'m library \<Rightarrow> (nat \<times> cell list \<times> nat) nb" where
  "cell7 L =
     bind_nb (read_csv L qso_path 0 usecols_z) (\<lambda>qsos.
     bind_nb (clean_ref qsos) (\<lambda>qsos.
     bind_nb (column qsos ''spec_z'') (\<lambda>qso_redshifts.
     bind_nb (copy_copy qsos) (\<lambda>qso_features.
     bind_nb (delitem qso_features ''spec_z'') (\<lambda>_.
     bind_nb (frame_of qso_features) (\<lambda>df.
     bind_nb (out (Table (head 5 df))) (\<lambda>_.
     ret (qsos, qso_redshifts, qso_features))))))))"

text \<open>\<^verbatim>\<open>bins = hist(qso_redshifts.values,bins=100) ; xlabel("redshift") ; ylabel("N")\<close>\<close>

definition cell9 :: "'m library \<Rightarrow> cell list \<Rightarrow> unit nb" where
  "cell9 L qso_redshifts =
     bind_nb (figure L 9 [Array qso_redshifts]) (\<lambda>_.
     out (Object ''Text''))"

text \<open>
  \<^verbatim>\<open>norm = mpl.colors.Normalize(vmin=min(qso_redshifts.values), vmax=2.5)\<close> ...
  \<^verbatim>\<open>rez = pd.scatter_matrix(qso_features[0:1000], alpha=0.2, figsize=[15,15], c=m.to_rgba(qso_redshifts.values))\<close>
\<close>

definition cell10 :: "'m library \<Rightarrow> cell list \<Rightarrow> nat \<Rightarrow> unit nb" where
  "cell10 L qso_redshifts qso_features =
     bind_nb (frame_of qso_features) (\<lambda>df.
     bind_nb (lift (getitem_slice df (Some 0) (Some 1000))) (\<lambda>first.
     figure L 10 [Table first, Array qso_redshifts]))"

text \<open>\<^verbatim>\<open>X = qso_features.values\<close>, \<^verbatim>\<open>y = qso_redshifts.values\<close>\<close>

definition cell12 :: "cell list \<Rightarrow> nat \<Rightarrow> (cell list list \<times> cell list) nb" where
  "cell12 qso_redshifts qso_features =
     bind_nb (frame_of qso_features) (\<lambda>df.
     ret (values_of df, qso_redshifts))"

definition cell13 :: "cell list list \<Rightarrow> cell list \<Rightarrow> unit nb" where
  "cell13 X y =
     bind_nb (print [Text ''Design matrix shape ='', Attr ''shape'' (Array2 X)]) (\<lambda>_.
     print [Text ''Response variable vector shape ='', Attr ''shape'' (Array y)])"

subsection \<open>Regression: linear model\<close>

text \<open>
  \<^verbatim>\<open>X_train, X_test, y_train, y_test = train_test_split(X, y, test_size=0.25)\<close>
  \<^verbatim>\<open>linear = linear_model.LinearRegression()\<close>
  \<^verbatim>\<open>linear.fit(X_train, y_train)\<close>
  \<^verbatim>\<open>y_lr_pred = linear.predict(X_test)\<close>
  \<^verbatim>\<open>mse_linear = np.sqrt(mean_squared_error(y_test,y_lr_pred))\<close>
  \<^verbatim>\<open>r2_linear = linear.score(X_test, y_test)\<close>
  \<^verbatim>\<open>print("Linear regression: MSE = ",mse_linear)\<close>
  \<^verbatim>\<open>print("R2 score =",r2_linear)\<close>
\<close>

definition cell15 ::
  "'m library \<Rightarrow> cell list list \<Rightarrow> cell list \<Rightarrow> (split \<times> cell list \<times> real \<times> real) nb"
where
  "cell15 L X y =
     bind_nb (random_call (\<lambda>s. train_test_split L s X y (Some (1 / 4)))) (\<lambda>sp.
     case sp of (X_train, X_test, y_train, y_test) \<Rightarrow>
     bind_nb (random_call (\<lambda>s. fit L s (LinearRegression L) X_train y_train)) (\<lambda>linear.
     bind_nb (lift (predict L linear X_test)) (\<lambda>y_lr_pred.
     bind_nb (lift (mse_linear y_test y_lr_pred)) (\<lambda>mse_linear'.
     bind_nb (lift (score L linear X_test y_test)) (\<lambda>r2_linear.
     bind_nb (print [Text ''Linear regression: MSE = '', Number mse_linear']) (\<lambda>_.
     bind_nb (print [Text ''R2 score ='', Number r2_linear]) (\<lambda>_.
     ret (sp, y_lr_pred, mse_linear', r2_linear))))))))"

definition cell16 :: "'m library \<Rightarrow> cell list \<Rightarrow> cell list \<Rightarrow> real \<Rightarrow> unit nb" where
  "cell16 L y_test y_lr_pred mse_linear' =
     bind_nb (figure L 16 [Array y_test, Array y_lr_pred, Number mse_linear']) (\<lambda>_.
     out (Object ''ylim''))"

text \<open>
  \<^verbatim>\<open>print("Naive MSE", ((1./len(y_train))*(y_train - y_train.mean())**2).sum())\<close>
  \<^verbatim>\<open>print("Linear regression: MSE = ",mse_linear)\<close>
\<close>

definition cell18 :: "cell list \<Rightarrow> real \<Rightarrow> unit nb" where
  "cell18 y_train mse_linear' =
     bind_nb (lift (naive_mse y_train)) (\<lambda>naive.
     bind_nb (print [Text ''Naive MSE'', Float naive]) (\<lambda>_.
     print [Text ''Linear regression: MSE = '', Number mse_linear']))"

subsection \<open>Regression: k nearest neighbours\<close>

text \<open>
  \<^verbatim>\<open>X_scaled = preprocessing.scale(X)\<close>
  \<^verbatim>\<open>KNN = neighbors.KNeighborsRegressor(5)\<close>
  \<^verbatim>\<open>X_train, X_test, y_train, y_test = train_test_split(X_scaled, y)\<close>
  \<^verbatim>\<open>KNN.fit(X_train, y_train)\<close>
\<close>

definition cell20 ::
  "'m library \<Rightarrow> cell list list \<Rightarrow> cell list \<Rightarrow> (cell list list \<times> 'm \<times> split) nb"
where
  "cell20 L X y =
     bind_nb (lift (scale L X)) (\<lambda>X_scaled.
     bind_nb (random_call (\<lambda>s. train_test_split L s X_scaled y None)) (\<lambda>sp.
     case sp of (X_train, X_test, y_train, y_test) \<Rightarrow>
     bind_nb (random_call (\<lambda>s. fit L s (KNeighborsRegressor L 5) X_train y_train)) (\<lambda>KNN.
     bind_nb (out (Object (repr L KNN))) (\<lambda>_.
     ret (X_scaled, KNN, sp)))))"

text \<open>
  \<^verbatim>\<open>y_knn_pred = KNN.predict(X_test)\<close>
  \<^verbatim>\<open>mse_knn = mean_squared_error(y_test,y_knn_pred)\<close>
  \<^verbatim>\<open>r2_knn = KNN.score(X_test, y_test)\<close>
  and six lines printed, the last two for the linear model again.
\<close>

definition cell21 ::
  "'m library \<Rightarrow> 'm \<Rightarrow> cell list list \<Rightarrow> cell list \<Rightarrow> real \<Rightarrow> real \<Rightarrow> (cell list \<times> real \<times> real) nb"
where
  "cell21 L KNN X_test y_test mse_linear' r2_linear =
     bind_nb (lift (predict L KNN X_test)) (\<lambda>y_knn_pred.
     bind_nb (lift (mse_knn y_test y_knn_pred)) (\<lambda>mse_knn'.
     bind_nb (lift (score L KNN X_test y_test)) (\<lambda>r2_knn.
     bind_nb (print [Text ''MSE (KNN) ='', Number mse_knn']) (\<lambda>_.
     bind_nb (print [Text ''R2 score (KNN) ='', Number r2_knn]) (\<lambda>_.
     bind_nb (print [Text ''cf.'']) (\<lambda>_.
     bind_nb (print [Text ''MSE (linear regression) = '', Number mse_linear']) (\<lambda>_.
     bind_nb (print [Text ''R2 score (linear regression) ='', Number r2_linear]) (\<lambda>_.
     ret (y_knn_pred, mse_knn', r2_knn)))))))))"

definition cell22 :: "'m library \<Rightarrow> cell list \<Rightarrow> cell list \<Rightarrow> real \<Rightarrow> unit nb" where
  "cell22 L y_test y_knn_pred mse_knn' =
     figure L 22 [Array y_test, Array y_knn_pred, Number mse_knn']"

text \<open>
  \<^verbatim>\<open>param_name = "n_neighbors"\<close>, \<^verbatim>\<open>param_range = np.array([1,2,4,8,16,32,64])\<close>
  \<^verbatim>\<open>training_scores, validation_scores = validation_curve(KNN, X_scaled, y,\<close>
  \<^verbatim>\<open>    param_name=param_name, param_range=param_range, cv=3, scoring='r2')\<close>
\<close>

definition param_range :: "pvalue list" where
  "param_range = [I 1, I 2, I 4, I 8, I 16, I 32, I 64]"

definition cell24 ::
  "'m library \<Rightarrow> 'm \<Rightarrow> cell list list \<Rightarrow> cell list \<Rightarrow> (real list list \<times> real list list) nb"
where
  "cell24 L KNN X_scaled y =
     lift (validation_curve L KNN X_scaled y ''n_neighbors'' param_range 3 ''r2'')"

text \<open>
  The notebook's one function: the means and deviations of the scores along the folds,
  then the curves.
\<close>

definition plot_validation_curve ::
  "'m library \<Rightarrow> string \<Rightarrow> pvalue list \<Rightarrow> real list list \<Rightarrow> real list list \<Rightarrow> unit nb"
where
  "plot_validation_curve L param_name parameter_values training_scores validation_scores =
     (let training_scores_mean = map np_mean training_scores;
          training_scores_std = map np_std training_scores;
          validation_scores_mean = map np_mean validation_scores;
          validation_scores_std = map np_std validation_scores
      in figure L 26 [Text param_name, Params (map (Pair param_name) parameter_values),
                      Floats training_scores_mean, Floats training_scores_std,
                      Floats validation_scores_mean, Floats validation_scores_std])"

definition cell26 :: "'m library \<Rightarrow> real list list \<Rightarrow> real list list \<Rightarrow> unit nb" where
  "cell26 L training_scores validation_scores =
     plot_validation_curve L ''n_neighbors'' param_range training_scores validation_scores"

subsection \<open>Regression: tuning\<close>

text \<open>
  \<^verbatim>\<open>param_grid = {'n_neighbors': np.array([1,2,4,8,16,32,64]),\<close>
  \<^verbatim>\<open>              'weights': ['uniform','distance'],\<close>
  \<^verbatim>\<open>              'p' : np.array([1,2])}\<close>
\<close>

definition knn_param_grid :: "(string \<times> pvalue list) list" where
  "knn_param_grid =
     [(''n_neighbors'', [I 1, I 2, I 4, I 8, I 16, I 32, I 64]),
      (''weights'', [T ''uniform'', T ''distance'']),
      (''p'', [I 1, I 2])]"

definition cell29 :: "unit nb" where
  "cell29 = print [Grid knn_param_grid]"

text \<open>\<^verbatim>\<open>KNN_tuned = GridSearchCV(KNN, param_grid, verbose=3)\<close>\<close>

definition KNN_tuned :: "'m \<Rightarrow> 'm GridSearchCV" where
  "KNN_tuned KNN = \<lparr>estimator = KNN, param_grid = knn_param_grid, cv = None, verbose = 3\<rparr>"

text \<open>\<^verbatim>\<open>KNN_tuned.fit(X_train, y_train)\<close>\<close>

definition cell32 :: "'m library \<Rightarrow> 'm \<Rightarrow> cell list list \<Rightarrow> cell list \<Rightarrow> 'm fitted_search nb" where
  "cell32 L KNN X_train y_train =
     bind_nb (GridSearchCV_fit L (KNN_tuned KNN) X_train y_train) (\<lambda>fitted.
     bind_nb (out (Object ''GridSearchCV'')) (\<lambda>_.
     ret fitted))"

text \<open>
  \<^verbatim>\<open>y_knn_tuned_pred = KNN_tuned.predict(X_test)\<close>
  \<^verbatim>\<open>mse_knn_tuned = mean_squared_error(y_test,y_knn_tuned_pred)\<close>
  \<^verbatim>\<open>r2_knn_tuned = KNN_tuned.score(X_test, y_test)\<close>
  and five lines printed. A fitted search predicts and scores with its best estimator.
\<close>

definition cell33 ::
  "'m library \<Rightarrow> 'm fitted_search \<Rightarrow> cell list list \<Rightarrow> cell list \<Rightarrow> real \<Rightarrow> real \<Rightarrow> unit nb"
where
  "cell33 L fitted X_test y_test mse_knn' r2_knn =
     bind_nb (lift (predict L (best_estimator fitted) X_test)) (\<lambda>y_knn_tuned_pred.
     bind_nb (lift (mean_squared_error y_test y_knn_tuned_pred)) (\<lambda>mse_knn_tuned.
     bind_nb (lift (score L (best_estimator fitted) X_test y_test)) (\<lambda>r2_knn_tuned.
     bind_nb (print [Text ''MSE (tuned KNN) ='', Number mse_knn_tuned]) (\<lambda>_.
     bind_nb (print [Text ''R2 score (tuned KNN) ='', Number r2_knn_tuned]) (\<lambda>_.
     bind_nb (print [Text ''cf.'']) (\<lambda>_.
     bind_nb (print [Text ''MSE (KNN) = '', Number mse_knn']) (\<lambda>_.
     print [Text ''R2 score (KNN) ='', Number r2_knn])))))))"

text \<open>\<^verbatim>\<open>KNN_tuned.best_params_\<close>\<close>

definition cell35 :: "'m fitted_search \<Rightarrow> unit nb" where
  "cell35 fitted = out (Params (best_params fitted))"

text \<open>\<^verbatim>\<open>R2 = cross_val_score(KNN_tuned, X_scaled, y, cv=3, scoring='r2')\<close>\<close>

definition cell38 :: "'m library \<Rightarrow> 'm \<Rightarrow> cell list list \<Rightarrow> cell list \<Rightarrow> real list nb" where
  "cell38 L KNN X_scaled y = cross_val_score L (KNN_tuned KNN) X_scaled y 3 ''r2''"

text \<open>
  \<^verbatim>\<open>meanR2, errR2 = np.mean(R2), np.std(R2)/np.sqrt(len(R2))\<close>
  \<^verbatim>\<open>print('Mean score:', meanR2, '+/-', errR2)\<close>
\<close>

definition cell39 :: "real list \<Rightarrow> unit nb" where
  "cell39 R2 = print [Text ''Mean score:'', Float (meanR2 R2), Text ''+/-'', Float (errR2 R2)]"

text \<open>
  \<^verbatim>\<open>KNNz = KNN_tuned.best_estimator_\<close>
  \<^verbatim>\<open>KNNz.fit(X_train, y_train)\<close>
\<close>

definition cell42 :: "'m library \<Rightarrow> 'm fitted_search \<Rightarrow> cell list list \<Rightarrow> cell list \<Rightarrow> 'm nb" where
  "cell42 L fitted X_train y_train =
     bind_nb (random_call (\<lambda>s. fit L s (best_estimator fitted) X_train y_train)) (\<lambda>KNNz.
     bind_nb (out (Object (repr L KNNz))) (\<lambda>_.
     ret KNNz))"

text \<open>
  \<^verbatim>\<open>j = 571\<close>
  \<^verbatim>\<open>one_new_quasar = X_test[j,:].reshape(1, -1)\<close>
  \<^verbatim>\<open>zphoto = KNNz.predict(one_new_quasar)\<close>
  \<^verbatim>\<open>zspec = y_test[j]\<close>
  \<^verbatim>\<open>print("True redshift cf. KNN photo-z:", zspec, ' cf.', zphoto[0])\<close>
\<close>

definition item :: "'a list \<Rightarrow> nat \<Rightarrow> error + 'a" where
  "item xs j = (if j < length xs then Inr (xs ! j) else Inl IndexError)"

definition cell43 :: "'m library \<Rightarrow> 'm \<Rightarrow> cell list list \<Rightarrow> cell list \<Rightarrow> unit nb" where
  "cell43 L KNNz X_test y_test =
     bind_nb (lift (item X_test 571)) (\<lambda>row.
     bind_nb (lift (predict L KNNz [row])) (\<lambda>zphoto.
     bind_nb (lift (item y_test 571)) (\<lambda>zspec.
     bind_nb (lift (item zphoto 0)) (\<lambda>zphoto0.
     print [Text ''True redshift cf. KNN photo-z:'', Value zspec, Text '' cf.'', Value zphoto0]))))"

text \<open>
  \<^verbatim>\<open>zspec = y_test\<close>
  \<^verbatim>\<open>zphoto = KNNz.predict(X_test)\<close>
  and the figure of one against the other.
\<close>

definition cell44 :: "'m library \<Rightarrow> 'm \<Rightarrow> cell list list \<Rightarrow> cell list \<Rightarrow> cell list nb" where
  "cell44 L KNNz X_test y_test =
     bind_nb (lift (predict L KNNz X_test)) (\<lambda>zphoto.
     bind_nb (figure L 44 [Array y_test, Array zphoto]) (\<lambda>_.
     ret zphoto))"

subsection \<open>Classification: loading\<close>

text \<open>
  \<^verbatim>\<open>all_sources = pd.read_csv(".../qso10000.csv", index_col=0, usecols=[...])[:1000]\<close>
  \<^verbatim>\<open>all_sources = all_sources.append(pd.read_csv(".../star1000.csv", ...))\<close>
  \<^verbatim>\<open>all_sources = all_sources.append(pd.read_csv(".../galaxy1000.csv", ...))\<close>
  \<^verbatim>\<open>all_sources = all_sources[(all_sources["dered_r"] > -9999) & (all_sources["g_r_color"] > -10) & (all_sources["g_r_color"] < 10)]\<close>
  \<^verbatim>\<open>all_labels = all_sources["class"]\<close>
  \<^verbatim>\<open>all_features = copy.copy(all_sources)\<close>
  \<^verbatim>\<open>del all_features["class"]\<close>
  \<^verbatim>\<open>X = copy.copy(all_features.values)\<close>
  \<^verbatim>\<open>y = copy.copy(all_labels.values)\<close>
\<close>

definition cell51 :: "'m library \<Rightarrow> (nat \<times> cell list \<times> nat \<times> cell list list \<times> cell list) nb" where
  "cell51 L =
     bind_nb (read_csv L qso_path2 0 usecols_class) (\<lambda>quasars.
     bind_nb (slice_ref quasars None (Some 1000)) (\<lambda>all_sources.
     bind_nb (read_csv L star_path 0 usecols_class) (\<lambda>stars.
     bind_nb (append_ref all_sources stars) (\<lambda>all_sources.
     bind_nb (read_csv L galaxy_path 0 usecols_class) (\<lambda>galaxies.
     bind_nb (append_ref all_sources galaxies) (\<lambda>all_sources.
     bind_nb (clean_ref all_sources) (\<lambda>all_sources.
     bind_nb (column all_sources ''class'') (\<lambda>all_labels.
     bind_nb (copy_copy all_sources) (\<lambda>all_features.
     bind_nb (delitem all_features ''class'') (\<lambda>_.
     bind_nb (frame_of all_features) (\<lambda>df.
     ret (all_sources, all_labels, all_features, values_of df, all_labels))))))))))))"

definition cell53 :: "cell list list \<Rightarrow> cell list \<Rightarrow> unit nb" where
  "cell53 X y =
     bind_nb (print [Text ''Feature vector shape ='', Attr ''shape'' (Array2 X)]) (\<lambda>_.
     print [Text ''Class label vector shape ='', Attr ''shape'' (Array y)])"

definition cell54 :: "cell list list \<Rightarrow> cell list \<Rightarrow> unit nb" where
  "cell54 X y = print [Array y, Array2 X]"

text \<open>
  \<^verbatim>\<open>yy = all_labels.values.copy()\<close>
  \<^verbatim>\<open>yy[yy=="QSO"] = 0.0    # Red\<close>
  \<^verbatim>\<open>yy[yy=="STAR"] = 0.5   # Green\<close>
  \<^verbatim>\<open>yy[yy=="GALAXY"] = 1.0 # Blue\<close>
\<close>

definition assign_where :: "cell \<Rightarrow> cell \<Rightarrow> cell list \<Rightarrow> cell list" where
  "assign_where k v xs = map (\<lambda>c. if c = k then v else c) xs"

definition yy :: "cell list \<Rightarrow> cell list" where
  "yy all_labels =
     assign_where (Str ''GALAXY'') (Num 1)
       (assign_where (Str ''STAR'') (Num (1 / 2))
         (assign_where (Str ''QSO'') (Num 0) all_labels))"

definition cell56 :: "'m library \<Rightarrow> cell list \<Rightarrow> nat \<Rightarrow> unit nb" where
  "cell56 L all_labels all_features =
     bind_nb (frame_of all_features) (\<lambda>df.
     figure L 56 [Table df, Array (yy all_labels)])"

subsection \<open>Classification: random forest\<close>

text \<open>
  \<^verbatim>\<open>rf = RandomForestClassifier(n_estimators=100, oob_score=True)\<close>
  \<^verbatim>\<open>rf.fit(X, y)\<close>
\<close>

definition cell58 :: "'m library \<Rightarrow> cell list list \<Rightarrow> cell list \<Rightarrow> 'm nb" where
  "cell58 L X y =
     bind_nb (random_call (\<lambda>s. fit L s (RandomForestClassifier L 100 True) X y)) (\<lambda>rf.
     bind_nb (out (Object (repr L rf))) (\<lambda>_.
     ret rf))"

text \<open>
  \<^verbatim>\<open>sorted(zip(all_sources.columns.values,rf.feature_importances_),key=lambda q: q[1],reverse=True)\<close>
\<close>

definition sorted_desc :: "(string \<times> real) list \<Rightarrow> (string \<times> real) list" where
  "sorted_desc xs = rev (sort_key snd (rev xs))"

definition cell60 :: "'m library \<Rightarrow> nat \<Rightarrow> 'm \<Rightarrow> unit nb" where
  "cell60 L all_sources rf =
     bind_nb (frame_of all_sources) (\<lambda>df.
     bind_nb (lift (feature_importances L rf)) (\<lambda>imp.
     out (Ranking (sorted_desc (zip (names df) imp)))))"

text \<open>\<^verbatim>\<open>rf.oob_score_\<close>\<close>

definition cell62 :: "'m library \<Rightarrow> 'm \<Rightarrow> unit nb" where
  "cell62 L rf = bind_nb (lift (oob_score L rf)) (\<lambda>v. out (Number v))"

text \<open>
  \<^verbatim>\<open>parameters = {'n_estimators':(50,100,200), "max_features": ["auto",3],\<close>
  \<^verbatim>\<open>              'criterion':["gini","entropy"], "min_samples_leaf": [1,2]}\<close>
  \<^verbatim>\<open>X_train, X_test, y_train, y_test = train_test_split(X, y, test_size=0.25)\<close>
\<close>

definition parameters :: "(string \<times> pvalue list) list" where
  "parameters =
     [(''n_estimators'', [I 50, I 100, I 200]),
      (''max_features'', [T ''auto'', I 3]),
      (''criterion'', [T ''gini'', T ''entropy'']),
      (''min_samples_leaf'', [I 1, I 2])]"

definition cell65 :: "'m library \<Rightarrow> cell list list \<Rightarrow> cell list \<Rightarrow> split nb" where
  "cell65 L X y = random_call (\<lambda>s. train_test_split L s X y (Some (1 / 4)))"

text \<open>
  \<^verbatim>\<open>rf_tuned = GridSearchCV(rf, parameters, cv=3, verbose=1)\<close>
  \<^verbatim>\<open>RFselector = rf_tuned.fit(X_train, y_train)\<close>
  \<^verbatim>\<open>print('Best OOB score:', RFselector.best_score_)\<close>
  \<^verbatim>\<open>print(RFselector.best_estimator_)\<close>
\<close>

definition rf_tuned :: "'m \<Rightarrow> 'm GridSearchCV" where
  "rf_tuned rf = \<lparr>estimator = rf, param_grid = parameters, cv = Some 3, verbose = 1\<rparr>"

definition cell66 :: "'m library \<Rightarrow> 'm \<Rightarrow> cell list list \<Rightarrow> cell list \<Rightarrow> 'm fitted_search nb" where
  "cell66 L rf X_train y_train =
     bind_nb (GridSearchCV_fit L (rf_tuned rf) X_train y_train) (\<lambda>RFselector.
     bind_nb (print [Text ''Best OOB score:'', Number (best_score RFselector)]) (\<lambda>_.
     bind_nb (print [Object (repr L (best_estimator RFselector))]) (\<lambda>_.
     ret RFselector)))"

text \<open>\<^verbatim>\<open>y_pred = RFselector.predict(X_test)\<close>\<close>

definition cell69 :: "'m library \<Rightarrow> 'm fitted_search \<Rightarrow> cell list list \<Rightarrow> cell list nb" where
  "cell69 L RFselector X_test = lift (predict L (best_estimator RFselector) X_test)"

text \<open>\<^verbatim>\<open>cm = confusion_matrix(y_test, y_pred)\<close> and its picture.\<close>

definition cell70 :: "'m library \<Rightarrow> cell list \<Rightarrow> cell list \<Rightarrow> unit nb" where
  "cell70 L y_test y_pred =
     bind_nb (lift (confusion_matrix L y_test y_pred)) (\<lambda>cm.
     bind_nb (figure L 70 [Counts cm]) (\<lambda>_.
     out (Object ''Text'')))"

text \<open>
  \<^verbatim>\<open>BestRFselector = RFselector.best_estimator_\<close>
  \<^verbatim>\<open>y_prob = BestRFselector.fit(X_train, y_train).predict_proba(X_test)\<close>
\<close>

definition cell75 ::
  "'m library \<Rightarrow> 'm fitted_search \<Rightarrow> cell list list \<Rightarrow> cell list \<Rightarrow> cell list list
     \<Rightarrow> ('m \<times> real list list) nb"
where
  "cell75 L RFselector X_train y_train X_test =
     bind_nb (random_call (\<lambda>s. fit L s (best_estimator RFselector) X_train y_train)) (\<lambda>BestRFselector.
     bind_nb (lift (predict_proba L BestRFselector X_test)) (\<lambda>y_prob.
     ret (BestRFselector, y_prob)))"

text \<open>
  \<^verbatim>\<open>labels = BestRFselector.classes_\<close>
  \<^verbatim>\<open>fpr = dict()\<close>, \<^verbatim>\<open>tpr = dict()\<close>, \<^verbatim>\<open>roc_auc = dict()\<close>
  \<^verbatim>\<open>for i,label in enumerate(labels):\<close>
  \<^verbatim>\<open>    fpr[label], tpr[label], _ = roc_curve(y_test, y_prob[:, i], pos_label=label)\<close>
  \<^verbatim>\<open>    roc_auc[label] = auc(fpr[label], tpr[label])\<close>
\<close>

type_synonym rocs = "(cell \<rightharpoonup> real list) \<times> (cell \<rightharpoonup> real list) \<times> (cell \<rightharpoonup> real)"

definition column_of :: "nat \<Rightarrow> 'a list list \<Rightarrow> error + 'a list" where
  "column_of i rows = traverse (\<lambda>row. item row i) rows"

fun key_text :: "cell \<Rightarrow> string" where
  "key_text (Str s) = s"
| "key_text c = ''''"

definition lookup :: "(cell \<rightharpoonup> 'a) \<Rightarrow> cell \<Rightarrow> error + 'a" where
  "lookup d k = (case d k of None \<Rightarrow> Inl (KeyError (key_text k)) | Some v \<Rightarrow> Inr v)"

fun roc_loop ::
  "'m library \<Rightarrow> cell list \<Rightarrow> real list list \<Rightarrow> (nat \<times> cell) list \<Rightarrow> rocs \<Rightarrow> error + rocs"
where
  "roc_loop L y_test y_prob [] d = Inr d"
| "roc_loop L y_test y_prob ((i, label) # rest) (fpr, tpr, roc_auc) =
     bind_e (column_of i y_prob) (\<lambda>probs.
     bind_e (roc_curve L y_test probs label) (\<lambda>(f, t, thresholds).
     bind_e (lookup (fpr(label \<mapsto> f)) label) (\<lambda>f'.
     bind_e (lookup (tpr(label \<mapsto> t)) label) (\<lambda>t'.
     bind_e (auc L f' t') (\<lambda>a.
     roc_loop L y_test y_prob rest (fpr(label \<mapsto> f), tpr(label \<mapsto> t), roc_auc(label \<mapsto> a)))))))"

definition cell76 :: "'m library \<Rightarrow> 'm \<Rightarrow> cell list \<Rightarrow> real list list \<Rightarrow> (cell list \<times> rocs) nb" where
  "cell76 L BestRFselector y_test y_prob =
     bind_nb (lift (classes L BestRFselector)) (\<lambda>labels.
     bind_nb (lift (roc_loop L y_test y_prob (enumerate 0 labels) (Map.empty, Map.empty, Map.empty))) (\<lambda>d.
     ret (labels, d)))"

text \<open>
  \<^verbatim>\<open>colors = {'QSO':'red', 'STAR':'green', 'GALAXY':'blue'}\<close>
  \<^verbatim>\<open>for label in labels:\<close>
  \<^verbatim>\<open>    plot(fpr[label], tpr[label], color=colors[label],\<close>
  \<^verbatim>\<open>         lw=lw, label='%s (AUC = %0.3f)' % (label, roc_auc[label]))\<close>
\<close>

definition colors :: "cell \<rightharpoonup> string" where
  "colors = map_of [(Str ''QSO'', ''red''), (Str ''STAR'', ''green''), (Str ''GALAXY'', ''blue'')]"

definition curve :: "rocs \<Rightarrow> cell \<Rightarrow> error + shown" where
  "curve d label =
     (case d of (fpr, tpr, roc_auc) \<Rightarrow>
        bind_e (lookup fpr label) (\<lambda>f.
        bind_e (lookup tpr label) (\<lambda>t.
        bind_e (lookup colors label) (\<lambda>c.
        bind_e (lookup roc_auc label) (\<lambda>a.
        Inr (Curve f t c label a))))))"

definition cell77 :: "'m library \<Rightarrow> cell list \<Rightarrow> rocs \<Rightarrow> unit nb" where
  "cell77 L labels d =
     bind_nb (lift (traverse (curve d) labels)) (\<lambda>curves.
     figure L 77 curves)"

subsection \<open>The run\<close>

text \<open>
  The cells in their order. The regression part returns the variables that the last cells
  work with: the split, the estimator, the fitted search, the final model and its
  predictions on the test set.
\<close>

definition regression ::
  "'m library \<Rightarrow> (split \<times> 'm \<times> 'm fitted_search \<times> 'm \<times> cell list) nb"
where
  "regression L =
     bind_nb (cell7 L) (\<lambda>(qsos, qso_redshifts, qso_features).
     bind_nb (cell9 L qso_redshifts) (\<lambda>_.
     bind_nb (cell10 L qso_redshifts qso_features) (\<lambda>_.
     bind_nb (cell12 qso_redshifts qso_features) (\<lambda>(X, y).
     bind_nb (cell13 X y) (\<lambda>_.
     bind_nb (cell15 L X y) (\<lambda>((X_train, X_test, y_train, y_test), y_lr_pred, mse_linear', r2_linear).
     bind_nb (cell16 L y_test y_lr_pred mse_linear') (\<lambda>_.
     bind_nb (cell18 y_train mse_linear') (\<lambda>_.
     bind_nb (cell20 L X y) (\<lambda>(X_scaled, KNN, (X_train, X_test, y_train, y_test)).
     bind_nb (cell21 L KNN X_test y_test mse_linear' r2_linear) (\<lambda>(y_knn_pred, mse_knn', r2_knn).
     bind_nb (cell22 L y_test y_knn_pred mse_knn') (\<lambda>_.
     bind_nb (cell24 L KNN X_scaled y) (\<lambda>(training_scores, validation_scores).
     bind_nb (cell26 L training_scores validation_scores) (\<lambda>_.
     bind_nb cell29 (\<lambda>_.
     bind_nb (cell32 L KNN X_train y_train) (\<lambda>fitted.
     bind_nb (cell33 L fitted X_test y_test mse_knn' r2_knn) (\<lambda>_.
     bind_nb (cell35 fitted) (\<lambda>_.
     bind_nb (cell38 L KNN X_scaled y) (\<lambda>R2.
     bind_nb (cell39 R2) (\<lambda>_.
     bind_nb (cell42 L fitted X_train y_train) (\<lambda>KNNz.
     bind_nb (cell43 L KNNz X_test y_test) (\<lambda>_.
     bind_nb (cell44 L KNNz X_test y_test) (\<lambda>zphoto.
     ret ((X_train, X_test, y_train, y_test), KNN, fitted, KNNz, zphoto)))))))))))))))))))))))"

definition classification :: "'m library \<Rightarrow> unit nb" where
  "classification L =
     bind_nb (cell51 L) (\<lambda>(all_sources, all_labels, all_features, X, y).
     bind_nb (cell53 X y) (\<lambda>_.
     bind_nb (cell54 X y) (\<lambda>_.
     bind_nb (cell56 L all_labels all_features) (\<lambda>_.
     bind_nb (cell58 L X y) (\<lambda>rf.
     bind_nb (cell60 L all_sources rf) (\<lambda>_.
     bind_nb (cell62 L rf) (\<lambda>_.
     bind_nb (cell65 L X y) (\<lambda>(X_train, X_test, y_train, y_test).
     bind_nb (cell66 L rf X_train y_train) (\<lambda>RFselector.
     bind_nb (cell69 L RFselector X_test) (\<lambda>y_pred.
     bind_nb (cell70 L y_test y_pred) (\<lambda>_.
     bind_nb (cell75 L RFselector X_train y_train X_test) (\<lambda>(BestRFselector, y_prob).
     bind_nb (cell76 L BestRFselector y_test y_prob) (\<lambda>(labels, d).
     cell77 L labels d)))))))))))))"

definition run :: "'m library \<Rightarrow> unit nb" where
  "run L = bind_nb (regression L) (\<lambda>_. classification L)"

subsection \<open>Events that read a catalogue or write on the display\<close>

fun read_or_display :: "event \<Rightarrow> bool" where
  "read_or_display (Read_csv p) = (p \<in> {qso_path, qso_path2, star_path, galaxy_path})"
| "read_or_display (Print xs) = True"
| "read_or_display (Out x) = True"
| "read_or_display (Figure n) = True"
| "read_or_display (Progress s) = True"
| "read_or_display (Write_file p) = False"
| "read_or_display (Request u) = False"

text \<open>
  The narrower reading, by the letter: a catalogue is read or a plot is rendered, and
  nothing else.
\<close>

fun read_or_plot :: "event \<Rightarrow> bool" where
  "read_or_plot (Read_csv p) = (p \<in> {qso_path, qso_path2, star_path, galaxy_path})"
| "read_or_plot (Figure n) = True"
| "read_or_plot ev = False"

text \<open>
  A statement is quiet when, from any state, it leaves the file system as it was and
  adds to the trace only such events.
\<close>

definition quiet :: "'a nb \<Rightarrow> bool" where
  "quiet m \<longleftrightarrow>
     (\<forall>st. files (snd (m st)) = files st \<and>
           (\<exists>es. trace (snd (m st)) = trace st @ es \<and> list_all read_or_display es))"

section \<open>Well-formed tables\<close>

text \<open>
  A table of the fixed schema \<open>ns\<close>: it has these column labels, and every row has one
  cell for each of them.
\<close>

definition table :: "string list \<Rightarrow> frame \<Rightarrow> bool" where
  "table ns df \<longleftrightarrow> names df = ns \<and> (\<forall>r \<in> set (recs df). length (snd r) = length ns)"

section \<open>Example data\<close>

text \<open>Small catalogues and stand-ins for the library routines, to run the cells on.\<close>

definition demo :: frame where
  "demo = \<lparr>names = [''dered_r'', ''spec_z'', ''g_r_color''],
           recs = [(Num 1, [Num 19, Num 2, Num 1]),
                   (Num 2, [Num (- 9999), Num 1, Num 0]),
                   (Num 3, [Num 18, Num 1, Num 12]),
                   (Num 4, [Num 18, Num 1, NaN])], index_dtype = Int64\<rparr>"

definition names_z :: "string list" where
  "names_z = [''dered_r'', ''spec_z'', ''u_g_color'', ''g_r_color'', ''r_i_color'',
              ''i_z_color'', ''diff_u'', ''diff_g1'', ''diff_i'', ''diff_z'']"

definition names_class :: "string list" where
  "names_class = [''dered_r'', ''u_g_color'', ''g_r_color'', ''r_i_color'',
                  ''i_z_color'', ''diff_u'', ''diff_g1'', ''diff_i'', ''diff_z'', ''class'']"

definition demo_qso_z :: frame where
  "demo_qso_z = \<lparr>names = names_z,
     recs = [(Num 101, [Num 19, Num 2, Num 0, Num 1, Num 0, Num 0, Num 0, Num 0, Num 0, Num 0]),
             (Num 102, [Num (- 9999), Num 1, Num 0, Num 0, Num 0, Num 0, Num 0, Num 0, Num 0, Num 0]),
             (Num 103, [Num 18, Num 3, Num 0, Num 12, Num 0, Num 0, Num 0, Num 0, Num 0, Num 0])], index_dtype = Int64\<rparr>"

definition demo_qso :: frame where
  "demo_qso = \<lparr>names = names_class,
     recs = [(Num 101, [Num 19, Num 0, Num 1, Num 0, Num 0, Num 0, Num 0, Num 0, Num 0, Str ''QSO'']),
             (Num 102, [Num (- 9999), Num 0, Num 0, Num 0, Num 0, Num 0, Num 0, Num 0, Num 0, Str ''QSO''])], index_dtype = Int64\<rparr>"

definition demo_star :: frame where
  "demo_star = \<lparr>names = names_class,
     recs = [(Num 201, [Num 17, Num 0, Num 1, Num 0, Num 0, Num 0, Num 0, Num 0, Num 0, Str ''STAR'']),
             (Num 202, [Num 16, Num 0, Num 2, Num 0, Num 0, Num 0, Num 0, Num 0, Num 0, Str ''STAR''])], index_dtype = Int64\<rparr>"

definition demo_galaxy :: frame where
  "demo_galaxy = \<lparr>names = names_class,
     recs = [(Num 301, [Num 15, Num 0, Num 12, Num 0, Num 0, Num 0, Num 0, Num 0, Num 0, Str ''GALAXY''])], index_dtype = Int64\<rparr>"

definition demo_other :: frame where
  "demo_other = \<lparr>names = names_class,
     recs = [(Num 401, [Num 15, Num 0, Num 1, Num 0, Num 0, Num 0, Num 0, Num 0, Num 0, Str ''UNKNOWN''])], index_dtype = Int64\<rparr>"

text \<open>
  Three more quasar catalogues: one of 1002 good rows, one whose two good rows have
  fractional identifiers (a float index, sorted), and one where an identifier is missing
  (a float index that is not sorted).
\<close>

definition demo_qso_many :: frame where
  "demo_qso_many = \<lparr>names = names_class,
     recs = map (\<lambda>i. (Num (real i),
                   [Num 19, Num 0, Num 1, Num 0, Num 0, Num 0, Num 0, Num 0, Num 0, Str ''QSO'']))
              [0..<1002],
     index_dtype = Int64\<rparr>"

definition demo_qso_float :: frame where
  "demo_qso_float = \<lparr>names = names_class,
     recs = [(Num (3001 / 2), [Num 19, Num 0, Num 1, Num 0, Num 0, Num 0, Num 0, Num 0, Num 0, Str ''QSO'']),
             (Num 1502, [Num 18, Num 0, Num 1, Num 0, Num 0, Num 0, Num 0, Num 0, Num 0, Str ''QSO''])],
     index_dtype = Float64\<rparr>"

definition demo_qso_nan :: frame where
  "demo_qso_nan = \<lparr>names = names_class,
     recs = [(Num 101, [Num 19, Num 0, Num 1, Num 0, Num 0, Num 0, Num 0, Num 0, Num 0, Str ''QSO'']),
             (NaN, [Num 18, Num 0, Num 1, Num 0, Num 0, Num 0, Num 0, Num 0, Num 0, Str ''QSO''])],
     index_dtype = Float64\<rparr>"

definition demo_row :: "cell list" where
  "demo_row = [Num 19, Num 0, Num 1, Num 0, Num 0, Num 0, Num 0, Num 0, Num 0]"

definition demo_best :: "(string \<times> pvalue) list" where
  "demo_best = [(''n_neighbors'', I 8), (''p'', I 1), (''weights'', T ''uniform'')]"

definition demo_cleaned :: frame where
  "demo_cleaned = \<lparr>names = names_z,
     recs = [(Num 101, [Num 19, Num 2, Num 0, Num 1, Num 0, Num 0, Num 0, Num 0, Num 0, Num 0])], index_dtype = Int64\<rparr>"

definition demo_features :: frame where
  "demo_features = \<lparr>names = [''dered_r'', ''u_g_color'', ''g_r_color'', ''r_i_color'',
              ''i_z_color'', ''diff_u'', ''diff_g1'', ''diff_i'', ''diff_z''],
     recs = [(Num 101, demo_row)], index_dtype = Int64\<rparr>"

definition demo_rf_best :: "(string \<times> pvalue) list" where
  "demo_rf_best = [(''criterion'', T ''gini''), (''max_features'', T ''auto''),
      (''min_samples_leaf'', I 1), (''n_estimators'', I 50)]"

definition demo_all :: frame where
  "demo_all = \<lparr>names = names_class,
             recs = [(Num 101, [Num 19, Num 0, Num 1, Num 0, Num 0, Num 0, Num 0, Num 0, Num 0, Str ''QSO'']),
                     (Num 201, [Num 17, Num 0, Num 1, Num 0, Num 0, Num 0, Num 0, Num 0, Num 0, Str ''STAR'']),
                     (Num 202, [Num 16, Num 0, Num 2, Num 0, Num 0, Num 0, Num 0, Num 0, Num 0, Str ''STAR''])], index_dtype = Int64\<rparr>"

definition demo_all_features :: frame where
  "demo_all_features = \<lparr>names = [''dered_r'', ''u_g_color'', ''g_r_color'', ''r_i_color'',
                  ''i_z_color'', ''diff_u'', ''diff_g1'', ''diff_i'', ''diff_z''],
             recs = [(Num 101, [Num 19, Num 0, Num 1, Num 0, Num 0, Num 0, Num 0, Num 0, Num 0]),
                     (Num 201, [Num 17, Num 0, Num 1, Num 0, Num 0, Num 0, Num 0, Num 0, Num 0]),
                     (Num 202, [Num 16, Num 0, Num 2, Num 0, Num 0, Num 0, Num 0, Num 0, Num 0])], index_dtype = Int64\<rparr>"

definition demo_parse :: "string \<Rightarrow> nat \<Rightarrow> string list \<Rightarrow> error + frame" where
  "demo_parse text index_col usecols =
     (if text = ''qso'' then Inr (if ''spec_z'' \<in> set usecols then demo_qso_z else demo_qso)
      else if text = ''star'' then Inr demo_star
      else if text = ''galaxy'' then Inr demo_galaxy
      else if text = ''other'' then Inr demo_other
      else if text = ''qso_many'' then Inr demo_qso_many
      else if text = ''qso_float'' then Inr demo_qso_float
      else if text = ''qso_nan'' then Inr demo_qso_nan
      else Inl (ParserError text))"

definition demo_split :: "cell list list \<Rightarrow> cell list \<Rightarrow> error + split" where
  "demo_split X y =
     (case (X, y) of
        (x # xs, v # vs) \<Rightarrow> Inr (X, replicate 572 x, y, replicate 572 v)
      | _ \<Rightarrow> Inl ValueError)"

definition demo_score :: "(string \<times> pvalue) list \<Rightarrow> real" where
  "demo_score m = (case map_of m ''n_neighbors'' of Some (I n) \<Rightarrow> - \<bar>real_of_int n - 8\<bar> | _ \<Rightarrow> 0)"

definition demo_lib :: "(string \<times> pvalue) list library" where
  "demo_lib = \<lparr>
     parse_csv = demo_parse,
     train_test_split = (\<lambda>s X y test_size. demo_split X y),
     scale = Inr,
     LinearRegression = [],
     KNeighborsRegressor = (\<lambda>n. [(''n_neighbors'', I (int n))]),
     RandomForestClassifier = (\<lambda>n b. [(''n_estimators'', I (int n))]),
     clone = (\<lambda>m. m),
     set_params = (\<lambda>m ps. Inr ps),
     fit = (\<lambda>s m X y. Inr m),
     predict = (\<lambda>m X. Inr (map (\<lambda>row. Num 1) X)),
     predict_proba = (\<lambda>m X. Inr (map (\<lambda>row. [1 / 2, 1 / 4, 1 / 4]) X)),
     score = (\<lambda>m X y. Inr (1 / 2)),
     scorer = (\<lambda>name m X y. Inr (demo_score m + real (length X))),
     classes = (\<lambda>m. Inr [Str ''GALAXY'', Str ''QSO'', Str ''STAR'']),
     feature_importances = (\<lambda>m. Inr [3, 1, 2, 1, 1, 1, 1, 1, 1]),
     oob_score = (\<lambda>m. Inr (9 / 10)),
     repr = (\<lambda>m. ''estimator''),
     cv_mean_score = (\<lambda>s m n X y. Inr (demo_score m)),
     kfold = (\<lambda>n k X y. Inr (X, take (Suc k) X, y, take (Suc k) y)),
     validation_curve = (\<lambda>m X y name range n scoring. Inr ([[1, 1, 1]], [[1, 1, 1]])),
     confusion_matrix = (\<lambda>y_true y_pred. Inr [[1]]),
     roc_curve = (\<lambda>y probs label. Inr ([0, 1], [0, 1], [1, 0])),
     auc = (\<lambda>f t. Inr (1 / 2)),
     draw = (\<lambda>n args. Inr ())\<rparr>"



text \<open>
  File systems. The first holds the three catalogues under the four paths the
  notebook uses. The second has a star catalogue with one more class label, the third a
  galaxy catalogue that does not parse. The others have one of the three further quasar
  catalogues for the classification pipeline.
\<close>

definition demo_files :: "string \<rightharpoonup> string" where
  "demo_files = [qso_path \<mapsto> ''qso'', qso_path2 \<mapsto> ''qso'', star_path \<mapsto> ''star'',
                 galaxy_path \<mapsto> ''galaxy'']"

definition demo_state :: state where
  "demo_state = \<lparr>files = demo_files, trace = [],
                  heap = (\<lambda>r. \<lparr>names = [], recs = [], index_dtype = Int64\<rparr>), next_ref = 0, rng = 0\<rparr>"

definition other_state :: state where
  "other_state = demo_state\<lparr>files := demo_files(star_path \<mapsto> ''other'')\<rparr>"


definition quasars_state :: "string \<Rightarrow> state" where
  "quasars_state text = demo_state\<lparr>files := demo_files(qso_path2 \<mapsto> text)\<rparr>"

text \<open>The events of a run on the example library and the first file system, in order.\<close>

definition demo_trace :: "event list" where
  "demo_trace =
     [Read_csv qso_path, Out (Table demo_features),
      Figure 9, Out (Object ''Text''),
      Figure 10,
      Print [Text ''Design matrix shape ='', Attr ''shape'' (Array2 [demo_row])],
      Print [Text ''Response variable vector shape ='', Attr ''shape'' (Array [Num 2])],
      Print [Text ''Linear regression: MSE = '', Number 1],
      Print [Text ''R2 score ='', Number (1 / 2)],
      Figure 16, Out (Object ''ylim''),
      Print [Text ''Naive MSE'', Float (Some 0)],
      Print [Text ''Linear regression: MSE = '', Number 1],
      Out (Object ''estimator''),
      Print [Text ''MSE (KNN) ='', Number 1],
      Print [Text ''R2 score (KNN) ='', Number (1 / 2)],
      Print [Text ''cf.''],
      Print [Text ''MSE (linear regression) = '', Number 1],
      Print [Text ''R2 score (linear regression) ='', Number (1 / 2)],
      Figure 22,
      Figure 26,
      Print [Grid knn_param_grid],
      Progress ''GridSearchCV'', Out (Object ''GridSearchCV''),
      Print [Text ''MSE (tuned KNN) ='', Number 1],
      Print [Text ''R2 score (tuned KNN) ='', Number (1 / 2)],
      Print [Text ''cf.''],
      Print [Text ''MSE (KNN) = '', Number 1],
      Print [Text ''R2 score (KNN) ='', Number (1 / 2)],
      Out (Params demo_best),
      Progress ''GridSearchCV'', Progress ''GridSearchCV'', Progress ''GridSearchCV'',
      Print [Text ''Mean score:'', Float (meanR2 [1, 1, 1]), Text ''+/-'', Float (errR2 [1, 1, 1])],
      Out (Object ''estimator''),
      Print [Text ''True redshift cf. KNN photo-z:'', Value (Num 2), Text '' cf.'', Value (Num 1)],
      Figure 44,
      Read_csv qso_path2, Read_csv star_path, Read_csv galaxy_path,
      Print [Text ''Feature vector shape ='', Attr ''shape'' (Array2 (values_of demo_all_features))],
      Print [Text ''Class label vector shape ='',
             Attr ''shape'' (Array [Str ''QSO'', Str ''STAR'', Str ''STAR''])],
      Print [Array [Str ''QSO'', Str ''STAR'', Str ''STAR''], Array2 (values_of demo_all_features)],
      Figure 56,
      Out (Object ''estimator''),
      Out (Ranking (sorted_desc (zip names_class [3, 1, 2, 1, 1, 1, 1, 1, 1]))),
      Out (Number (9 / 10)),
      Progress ''GridSearchCV'',
      Print [Text ''Best OOB score:'', Number 0],
      Print [Object ''estimator''],
      Figure 70, Out (Object ''Text''),
      Figure 77]"

section \<open>Lemmas on the helpers\<close>

lemmas nb_defs = bind_nb_def ret_def lift_def emit_def new_frame_def frame_of_def copy_copy_def
  delitem_def slice_ref_def append_ref_def clean_ref_def column_def read_csv_def out_def print_def
  figure_def random_call_def

lemma position_less: "position c ns = Some j \<Longrightarrow> j < length ns \<and> ns ! j = c"
  by (induction ns arbitrary: j) (auto split: if_splits)

lemma position_mem: "position c ns = Some j \<Longrightarrow> c \<in> set ns"
  by (induction ns arbitrary: j) (auto split: if_splits)

lemma position_nth: "distinct ns \<Longrightarrow> k < length ns \<Longrightarrow> position (ns ! k) ns = Some k"
proof (induction ns arbitrary: k)
  case Nil then show ?case by simp
next
  case (Cons n ns)
  show ?case
  proof (cases k)
    case 0 then show ?thesis by simp
  next
    case (Suc k')
    with Cons.prems have "ns ! k' \<noteq> n" by auto
    with Suc Cons show ?thesis by simp
  qed
qed

lemma traverse_cell_gt:
  "\<forall>x \<in> set xs. \<not> is_str x \<Longrightarrow>
   traverse (cell_gt c) xs = Inr (map (\<lambda>x. \<exists>v. x = Num v \<and> c < v) xs)"
proof (induction xs)
  case Nil then show ?case by simp
next
  case (Cons x xs)
  then show ?case by (cases x) auto
qed

lemma traverse_cell_lt:
  "\<forall>x \<in> set xs. \<not> is_str x \<Longrightarrow>
   traverse (cell_lt c) xs = Inr (map (\<lambda>x. \<exists>v. x = Num v \<and> v < c) xs)"
proof (induction xs)
  case Nil then show ?case by simp
next
  case (Cons x xs)
  then show ?case by (cases x) auto
qed

lemma mask_and_map: "mask_and (map P xs) (map Q xs) = map (\<lambda>x. P x \<and> Q x) xs"
  by (induction xs) (simp_all add: mask_and_def)

lemma select_map: "map fst (filter snd (zip xs (map P xs))) = filter P xs"
  by (induction xs) simp_all

text \<open>The cleaning line, worked out: which rows it keeps.\<close>

lemma clean_filter:
  assumes i: "position ''dered_r'' (names df) = Some i"
    and j: "position ''g_r_color'' (names df) = Some j"
    and num: "\<forall>r \<in> set (recs df). \<not> is_str (cell_at i r) \<and> \<not> is_str (cell_at j r)"
  shows "clean df = Inr (df\<lparr>recs := filter (\<lambda>r. \<exists>m g. cell_at i r = Num m \<and> cell_at j r = Num g \<and>
                                     - 9999 < m \<and> - 10 < g \<and> g < 10) (recs df)\<rparr>)"
proof -
  let ?dr = "map (cell_at i) (recs df)" and ?gr = "map (cell_at j) (recs df)"
  have a: "getitem df ''dered_r'' = Inr ?dr" "getitem df ''g_r_color'' = Inr ?gr"
    using i j by (simp_all add: getitem_def)
  have b: "\<forall>x \<in> set ?dr. \<not> is_str x" "\<forall>x \<in> set ?gr. \<not> is_str x"
    using num by auto
  have m1: "series_gt ?dr (- 9999) = Inr (map (\<lambda>r. \<exists>v. cell_at i r = Num v \<and> - 9999 < v) (recs df))"
    unfolding series_gt_def traverse_cell_gt[OF b(1)] by (simp add: comp_def)
  have m2: "series_gt ?gr (- 10) = Inr (map (\<lambda>r. \<exists>v. cell_at j r = Num v \<and> - 10 < v) (recs df))"
    unfolding series_gt_def traverse_cell_gt[OF b(2)] by (simp add: comp_def)
  have m3: "series_lt ?gr 10 = Inr (map (\<lambda>r. \<exists>v. cell_at j r = Num v \<and> v < 10) (recs df))"
    unfolding series_lt_def traverse_cell_lt[OF b(2)] by (simp add: comp_def)
  have "clean df = Inr (select_rows df (map (\<lambda>r. ((\<exists>v. cell_at i r = Num v \<and> - 9999 < v) \<and>
          (\<exists>v. cell_at j r = Num v \<and> - 10 < v)) \<and> (\<exists>v. cell_at j r = Num v \<and> v < 10)) (recs df)))"
    by (simp add: clean_def a m1 m2 m3 mask_and_map)
  moreover have "(\<lambda>r. ((\<exists>v. cell_at i r = Num v \<and> - 9999 < v) \<and>
          (\<exists>v. cell_at j r = Num v \<and> - 10 < v)) \<and> (\<exists>v. cell_at j r = Num v \<and> v < 10))
     = (\<lambda>r. \<exists>m g. cell_at i r = Num m \<and> cell_at j r = Num g \<and> - 9999 < m \<and> - 10 < g \<and> g < 10)"
    by auto
  ultimately show ?thesis
    by (simp add: select_rows_def select_map)
qed

text \<open>Appending tables of one schema puts the rows one after the other.\<close>

lemma reorder_row:
  assumes "distinct ns" "length cs = length ns"
  shows "map (\<lambda>n. case position n ns of None \<Rightarrow> NaN | Some j \<Rightarrow> cell_at j (i, cs)) ns = cs"
proof (rule nth_equalityI)
  show "length (map (\<lambda>n. case position n ns of None \<Rightarrow> NaN | Some j \<Rightarrow> cell_at j (i, cs)) ns) = length cs"
    using assms by simp
next
  fix k assume "k < length (map (\<lambda>n. case position n ns of None \<Rightarrow> NaN | Some j \<Rightarrow> cell_at j (i, cs)) ns)"
  then have k: "k < length ns" by simp
  then show "map (\<lambda>n. case position n ns of None \<Rightarrow> NaN | Some j \<Rightarrow> cell_at j (i, cs)) ns ! k = cs ! k"
    using assms by (simp add: position_nth cell_at_def)
qed

lemma reorder_same:
  assumes "distinct (names df)" "\<forall>r \<in> set (recs df). length (snd r) = length (names df)"
  shows "reorder (names df) df = recs df"
proof -
  have "(fst r, map (\<lambda>n. case position n (names df) of None \<Rightarrow> NaN | Some j \<Rightarrow> cell_at j r) (names df)) = r"
    if r: "r \<in> set (recs df)" for r
  proof (cases r)
    case (Pair i cs)
    with r assms(2) have "length cs = length (names df)" by auto
    from reorder_row[OF assms(1) this, of i] show ?thesis unfolding Pair fst_conv by (rule arg_cong)
  qed
  then show ?thesis unfolding reorder_def by (simp add: map_idI)
qed

lemma append_frame_same:
  assumes "distinct ns" "table ns a" "table ns b"
  shows "append_frame a b = \<lparr>names = ns, recs = recs a @ recs b,
           index_dtype = join_dtype (index_dtype a) (index_dtype b)\<rparr>"
  using assms reorder_same[of a] reorder_same[of b]
  by (simp add: append_frame_def table_def)

lemma table_append:
  assumes "distinct ns" "table ns a" "table ns b"
  shows "table ns (append_frame a b)"
  using assms by (auto simp: append_frame_same table_def)

lemma table_head: "table ns a \<Longrightarrow> table ns (head n a)"
  by (auto simp: table_def head_def dest: in_set_takeD)

text \<open>A slice keeps the columns and takes its rows from the table.\<close>

lemma getitem_slice_rows:
  assumes "getitem_slice df a b = Inr d"
  shows "\<exists>i j. d = df\<lparr>recs := drop i (take j (recs df))\<rparr>"
proof (cases "index_dtype df = Float64")
  case True
  with assms show ?thesis
    by (cases "case a of None \<Rightarrow> Inr 0 | Some a \<Rightarrow> get_slice_bound (map fst (recs df)) a False";
        cases "case b of None \<Rightarrow> Inr (length (recs df))
                 | Some b \<Rightarrow> get_slice_bound (map fst (recs df)) b True")
       (auto simp: getitem_slice_def)
next
  case False
  with assms show ?thesis
    by (auto simp: getitem_slice_def)
qed

lemma getitem_slice_names: "getitem_slice df a b = Inr d \<Longrightarrow> names d = names df"
  by (auto dest: getitem_slice_rows)

lemma getitem_slice_subset: "getitem_slice df a b = Inr d \<Longrightarrow> set (recs d) \<subseteq> set (recs df)"
  by (auto dest!: getitem_slice_rows in_set_dropD in_set_takeD)

lemma table_slice: "getitem_slice df a b = Inr d \<Longrightarrow> table ns df \<Longrightarrow> table ns d"
  using getitem_slice_names[of df a b d] getitem_slice_subset[of df a b d]
  by (auto simp: table_def)

text \<open>On an index of whole numbers or of objects, \<^verbatim>\<open>df[:n]\<close> is the first \<open>n\<close> rows.\<close>

lemma getitem_slice_positional:
  "index_dtype df \<noteq> Float64 \<Longrightarrow> getitem_slice df None (Some n) = Inr (head n df)"
  by (simp add: getitem_slice_def head_def)

text \<open>What the loading cells do when they succeed.\<close>

lemma cell7_success:
  assumes "cell7 L st = (Inr (qsos, z, feats), st')"
  shows "\<exists>text df0 df1 df2.
      files st qso_path = Some text \<and> parse_csv L text 0 usecols_z = Inr df0 \<and>
      clean df0 = Inr df1 \<and> getitem df1 ''spec_z'' = Inr z \<and>
      del_column ''spec_z'' df1 = Inr df2 \<and>
      qsos = Suc (next_ref st) \<and> feats = Suc (Suc (next_ref st)) \<and>
      st' = st\<lparr>trace := trace st @ [Read_csv qso_path, Out (Table (head 5 df2))],
         heap := (heap st)(next_ref st := df0, Suc (next_ref st) := df1, Suc (Suc (next_ref st)) := df2),
         next_ref := Suc (Suc (Suc (next_ref st)))\<rparr>"
  using assms by (auto simp add: cell7_def nb_defs split: option.splits sum.splits)

lemma cell51_success:
  assumes "cell51 L st = (Inr (all_sources, all_labels, all_features, X, y), st')"
  shows "\<exists>tq ts tg q s g first cleaned feats.
      files st qso_path2 = Some tq \<and> parse_csv L tq 0 usecols_class = Inr q \<and>
      getitem_slice q None (Some 1000) = Inr first \<and>
      files st star_path = Some ts \<and> parse_csv L ts 0 usecols_class = Inr s \<and>
      files st galaxy_path = Some tg \<and> parse_csv L tg 0 usecols_class = Inr g \<and>
      clean (append_frame (append_frame first s) g) = Inr cleaned \<and>
      getitem cleaned ''class'' = Inr all_labels \<and>
      del_column ''class'' cleaned = Inr feats \<and>
      X = values_of feats \<and> y = all_labels \<and>
      all_features \<noteq> all_sources \<and>
      heap st' all_sources = cleaned \<and> heap st' all_features = feats"
  using assms by (auto simp add: cell51_def nb_defs split: option.splits sum.splits)

section \<open>Cleaning\<close>

text \<open>
  C1. In both pipelines the cleaning line is \<open>clean\<close> (\<open>cell7\<close>, \<open>cell51\<close>). On a table that
  has the two columns, with no string in them, it returns a table with the same columns
  whose rows are exactly the rows of the input, in their order, where \<open>dered_r\<close> is a
  number greater than -9999 and \<open>g_r_color\<close> is a number strictly between -10 and 10;
  every other row is discarded (a missing value fails every comparison).
\<close>

theorem clean_keeps_exactly:
  assumes i: "position ''dered_r'' (names df) = Some i"
    and j: "position ''g_r_color'' (names df) = Some j"
    and num: "\<forall>r \<in> set (recs df). \<not> is_str (cell_at i r) \<and> \<not> is_str (cell_at j r)"
  shows "\<exists>df'. clean df = Inr df' \<and> names df' = names df \<and>
           recs df' = filter (\<lambda>r. \<exists>m g. cell_at i r = Num m \<and> cell_at j r = Num g \<and>
                                     - 9999 < m \<and> - 10 < g \<and> g < 10) (recs df) \<and>
           (\<forall>r. r \<in> set (recs df') \<longleftrightarrow>
                r \<in> set (recs df) \<and>
                (\<exists>m g. cell_at i r = Num m \<and> cell_at j r = Num g \<and> - 9999 < m \<and> - 10 < g \<and> g < 10))"
  unfolding clean_filter[OF i j num] by auto

theorem clean_keeps_exactly_witness:
  "position ''dered_r'' (names demo) = Some 0 \<and> position ''g_r_color'' (names demo) = Some 2 \<and>
   list_all (\<lambda>r. \<not> is_str (cell_at 0 r) \<and> \<not> is_str (cell_at 2 r)) (recs demo) \<and>
   clean demo = Inr (demo\<lparr>recs := [(Num 1, [Num 19, Num 2, Num 1])]\<rparr>)"
proof -
  have h1: "position ''dered_r'' (names demo) = Some 0" by (simp add: demo_def)
  have h2: "position ''g_r_color'' (names demo) = Some 2" by (simp add: demo_def)
  have h3: "\<forall>r \<in> set (recs demo). \<not> is_str (cell_at 0 r) \<and> \<not> is_str (cell_at 2 r)"
    by (simp add: demo_def cell_at_def)
  from clean_keeps_exactly [OF h1 h2 h3] obtain df' where
    c: "clean demo = Inr df'" and n: "names df' = names demo" and
    r: "recs df' = filter (\<lambda>r. \<exists>m g. cell_at 0 r = Num m \<and> cell_at 2 r = Num g \<and>
                                     - 9999 < m \<and> - 10 < g \<and> g < 10) (recs demo)"
    by blast
  have "recs df' = [(Num 1, [Num 19, Num 2, Num 1])]"
    unfolding r by (simp add: demo_def cell_at_def)
  moreover from c clean_filter[OF h1 h2 h3] have "index_dtype df' = index_dtype demo"
    by auto
  ultimately have "df' = demo\<lparr>recs := [(Num 1, [Num 19, Num 2, Num 1])]\<rparr>"
    using n by (simp add: demo_def)
  with c h1 h2 h3 show ?thesis by (simp add: list_all_iff)
qed

section \<open>Running the loading cells\<close>

lemma cell51_exec:
  assumes "files st qso_path2 = Some tq" "parse_csv L tq 0 usecols_class = Inr q"
    and "files st star_path = Some ts" "parse_csv L ts 0 usecols_class = Inr s"
    and "files st galaxy_path = Some tg" "parse_csv L tg 0 usecols_class = Inr g"
    and "getitem_slice q None (Some 1000) = Inr first"
    and "clean (append_frame (append_frame first s) g) = Inr cleaned"
    and "getitem cleaned ''class'' = Inr all_labels"
    and "del_column ''class'' cleaned = Inr feats"
  shows "\<exists>st'. cell51 L st =
           (Inr (next_ref st + 6, all_labels, next_ref st + 7, values_of feats, all_labels), st') \<and>
         heap st' (next_ref st + 6) = cleaned \<and> heap st' (next_ref st + 7) = feats"
  using assms by (simp add: cell51_def nb_defs)

text \<open>The example catalogues, loaded.\<close>

lemma demo_files:
  "files demo_state qso_path = Some ''qso''" "files demo_state qso_path2 = Some ''qso''"
  "files demo_state star_path = Some ''star''" "files demo_state galaxy_path = Some ''galaxy''"
  by (simp_all add: demo_state_def demo_files_def qso_path_def qso_path2_def star_path_def
      galaxy_path_def)

lemma demo_parse:
  "parse_csv demo_lib ''qso'' 0 usecols_z = Inr demo_qso_z"
  "parse_csv demo_lib ''qso'' 0 usecols_class = Inr demo_qso"
  "parse_csv demo_lib ''star'' 0 usecols_class = Inr demo_star"
  "parse_csv demo_lib ''galaxy'' 0 usecols_class = Inr demo_galaxy"
  "parse_csv demo_lib ''other'' 0 usecols_class = Inr demo_other"
  "parse_csv demo_lib ''qso_many'' 0 usecols_class = Inr demo_qso_many"
  "parse_csv demo_lib ''qso_float'' 0 usecols_class = Inr demo_qso_float"
  "parse_csv demo_lib ''qso_nan'' 0 usecols_class = Inr demo_qso_nan"
  by (simp_all add: demo_lib_def demo_parse_def usecols_z_def usecols_class_def)

lemma demo_tables:
  "distinct names_class" "table names_class demo_qso" "table names_class demo_star"
  "table names_class demo_galaxy" "table names_class demo_other"
  by (simp_all add: table_def names_class_def demo_qso_def demo_star_def demo_galaxy_def
      demo_other_def)

lemma demo_positions:
  "position ''dered_r'' names_class = Some 0" "position ''g_r_color'' names_class = Some 2"
  "position ''class'' names_class = Some 9"
  by (simp_all add: names_class_def)

lemma demo_numeric:
  "\<forall>r \<in> set (recs demo_qso) \<union> set (recs demo_star) \<union> set (recs demo_galaxy).
      \<not> is_str (cell_at 0 r) \<and> \<not> is_str (cell_at 2 r)"
  by (simp add: demo_qso_def demo_star_def demo_galaxy_def cell_at_def)

lemma cell7_exec:
  assumes "files st qso_path = Some text"
    and "parse_csv L text 0 usecols_z = Inr df0"
    and "clean df0 = Inr df1"
    and "getitem df1 ''spec_z'' = Inr z"
    and "del_column ''spec_z'' df1 = Inr df2"
  shows "cell7 L st =
     (Inr (Suc (next_ref st), z, Suc (Suc (next_ref st))),
      st\<lparr>trace := trace st @ [Read_csv qso_path, Out (Table (head 5 df2))],
         heap := (heap st)(next_ref st := df0, Suc (next_ref st) := df1, Suc (Suc (next_ref st)) := df2),
         next_ref := Suc (Suc (Suc (next_ref st)))\<rparr>)"
  using assms by (simp add: cell7_def nb_defs)

lemma demo_clean_z:
  "clean demo_qso_z = Inr (demo_qso_z\<lparr>recs := [(Num 101, [Num 19, Num 2, Num 0, Num 1, Num 0, Num 0, Num 0, Num 0, Num 0, Num 0])]\<rparr>)"
  by (simp add: demo_qso_z_def names_z_def clean_def getitem_def cell_at_def series_gt_def
      series_lt_def mask_and_def select_rows_def)

lemma demo_cell7:
  "\<exists>st'. cell7 demo_lib demo_state = (Inr (1, [Num 2], 2), st')"
proof -
  let ?df1 = "demo_qso_z\<lparr>recs := [(Num 101, [Num 19, Num 2, Num 0, Num 1, Num 0, Num 0, Num 0, Num 0, Num 0, Num 0])]\<rparr>"
  have g: "getitem ?df1 ''spec_z'' = Inr [Num 2]"
    by (simp add: getitem_def demo_qso_z_def names_z_def cell_at_def)
  obtain df2 where d: "del_column ''spec_z'' ?df1 = Inr df2"
    by (simp add: del_column_def demo_qso_z_def names_z_def)
  from cell7_exec[OF demo_files(1) demo_parse(1) demo_clean_z g d]
  show ?thesis by (simp add: demo_state_def)
qed

lemma getitem_mem: "getitem df c = Inr xs \<Longrightarrow> c \<in> set (names df)"
  by (auto simp: getitem_def split: option.splits dest: position_mem)

text \<open>
  Deleting through the very reference changes the object it refers to: had the notebook
  written \<^verbatim>\<open>qso_features = qsos\<close>, the deletion would have reached \<^verbatim>\<open>qsos\<close>.
\<close>

lemma delitem_changes_object:
  "delitem r c st = (Inr (), st') \<Longrightarrow> del_column c (heap st r) = Inr (heap st' r)"
  by (auto simp: delitem_def split: sum.splits)

lemma del_column_names:
  "del_column c df = Inr df' \<Longrightarrow> length (names df') < length (names df)"
  by (auto simp: del_column_def drop_nth_def split: option.splits dest!: position_less)


lemma demo_slice: "getitem_slice demo_qso None (Some 1000) = Inr demo_qso"
  by (simp add: getitem_slice_def demo_qso_def)

lemma demo_cell51:
  "\<exists>all_sources all_features X st'.
     cell51 demo_lib demo_state =
       (Inr (all_sources, [Str ''QSO'', Str ''STAR'', Str ''STAR''], all_features, X,
             [Str ''QSO'', Str ''STAR'', Str ''STAR'']), st')"
proof -
  let ?a = "append_frame (append_frame demo_qso demo_star) demo_galaxy"
  let ?c = "\<lparr>names = names_class,
             recs = [(Num 101, [Num 19, Num 0, Num 1, Num 0, Num 0, Num 0, Num 0, Num 0, Num 0, Str ''QSO'']),
                     (Num 201, [Num 17, Num 0, Num 1, Num 0, Num 0, Num 0, Num 0, Num 0, Num 0, Str ''STAR'']),
                     (Num 202, [Num 16, Num 0, Num 2, Num 0, Num 0, Num 0, Num 0, Num 0, Num 0, Str ''STAR''])],
             index_dtype = Int64\<rparr>"
  have a: "?a = \<lparr>names = names_class, recs = recs demo_qso @ recs demo_star @ recs demo_galaxy,
             index_dtype = Int64\<rparr>"
    by (simp add: append_frame_def reorder_def join_dtype_def cell_at_def demo_qso_def demo_star_def
        demo_galaxy_def names_class_def)
  have c: "clean ?a = Inr ?c"
    unfolding a
    by (simp add: demo_qso_def demo_star_def demo_galaxy_def names_class_def clean_def getitem_def
        cell_at_def series_gt_def series_lt_def mask_and_def select_rows_def)
  have g: "getitem ?c ''class'' = Inr [Str ''QSO'', Str ''STAR'', Str ''STAR'']"
    by (simp add: getitem_def names_class_def cell_at_def)
  obtain feats where d: "del_column ''class'' ?c = Inr feats"
    by (simp add: del_column_def names_class_def)
  from cell51_exec[OF demo_files(2) demo_parse(2) demo_files(3) demo_parse(3) demo_files(4)
      demo_parse(4) demo_slice c g d]
  show ?thesis by blast
qed
section \<open>Lemmas on errors, scores and loops\<close>


lemma bind_e_Inr: "bind_e m f = Inr y \<longleftrightarrow> (\<exists>x. m = Inr x \<and> f x = Inr y)"
  by (cases m) auto


lemma traverse_as_real: "traverse as_real (map Num xs) = Inr xs"
  by (induction xs) simp_all

lemma mean_squared_error_nums:
  assumes "length ys = length ps" "ys \<noteq> []"
  shows "mean_squared_error (map Num ys) (map Num ps) =
           Inr ((\<Sum>(a, b)\<leftarrow>zip ys ps. (a - b) ^ 2) / real (length ys))"
  using assms by (simp add: mean_squared_error_def traverse_as_real)

lemma mean_squared_error_nonneg: "mean_squared_error y p = Inr v \<Longrightarrow> 0 \<le> v"
  by (auto simp: mean_squared_error_def bind_e_Inr split: if_splits
      intro!: divide_nonneg_nonneg sum_list_nonneg)

lemma cell15_success:
  assumes "cell15 L X y st = (Inr ((X_train, X_test, y_train, y_test), y_lr_pred, v, r2), st')"
  shows "\<exists>linear s s' m.
      train_test_split L s X y (Some (1 / 4)) = Inr (X_train, X_test, y_train, y_test) \<and>
      fit L s' (LinearRegression L) X_train y_train = Inr linear \<and>
      predict L linear X_test = Inr y_lr_pred \<and>
      mean_squared_error y_test y_lr_pred = Inr m \<and> v = sqrt m \<and>
      score L linear X_test y_test = Inr r2 \<and>
      trace st' = trace st @ [Print [Text ''Linear regression: MSE = '', Number v],
                              Print [Text ''R2 score ='', Number r2]]"
  using assms
  by (auto simp add: cell15_def nb_defs mse_linear_def bind_e_Inr split: sum.splits prod.splits)

lemma cell21_success:
  assumes "cell21 L KNN X_test y_test ml r2l st = (Inr (y_knn_pred, v, r2), st')"
  shows "predict L KNN X_test = Inr y_knn_pred \<and>
      mean_squared_error y_test y_knn_pred = Inr v \<and>
      score L KNN X_test y_test = Inr r2 \<and>
      trace st' = trace st @ [Print [Text ''MSE (KNN) ='', Number v],
                              Print [Text ''R2 score (KNN) ='', Number r2],
                              Print [Text ''cf.''],
                              Print [Text ''MSE (linear regression) = '', Number ml],
                              Print [Text ''R2 score (linear regression) ='', Number r2l]]"
  using assms
  by (auto simp add: cell21_def nb_defs mse_knn_def split: sum.splits prod.splits)


lemma mean_squared_error_replicate:
  "0 < n \<Longrightarrow> mean_squared_error (replicate n (Num a)) (replicate n (Num b)) = Inr ((a - b) ^ 2)"
  using mean_squared_error_nums[of "replicate n a" "replicate n b"]
  by (simp add: zip_replicate sum_list_replicate)

text \<open>numpy's mean and deviation are the textbook ones.\<close>

lemma foldl_plus: "foldl (+) a xs = a + sum_list (xs :: real list)"
  by (induction xs arbitrary: a) (simp_all add: add.assoc)

lemma np_mean_eq: "xs \<noteq> [] \<Longrightarrow> np_mean xs = Some (arithmetic_mean xs)"
  by (simp add: np_mean_def arithmetic_mean_def foldl_plus)

lemma np_std_eq: "xs \<noteq> [] \<Longrightarrow> np_std xs = Some (standard_deviation xs)"
  by (simp add: np_std_def standard_deviation_def arithmetic_mean_def np_mean_def foldl_plus)

lemma errR2_eq:
  "xs \<noteq> [] \<Longrightarrow> errR2 xs = Some (standard_deviation xs / sqrt (real (length xs)))"
  by (simp add: errR2_def np_std_eq np_sqrt_def np_divide_def)

lemma traverse_nth:
  "traverse f xs = Inr ys \<Longrightarrow>
     length ys = length xs \<and> (\<forall>k < length xs. f (xs ! k) = Inr (ys ! k))"
proof (induction xs arbitrary: ys)
  case Nil then show ?case by simp
next
  case (Cons x xs)
  then obtain z zs where a: "f x = Inr z" and b: "traverse f xs = Inr zs" and c: "ys = z # zs"
    by (auto simp: bind_e_Inr)
  show ?case using Cons.IH[OF b] a c by (auto simp: nth_Cons split: nat.splits)
qed

lemma bind_nb_Inr:
  "bind_nb m f st = (Inr y, st') \<longleftrightarrow> (\<exists>x st1. m st = (Inr x, st1) \<and> f x st1 = (Inr y, st'))"
  by (auto simp: bind_nb_def split: prod.splits sum.splits)

lemma traverse_nb_nth:
  "traverse_nb f xs st = (Inr ys, st') \<Longrightarrow>
     length ys = length xs \<and> (\<forall>k < length xs. \<exists>s1 s2. f (xs ! k) s1 = (Inr (ys ! k), s2))"
proof (induction xs arbitrary: ys st st')
  case Nil then show ?case by (simp add: ret_def)
next
  case (Cons x xs)
  then obtain z zs st1 st2 where a: "f x st = (Inr z, st1)"
    and b: "traverse_nb f xs st1 = (Inr zs, st2)" and c: "ys = z # zs"
    by (auto simp: bind_nb_Inr ret_def)
  show ?case using Cons.IH[OF b] a c by (auto simp: nth_Cons split: nat.splits)
qed



lemma GridSearchCV_fit_success:
  "GridSearchCV_fit L gs X y st = (Inr f, st') \<Longrightarrow> \<exists>s. search L s gs X y = Inr f"
  by (auto simp: GridSearchCV_fit_def nb_defs split: if_splits sum.splits)

lemma cross_val_score_success:
  assumes "cross_val_score L gs X y n scoring st = (Inr R2, st')"
  shows "length R2 = n \<and>
    (\<forall>k < n. \<exists>X_tr X_te y_tr y_te f s.
        kfold L n k X y = Inr (X_tr, X_te, y_tr, y_te) \<and>
        search L s gs X_tr y_tr = Inr f \<and>
        scorer L scoring (best_estimator f) X_te y_te = Inr (R2 ! k))"
proof -
  from assms obtain folds st1 where
    f: "traverse (\<lambda>k. kfold L n k X y) [0..<n] = Inr folds" and
    t: "traverse_nb (\<lambda>(X_tr, X_te, y_tr, y_te).
          bind_nb (GridSearchCV_fit L gs X_tr y_tr) (\<lambda>f.
          lift (scorer L scoring (best_estimator f) X_te y_te))) folds st1 = (Inr R2, st')"
    by (auto simp: cross_val_score_def bind_nb_Inr lift_def)
  from traverse_nth[OF f] have fl: "length folds = n"
    and fk: "\<And>k. k < n \<Longrightarrow> kfold L n k X y = Inr (folds ! k)" by auto
  from traverse_nb_nth[OF t] have rl: "length R2 = length folds"
    and rk: "\<And>k. k < length folds \<Longrightarrow> \<exists>s1 s2.
        (case folds ! k of (X_tr, X_te, y_tr, y_te) \<Rightarrow>
          bind_nb (GridSearchCV_fit L gs X_tr y_tr) (\<lambda>f.
          lift (scorer L scoring (best_estimator f) X_te y_te))) s1 = (Inr (R2 ! k), s2)"
    by auto
  have "\<exists>X_tr X_te y_tr y_te f s.
        kfold L n k X y = Inr (X_tr, X_te, y_tr, y_te) \<and>
        search L s gs X_tr y_tr = Inr f \<and>
        scorer L scoring (best_estimator f) X_te y_te = Inr (R2 ! k)" if k: "k < n" for k
  proof -
    obtain X_tr X_te y_tr y_te where p: "folds ! k = (X_tr, X_te, y_tr, y_te)"
      by (cases "folds ! k") auto
    from rk[of k] k fl p obtain s1 s2 f st2 where
      g: "GridSearchCV_fit L gs X_tr y_tr s1 = (Inr f, st2)" and
      sc: "scorer L scoring (best_estimator f) X_te y_te = Inr (R2 ! k)"
      by (auto simp: bind_nb_Inr lift_def)
    from GridSearchCV_fit_success[OF g] fk[OF k] p sc show ?thesis by auto
  qed
  with rl fl show ?thesis by simp
qed


text \<open>The grid of the KNN search, and the search on the example library.\<close>

lemma knn_grid:
  "ParameterGrid knn_param_grid =
    [[(''n_neighbors'', I 1), (''p'', I 1), (''weights'', T ''uniform'')],
     [(''n_neighbors'', I 1), (''p'', I 1), (''weights'', T ''distance'')],
     [(''n_neighbors'', I 1), (''p'', I 2), (''weights'', T ''uniform'')],
     [(''n_neighbors'', I 1), (''p'', I 2), (''weights'', T ''distance'')],
     [(''n_neighbors'', I 2), (''p'', I 1), (''weights'', T ''uniform'')],
     [(''n_neighbors'', I 2), (''p'', I 1), (''weights'', T ''distance'')],
     [(''n_neighbors'', I 2), (''p'', I 2), (''weights'', T ''uniform'')],
     [(''n_neighbors'', I 2), (''p'', I 2), (''weights'', T ''distance'')],
     [(''n_neighbors'', I 4), (''p'', I 1), (''weights'', T ''uniform'')],
     [(''n_neighbors'', I 4), (''p'', I 1), (''weights'', T ''distance'')],
     [(''n_neighbors'', I 4), (''p'', I 2), (''weights'', T ''uniform'')],
     [(''n_neighbors'', I 4), (''p'', I 2), (''weights'', T ''distance'')],
     [(''n_neighbors'', I 8), (''p'', I 1), (''weights'', T ''uniform'')],
     [(''n_neighbors'', I 8), (''p'', I 1), (''weights'', T ''distance'')],
     [(''n_neighbors'', I 8), (''p'', I 2), (''weights'', T ''uniform'')],
     [(''n_neighbors'', I 8), (''p'', I 2), (''weights'', T ''distance'')],
     [(''n_neighbors'', I 16), (''p'', I 1), (''weights'', T ''uniform'')],
     [(''n_neighbors'', I 16), (''p'', I 1), (''weights'', T ''distance'')],
     [(''n_neighbors'', I 16), (''p'', I 2), (''weights'', T ''uniform'')],
     [(''n_neighbors'', I 16), (''p'', I 2), (''weights'', T ''distance'')],
     [(''n_neighbors'', I 32), (''p'', I 1), (''weights'', T ''uniform'')],
     [(''n_neighbors'', I 32), (''p'', I 1), (''weights'', T ''distance'')],
     [(''n_neighbors'', I 32), (''p'', I 2), (''weights'', T ''uniform'')],
     [(''n_neighbors'', I 32), (''p'', I 2), (''weights'', T ''distance'')],
     [(''n_neighbors'', I 64), (''p'', I 1), (''weights'', T ''uniform'')],
     [(''n_neighbors'', I 64), (''p'', I 1), (''weights'', T ''distance'')],
     [(''n_neighbors'', I 64), (''p'', I 2), (''weights'', T ''uniform'')],
     [(''n_neighbors'', I 64), (''p'', I 2), (''weights'', T ''distance'')]]"
  by code_simp

lemma demo_search:
  "search demo_lib s (KNN_tuned KNN) X y =
     Inr \<lparr>best_params = [(''n_neighbors'', I 8), (''p'', I 1), (''weights'', T ''uniform'')],
          best_score = 0,
          best_estimator = [(''n_neighbors'', I 8), (''p'', I 1), (''weights'', T ''uniform'')]\<rparr>"
  by (simp add: search_def KNN_tuned_def knn_grid candidate_def demo_lib_def demo_score_def)


lemma upt_3: "[0..<3] = [0, 1, 2]"
  by (simp add: upt_rec)

lemma demo_fit:
  "GridSearchCV_fit demo_lib (KNN_tuned KNN) X y st =
     (Inr \<lparr>best_params = [(''n_neighbors'', I 8), (''p'', I 1), (''weights'', T ''uniform'')],
           best_score = 0,
           best_estimator = [(''n_neighbors'', I 8), (''p'', I 1), (''weights'', T ''uniform'')]\<rparr>,
      st\<lparr>trace := trace st @ [Progress ''GridSearchCV''], rng := Suc (rng st)\<rparr>)"
proof -
  have v: "0 < verbose (KNN_tuned KNN)" by (simp add: KNN_tuned_def)
  show ?thesis
    by (simp add: GridSearchCV_fit_def v bind_nb_def emit_def random_call_def demo_search)
qed

lemma demo_cell38:
  "\<exists>st'. cell38 demo_lib KNN [[Num 1], [Num 2], [Num 3]] [Num 1, Num 2, Num 3] st =
           (Inr [1, 2, 3], st')"
proof -
  have k: "kfold demo_lib = (\<lambda>n k X y. Inr (X, take (Suc k) X, y, take (Suc k) y))"
    and sc: "scorer demo_lib = (\<lambda>name m X y. Inr (demo_score m + real (length X)))"
    by (simp_all add: demo_lib_def)
  show ?thesis
    by (simp add: cell38_def cross_val_score_def upt_3 k sc demo_fit bind_nb_def lift_def ret_def
        demo_score_def)
qed


text \<open>The grid search, and the regression part as a whole.\<close>


lemma knn_items:
  "sort_key fst knn_param_grid =
     [(''n_neighbors'', [I 1, I 2, I 4, I 8, I 16, I 32, I 64]),
      (''p'', [I 1, I 2]),
      (''weights'', [T ''uniform'', T ''distance''])]"
  by code_simp

lemma knn_grid_set:
  "set (ParameterGrid knn_param_grid) =
     {[(''n_neighbors'', I n), (''p'', I q), (''weights'', T w)] | n q w.
        n \<in> {1, 2, 4, 8, 16, 32, 64} \<and> q \<in> {1, 2} \<and> w \<in> {''uniform'', ''distance''}}"
  (is "?l = ?r")
proof -
  have "?l = zip [''n_neighbors'', ''p'', ''weights''] `
     {xs. list_all2 (\<lambda>x ys. x \<in> set ys) xs
            [[I 1, I 2, I 4, I 8, I 16, I 32, I 64], [I 1, I 2], [T ''uniform'', T ''distance'']]}"
    by (simp add: ParameterGrid_def knn_items product_lists_set del: product_lists.simps)
  also have "\<dots> = ?r"
  proof (intro set_eqI iffI)
    fix c assume "c \<in> zip [''n_neighbors'', ''p'', ''weights''] `
     {xs. list_all2 (\<lambda>x ys. x \<in> set ys) xs
            [[I 1, I 2, I 4, I 8, I 16, I 32, I 64], [I 1, I 2], [T ''uniform'', T ''distance'']]}"
    then obtain a b d where "c = [(''n_neighbors'', a), (''p'', b), (''weights'', d)]"
      "a \<in> set [I 1, I 2, I 4, I 8, I 16, I 32, I 64]" "b \<in> set [I 1, I 2]"
      "d \<in> set [T ''uniform'', T ''distance'']"
      by (auto simp: list_all2_Cons2)
    then show "c \<in> ?r" by auto
  next
    fix c assume "c \<in> ?r"
    then obtain n q w where c: "c = [(''n_neighbors'', I n), (''p'', I q), (''weights'', T w)]"
      and m: "n \<in> {1, 2, 4, 8, 16, 32, 64}" "q \<in> {1, 2}" "w \<in> {''uniform'', ''distance''}"
      by blast
    from m have "list_all2 (\<lambda>x ys. x \<in> set ys) [I n, I q, T w]
            [[I 1, I 2, I 4, I 8, I 16, I 32, I 64], [I 1, I 2], [T ''uniform'', T ''distance'']]"
      by auto
    then show "c \<in> zip [''n_neighbors'', ''p'', ''weights''] `
     {xs. list_all2 (\<lambda>x ys. x \<in> set ys) xs
            [[I 1, I 2, I 4, I 8, I 16, I 32, I 64], [I 1, I 2], [T ''uniform'', T ''distance'']]}"
      unfolding c by (intro image_eqI[where x = "[I n, I q, T w]"]) simp_all
  qed
  finally show ?thesis .
qed

lemma knn_grid_distinct: "distinct (ParameterGrid knn_param_grid)"
  unfolding knn_grid by simp

lemma knn_grid_length: "length (ParameterGrid knn_param_grid) = 28"
  unfolding knn_grid by simp

lemma best_index_max:
  "xs \<noteq> [] \<Longrightarrow> best_index xs < length xs \<and>
     (\<forall>k < length xs. xs ! k \<le> xs ! best_index xs) \<and>
     (\<forall>k < best_index xs. xs ! k < xs ! best_index xs)"
proof (induction xs rule: best_index.induct)
  case 1 then show ?case by simp
next
  case (2 x) then show ?case by simp
next
  case (3 x y ys)
  let ?j = "best_index (y # ys)"
  from 3 have ih: "?j < length (y # ys)" "\<forall>k < length (y # ys). (y # ys) ! k \<le> (y # ys) ! ?j"
    "\<forall>k < ?j. (y # ys) ! k < (y # ys) ! ?j" by auto
  show ?case
  proof (cases "(y # ys) ! ?j \<le> x")
    case True
    then have b: "best_index (x # y # ys) = 0" by (simp add: Let_def)
    have "\<forall>k < length (x # y # ys). (x # y # ys) ! k \<le> x"
    proof (intro allI impI)
      fix k assume "k < length (x # y # ys)"
      then show "(x # y # ys) ! k \<le> x"
        using ih(2) True by (cases k) (auto intro: order_trans)
    qed
    with b show ?thesis by simp
  next
    case False
    then have b: "best_index (x # y # ys) = Suc ?j" by (simp add: Let_def)
    have 1: "\<forall>k < length (x # y # ys). (x # y # ys) ! k \<le> (x # y # ys) ! Suc ?j"
    proof (intro allI impI)
      fix k assume "k < length (x # y # ys)"
      then show "(x # y # ys) ! k \<le> (x # y # ys) ! Suc ?j"
        using ih(2) False by (cases k) auto
    qed
    have 2: "\<forall>k < Suc ?j. (x # y # ys) ! k < (x # y # ys) ! Suc ?j"
    proof (intro allI impI)
      fix k assume "k < Suc ?j"
      then show "(x # y # ys) ! k < (x # y # ys) ! Suc ?j"
        using ih(3) False by (cases k) auto
    qed
    from b ih(1) 1 2 show ?thesis by simp
  qed
qed


lemma search_success:
  assumes "search L s gs X y = Inr f"
  shows "\<exists>scores i. i < length (ParameterGrid (param_grid gs)) \<and>
     length scores = length (ParameterGrid (param_grid gs)) \<and>
     (\<forall>k < length (ParameterGrid (param_grid gs)). \<exists>est.
        candidate L (estimator gs) (ParameterGrid (param_grid gs) ! k) = Inr est \<and>
        cv_mean_score L (k # s) est (cv gs) X y = Inr (scores ! k)) \<and>
     (\<forall>k < length (ParameterGrid (param_grid gs)). scores ! k \<le> scores ! i) \<and>
     (\<forall>k < i. scores ! k < scores ! i) \<and>
     best_params f = ParameterGrid (param_grid gs) ! i \<and>
     best_score f = scores ! i \<and>
     (\<exists>est. candidate L (estimator gs) (best_params f) = Inr est \<and>
            fit L (length (ParameterGrid (param_grid gs)) # s) est X y = Inr (best_estimator f))"
proof -
  let ?g = "ParameterGrid (param_grid gs)"
  from assms have ne: "?g \<noteq> []" by (auto simp: search_def Let_def split: if_splits)
  with assms obtain scores est fitted where
    t: "traverse (\<lambda>(k, params). bind_e (candidate L (estimator gs) params)
          (\<lambda>est. cv_mean_score L (k # s) est (cv gs) X y)) (enumerate 0 ?g) = Inr scores" and
    c: "candidate L (estimator gs) (?g ! best_index scores) = Inr est" and
    ft: "fit L (length ?g # s) est X y = Inr fitted" and
    f: "f = \<lparr>best_params = ?g ! best_index scores, best_score = scores ! best_index scores,
             best_estimator = fitted\<rparr>"
    by (auto simp: search_def Let_def bind_e_Inr)
  from traverse_nth[OF t] have l: "length scores = length ?g"
    and k: "\<And>k. k < length ?g \<Longrightarrow> \<exists>est.
        candidate L (estimator gs) (?g ! k) = Inr est \<and>
        cv_mean_score L (k # s) est (cv gs) X y = Inr (scores ! k)"
    by (auto simp: nth_enumerate_eq bind_e_Inr)
  from l ne have "scores \<noteq> []" by auto
  from best_index_max[OF this] l have
    "best_index scores < length ?g" "\<forall>k < length ?g. scores ! k \<le> scores ! best_index scores"
    "\<forall>k < best_index scores. scores ! k < scores ! best_index scores"
    by auto
  with l k c ft f show ?thesis
    by (intro exI[of _ scores] exI[of _ "best_index scores"]) auto
qed

lemma cell32_success:
  "cell32 L KNN X_train y_train st = (Inr fitted, st') \<Longrightarrow>
     \<exists>s. search L s (KNN_tuned KNN) X_train y_train = Inr fitted"
  by (auto simp: cell32_def bind_nb_Inr ret_def dest: GridSearchCV_fit_success)

lemma cell42_success:
  "cell42 L fitted X_train y_train st = (Inr KNNz, st') \<Longrightarrow>
     \<exists>s. fit L s (best_estimator fitted) X_train y_train = Inr KNNz"
  by (auto simp: cell42_def nb_defs split: sum.splits)

lemma cell44_success:
  "cell44 L KNNz X_test y_test st = (Inr zphoto, st') \<Longrightarrow> predict L KNNz X_test = Inr zphoto"
  by (auto simp: cell44_def nb_defs split: sum.splits)

lemma cell20_success:
  "cell20 L X y st = (Inr (X_scaled, KNN, sp), st') \<Longrightarrow>
     scale L X = Inr X_scaled \<and>
     (\<exists>s. train_test_split L s X_scaled y None = Inr sp) \<and>
     (\<exists>s. fit L s (KNeighborsRegressor L 5) (fst sp) (fst (snd (snd sp))) = Inr KNN)"
  by (auto simp: cell20_def nb_defs split: sum.splits prod.splits)

lemma regression_success:
  assumes "regression L st =
      (Inr ((X_train, X_test, y_train, y_test), KNN, fitted, KNNz, zphoto), st')"
  shows "\<exists>X y X_scaled s1 s2 s3 s4.
      scale L X = Inr X_scaled \<and>
      train_test_split L s1 X_scaled y None = Inr (X_train, X_test, y_train, y_test) \<and>
      fit L s2 (KNeighborsRegressor L 5) X_train y_train = Inr KNN \<and>
      search L s3 (KNN_tuned KNN) X_train y_train = Inr fitted \<and>
      fit L s4 (best_estimator fitted) X_train y_train = Inr KNNz \<and>
      predict L KNNz X_test = Inr zphoto"
  using assms
  apply (simp add: regression_def bind_nb_Inr ret_def split_paired_all split_paired_Ex)
  apply (elim exE conjE)
  apply (drule cell20_success cell32_success cell42_success cell44_success)+
  apply (simp only: fst_conv snd_conv)
  apply blast
  done


text \<open>The cells of the regression part that print the two errors, as the run chains them.\<close>

lemma regression_cells:
  assumes "regression L st =
      (Inr ((X_train, X_test, y_train, y_test), KNN, fitted, KNNz, zphoto), st')"
  shows "\<exists>X y sp y_lr_pred v r2 sa sb X_scaled sc sd y_knn_pred w r2k se.
      cell15 L X y sa = (Inr (sp, y_lr_pred, v, r2), sb) \<and>
      cell20 L X y sc = (Inr (X_scaled, KNN, (X_train, X_test, y_train, y_test)), sd) \<and>
      cell21 L KNN X_test y_test v r2 sd = (Inr (y_knn_pred, w, r2k), se)"
  using assms
  apply (simp add: regression_def bind_nb_Inr ret_def split_paired_all split_paired_Ex)
  apply (elim exE conjE)
  apply (simp only: fst_conv snd_conv)
  apply blast
  done

lemma demo_fields:
  "train_test_split demo_lib = (\<lambda>s X y test_size. demo_split X y)"
  "scale demo_lib = Inr"
  "LinearRegression demo_lib = []"
  "KNeighborsRegressor demo_lib = (\<lambda>n. [(''n_neighbors'', I (int n))])"
  "RandomForestClassifier demo_lib = (\<lambda>n b. [(''n_estimators'', I (int n))])"
  "clone demo_lib = (\<lambda>m. m)"
  "set_params demo_lib = (\<lambda>m ps. Inr ps)"
  "fit demo_lib = (\<lambda>s m X y. Inr m)"
  "predict demo_lib = (\<lambda>m X. Inr (map (\<lambda>row. Num 1) X))"
  "predict_proba demo_lib = (\<lambda>m X. Inr (map (\<lambda>row. [1 / 2, 1 / 4, 1 / 4]) X))"
  "score demo_lib = (\<lambda>m X y. Inr (1 / 2))"
  "scorer demo_lib = (\<lambda>name m X y. Inr (demo_score m + real (length X)))"
  "classes demo_lib = (\<lambda>m. Inr [Str ''GALAXY'', Str ''QSO'', Str ''STAR''])"
  "feature_importances demo_lib = (\<lambda>m. Inr [3, 1, 2, 1, 1, 1, 1, 1, 1])"
  "oob_score demo_lib = (\<lambda>m. Inr (9 / 10))"
  "repr demo_lib = (\<lambda>m. ''estimator'')"
  "cv_mean_score demo_lib = (\<lambda>s m n X y. Inr (demo_score m))"
  "kfold demo_lib = (\<lambda>n k X y. Inr (X, take (Suc k) X, y, take (Suc k) y))"
  "validation_curve demo_lib = (\<lambda>m X y name range n scoring. Inr ([[1, 1, 1]], [[1, 1, 1]]))"
  "confusion_matrix demo_lib = (\<lambda>y_true y_pred. Inr [[1]])"
  "roc_curve demo_lib = (\<lambda>y probs label. Inr ([0, 1], [0, 1], [1, 0]))"
  "auc demo_lib = (\<lambda>f t. Inr (1 / 2))"
  "draw demo_lib = (\<lambda>n args. Inr ())"
  by (simp_all add: demo_lib_def)

lemma demo_state_fields:
  "trace demo_state = []" "next_ref demo_state = 0" "rng demo_state = 0"
  "heap demo_state = (\<lambda>r. \<lparr>names = [], recs = [],
             index_dtype = Int64\<rparr>)"
  by (simp_all add: demo_state_def)

lemma demo_cell7_state:
  assumes "files st qso_path = Some ''qso''"
  shows "cell7 demo_lib st =
     (Inr (Suc (next_ref st), [Num 2], Suc (Suc (next_ref st))),
      st\<lparr>trace := trace st @ [Read_csv qso_path, Out (Table demo_features)],
         heap := (heap st)(next_ref st := demo_qso_z, Suc (next_ref st) := demo_cleaned,
                   Suc (Suc (next_ref st)) := demo_features),
         next_ref := Suc (Suc (Suc (next_ref st)))\<rparr>)"
proof -
  have c: "clean demo_qso_z = Inr demo_cleaned"
    unfolding demo_clean_z by (simp add: demo_cleaned_def demo_qso_z_def)
  have g: "getitem demo_cleaned ''spec_z'' = Inr [Num 2]"
    by (simp add: getitem_def demo_cleaned_def names_z_def cell_at_def)
  have d: "del_column ''spec_z'' demo_cleaned = Inr demo_features"
    by (simp add: del_column_def demo_cleaned_def demo_features_def names_z_def drop_nth_def
        demo_row_def)
  have s: "head 5 demo_features = demo_features"
    by (simp add: head_def demo_features_def)
  from cell7_exec[OF assms demo_parse(1) c g d]
  show ?thesis by (simp add: s)
qed

lemmas cell_defs2 = cell9_def cell10_def cell12_def cell13_def cell15_def cell16_def
  cell18_def cell20_def cell21_def cell22_def cell24_def cell26_def plot_validation_curve_def
  cell29_def cell32_def cell33_def cell35_def cell38_def cell39_def cell42_def cell43_def cell44_def

lemma demo_regression:
  assumes "files st qso_path = Some ''qso''"
  shows "fst (regression demo_lib st) =
     Inr (([demo_row], replicate 572 demo_row, [Num 2], replicate 572 (Num 2)),
          [(''n_neighbors'', I 5)],
          \<lparr>best_params = demo_best, best_score = 0, best_estimator = demo_best\<rparr>,
          demo_best, replicate 572 (Num 1))"
  by (simp add: regression_def demo_cell7_state[OF assms] cell_defs2 nb_defs demo_fit
      cross_val_score_def upt_3 mean_squared_error_replicate mse_linear_def mse_knn_def
      demo_fields demo_split_def demo_score_def demo_best_def demo_features_def
      values_of_def getitem_slice_def naive_mse_def item_def)



text \<open>Class labels: the colour mapping, the ROC loop, a catalogue with a fourth label.\<close>


lemma clean_subset:
  assumes "clean df = Inr df'"
  shows "names df' = names df \<and> set (recs df') \<subseteq> set (recs df)"
proof -
  from assms obtain m where "df' = select_rows df m"
    by (auto simp: clean_def bind_e_Inr)
  then show ?thesis
    by (auto simp: select_rows_def dest: set_zip_leftD)
qed

lemma yy_map:
  "yy ls = map (\<lambda>c. if c = Str ''QSO'' then Num 0
                     else if c = Str ''STAR'' then Num (1 / 2)
                     else if c = Str ''GALAXY'' then Num 1 else c) ls"
  by (simp add: yy_def assign_where_def)

lemma colors_dom: "dom colors = {Str ''QSO'', Str ''STAR'', Str ''GALAXY''}"
  by (auto simp: colors_def split: if_splits)

lemma lookup_upd: "lookup (d(k \<mapsto> v)) k = Inr v"
  by (simp add: lookup_def)

lemma roc_loop_dom:
  "roc_loop L y_test y_prob ils (fpr, tpr, roc_auc) = Inr (fpr', tpr', roc_auc') \<Longrightarrow>
     dom fpr' = dom fpr \<union> snd ` set ils \<and>
     dom tpr' = dom tpr \<union> snd ` set ils \<and>
     dom roc_auc' = dom roc_auc \<union> snd ` set ils"
proof (induction ils arbitrary: fpr tpr roc_auc)
  case Nil
  then show ?case by simp
next
  case (Cons il rest)
  obtain i label where il: "il = (i, label)" by (cases il)
  from Cons.prems obtain f t a where
    n: "roc_loop L y_test y_prob rest (fpr(label \<mapsto> f), tpr(label \<mapsto> t), roc_auc(label \<mapsto> a)) =
          Inr (fpr', tpr', roc_auc')"
    unfolding il by (auto simp: bind_e_Inr lookup_upd)
  from Cons.IH[OF n] show ?case unfolding il by auto
qed

lemma cell76_success:
  assumes "cell76 L m y_test y_prob st = (Inr (labels, (fpr, tpr, roc_auc)), st')"
  shows "classes L m = Inr labels \<and> dom fpr = set labels \<and> dom tpr = set labels \<and>
         dom roc_auc = set labels"
proof -
  from assms have c: "classes L m = Inr labels" and
    r: "roc_loop L y_test y_prob (enumerate 0 labels) (Map.empty, Map.empty, Map.empty) =
          Inr (fpr, tpr, roc_auc)"
    by (auto simp: cell76_def bind_nb_Inr lift_def ret_def)
  have "snd ` set (enumerate 0 labels) = set labels"
    by (metis map_snd_enumerate set_map)
  with roc_loop_dom[OF r] c show ?thesis by simp
qed


lemma appended_rows:
  assumes "distinct ns" "table ns a" "table ns s" "table ns g"
  shows "append_frame (append_frame a s) g =
           \<lparr>names = ns, recs = recs a @ recs s @ recs g,
            index_dtype = join_dtype (join_dtype (index_dtype a) (index_dtype s)) (index_dtype g)\<rparr>"
proof -
  have e1: "append_frame a s = \<lparr>names = ns, recs = recs a @ recs s,
      index_dtype = join_dtype (index_dtype a) (index_dtype s)\<rparr>"
    by (rule append_frame_same[OF assms(1,2,3)])
  have t2: "table ns (append_frame a s)"
    by (rule table_append[OF assms(1,2,3)])
  show ?thesis
    using append_frame_same[OF assms(1) t2 assms(4)] by (simp add: e1)
qed

lemma other_files:
  "files other_state qso_path2 = Some ''qso''" "files other_state star_path = Some ''other''"
  "files other_state galaxy_path = Some ''galaxy''" "next_ref other_state = 0"
  by (simp_all add: other_state_def demo_state_def demo_files_def qso_path_def qso_path2_def
      star_path_def galaxy_path_def)

lemma other_cell51:
  "fst (cell51 demo_lib other_state) =
     Inr (6, [Str ''QSO'', Str ''UNKNOWN''], 7,
          [demo_row, [Num 15, Num 0, Num 1, Num 0, Num 0, Num 0, Num 0, Num 0, Num 0]],
          [Str ''QSO'', Str ''UNKNOWN''])"
proof -
  let ?a = "append_frame (append_frame demo_qso demo_other) demo_galaxy"
  let ?c = "\<lparr>names = names_class,
             recs = [(Num 101, [Num 19, Num 0, Num 1, Num 0, Num 0, Num 0, Num 0, Num 0, Num 0, Str ''QSO'']),
                     (Num 401, [Num 15, Num 0, Num 1, Num 0, Num 0, Num 0, Num 0, Num 0, Num 0, Str ''UNKNOWN''])],
             index_dtype = Int64\<rparr>"
  let ?f = "\<lparr>names = [''dered_r'', ''u_g_color'', ''g_r_color'', ''r_i_color'',
                  ''i_z_color'', ''diff_u'', ''diff_g1'', ''diff_i'', ''diff_z''],
             recs = [(Num 101, demo_row),
                     (Num 401, [Num 15, Num 0, Num 1, Num 0, Num 0, Num 0, Num 0, Num 0, Num 0])],
             index_dtype = Int64\<rparr>"
  have a: "?a = \<lparr>names = names_class, recs = recs demo_qso @ recs demo_other @ recs demo_galaxy,
               index_dtype = Int64\<rparr>"
    unfolding appended_rows[OF demo_tables(1,2,5,4)]
    by (simp add: join_dtype_def demo_qso_def demo_other_def demo_galaxy_def)
  have c: "clean ?a = Inr ?c"
    unfolding a
    by (simp add: demo_qso_def demo_other_def demo_galaxy_def names_class_def clean_def getitem_def
        cell_at_def series_gt_def series_lt_def mask_and_def select_rows_def)
  have g: "getitem ?c ''class'' = Inr [Str ''QSO'', Str ''UNKNOWN'']"
    by (simp add: getitem_def names_class_def cell_at_def)
  have d: "del_column ''class'' ?c = Inr ?f"
    by (simp add: del_column_def names_class_def drop_nth_def demo_row_def)
  from cell51_exec[OF other_files(1) demo_parse(2) other_files(2) demo_parse(5) other_files(3)
      demo_parse(4) demo_slice c g d]
  show ?thesis by (auto simp: other_files values_of_def)
qed


text \<open>The two scoring cells on the example library.\<close>


lemma demo_cell15:
  "cell15 demo_lib [demo_row] [Num 2] st =
     (Inr (([demo_row], replicate 572 demo_row, [Num 2], replicate 572 (Num 2)),
           replicate 572 (Num 1), 1, 1 / 2),
      st\<lparr>rng := Suc (Suc (rng st)),
         trace := trace st @ [Print [Text ''Linear regression: MSE = '', Number 1],
                              Print [Text ''R2 score ='', Number (1 / 2)]]\<rparr>)"
  by (simp add: cell15_def nb_defs demo_fields demo_split_def mse_linear_def
      mean_squared_error_replicate)

lemma demo_cell21:
  "cell21 demo_lib m (replicate 572 demo_row) (replicate 572 (Num 3)) 1 (1 / 2) st =
     (Inr (replicate 572 (Num 1), 4, 1 / 2),
      st\<lparr>trace := trace st @ [Print [Text ''MSE (KNN) ='', Number 4],
                               Print [Text ''R2 score (KNN) ='', Number (1 / 2)],
                               Print [Text ''cf.''],
                               Print [Text ''MSE (linear regression) = '', Number 1],
                               Print [Text ''R2 score (linear regression) ='', Number (1 / 2)]]\<rparr>)"
  by (simp add: cell21_def nb_defs demo_fields mse_knn_def mean_squared_error_replicate)


text \<open>Copying the cleaned example table and deleting a column of the copy.\<close>


lemma demo_copy_del:
  "bind_nb (copy_copy 0) (\<lambda>f. bind_nb (delitem f ''spec_z'') (\<lambda>_. ret f))
     (demo_state\<lparr>heap := (\<lambda>r. demo_cleaned), next_ref := Suc 0\<rparr>) =
   (Inr (Suc 0), demo_state\<lparr>heap := (\<lambda>r. demo_cleaned)(Suc 0 := demo_features), next_ref := Suc (Suc 0)\<rparr>)"
proof -
  have d: "del_column ''spec_z'' demo_cleaned = Inr demo_features"
    by (simp add: del_column_def demo_cleaned_def demo_features_def names_z_def drop_nth_def
        demo_row_def)
  show ?thesis
    by (simp add: nb_defs d demo_state_def)
qed


text \<open>The ROC loop on the example library.\<close>


lemma demo_cell76:
  "\<exists>fpr tpr roc_auc.
     cell76 demo_lib m [Str ''QSO''] [[1 / 2, 1 / 4, 1 / 4]] st =
       (Inr ([Str ''GALAXY'', Str ''QSO'', Str ''STAR''], (fpr, tpr, roc_auc)), st)"
  by (simp add: cell76_def nb_defs demo_fields column_of_def item_def lookup_def)

section \<open>The file system and the display\<close>

text \<open>Every primitive is quiet, and so is every statement built from quiet ones.\<close>


lemma quiet_ret: "quiet (ret x)"
  by (simp add: quiet_def ret_def)

lemma quiet_lift: "quiet (lift r)"
  by (simp add: quiet_def lift_def)

lemma quiet_emit: "read_or_display ev \<Longrightarrow> quiet (emit ev)"
  by (simp add: quiet_def emit_def)

lemma quiet_bind:
  assumes "quiet m" "\<And>x. quiet (f x)"
  shows "quiet (bind_nb m f)"
  unfolding quiet_def
proof (intro allI)
  fix st
  from assms(1) obtain es where m: "files (snd (m st)) = files st"
    "trace (snd (m st)) = trace st @ es" "list_all read_or_display es"
    unfolding quiet_def by blast
  show "files (snd (bind_nb m f st)) = files st \<and>
        (\<exists>es. trace (snd (bind_nb m f st)) = trace st @ es \<and> list_all read_or_display es)"
  proof (cases "m st")
    case (Pair r st1)
    show ?thesis
    proof (cases r)
      case (Inl e)
      with Pair m show ?thesis by (auto simp: bind_nb_def)
    next
      case (Inr x)
      from assms(2)[of x] obtain es' where f: "files (snd (f x st1)) = files st1"
        "trace (snd (f x st1)) = trace st1 @ es'" "list_all read_or_display es'"
        unfolding quiet_def by blast
      with Pair Inr m show ?thesis by (auto simp: bind_nb_def)
    qed
  qed
qed

lemma quiet_random_call: "quiet (random_call f)"
  by (simp add: quiet_def random_call_def)

lemma quiet_new_frame: "quiet (new_frame df)"
  by (simp add: quiet_def new_frame_def)

lemma quiet_frame_of: "quiet (frame_of r)"
  by (simp add: quiet_def frame_of_def)

lemma quiet_delitem: "quiet (delitem r c)"
  by (simp add: quiet_def delitem_def split: sum.splits)

lemma quiet_prod: "(\<And>a b. quiet (f a b)) \<Longrightarrow> quiet (case p of (a, b) \<Rightarrow> f a b)"
  by (cases p) simp

lemma quiet_if: "quiet a \<Longrightarrow> quiet b \<Longrightarrow> quiet (if c then a else b)"
  by simp

lemma quiet_traverse_nb: "(\<And>x. quiet (f x)) \<Longrightarrow> quiet (traverse_nb f xs)"
  by (induction xs) (auto intro!: quiet_bind quiet_ret)

lemma quiet_read_csv:
  "path \<in> {qso_path, qso_path2, star_path, galaxy_path} \<Longrightarrow> quiet (read_csv L path i cols)"
proof -
  assume p: "path \<in> {qso_path, qso_path2, star_path, galaxy_path}"
  have q: "quiet (bind_nb (emit (Read_csv path)) (\<lambda>_.
          bind_nb (lift (parse_csv L t i cols)) new_frame))" for t
    using p by (intro quiet_bind quiet_emit quiet_lift quiet_new_frame) simp
  show ?thesis
    unfolding quiet_def
  proof (intro allI)
    fix st
    show "files (snd (read_csv L path i cols st)) = files st \<and>
        (\<exists>es. trace (snd (read_csv L path i cols st)) = trace st @ es \<and> list_all read_or_display es)"
    proof (cases "files st path")
      case None
      then show ?thesis by (simp add: read_csv_def)
    next
      case (Some t)
      with q[of t] show ?thesis by (simp add: read_csv_def quiet_def)
    qed
  qed
qed

lemmas quiet_rules = quiet_bind quiet_ret quiet_lift quiet_random_call quiet_new_frame
  quiet_frame_of quiet_delitem quiet_prod quiet_if quiet_traverse_nb quiet_read_csv quiet_emit

lemma quiet_helpers:
  "quiet (copy_copy r)" "quiet (slice_ref r i j)" "quiet (append_ref a b)" "quiet (clean_ref r)"
  "quiet (column r c)" "quiet (print xs)" "quiet (out x)" "quiet (figure L k args)"
  "quiet (GridSearchCV_fit L gs X y)" "quiet (cross_val_score L gs X y n scoring)"
  by (auto simp: copy_copy_def slice_ref_def append_ref_def clean_ref_def column_def print_def
      out_def figure_def GridSearchCV_fit_def cross_val_score_def intro!: quiet_rules)

lemma quiet_cells:
  "quiet (cell7 L)" "quiet (cell9 L z)" "quiet (cell10 L z r)" "quiet (cell12 z r)"
  "quiet (cell13 X y)" "quiet (cell15 L X y)" "quiet (cell16 L y_test p v)" "quiet (cell18 y_train v)"
  "quiet (cell20 L X y)" "quiet (cell21 L KNN X_test y_test v r2)" "quiet (cell22 L y_test p v)"
  "quiet (cell24 L KNN X y)" "quiet (cell26 L ts vs)" "quiet cell29"
  "quiet (cell32 L KNN X y)" "quiet (cell33 L f X_test y_test v r2)" "quiet (cell35 f)"
  "quiet (cell38 L KNN X y)" "quiet (cell39 R2)" "quiet (cell42 L f X y)"
  "quiet (cell43 L KNNz X_test y_test)" "quiet (cell44 L KNNz X_test y_test)"
  by (auto simp: cell7_def cell9_def cell10_def cell12_def cell13_def cell15_def cell16_def
      cell18_def cell20_def cell21_def cell22_def cell24_def cell26_def plot_validation_curve_def
      cell29_def cell32_def cell33_def cell35_def cell38_def cell39_def cell42_def cell43_def
      cell44_def Let_def qso_path_def
      intro!: quiet_rules quiet_helpers)

lemma quiet_cells2:
  "quiet (cell51 L)" "quiet (cell53 X y)" "quiet (cell54 X y)" "quiet (cell56 L ls r)"
  "quiet (cell58 L X y)" "quiet (cell60 L r rf)" "quiet (cell62 L rf)" "quiet (cell65 L X y)"
  "quiet (cell66 L rf X y)" "quiet (cell69 L f X)" "quiet (cell70 L y_test y_pred)"
  "quiet (cell75 L f X y X_test)" "quiet (cell76 L m y_test y_prob)" "quiet (cell77 L ls d)"
  by (auto simp: cell51_def cell53_def cell54_def cell56_def cell58_def cell60_def cell62_def
      cell65_def cell66_def cell69_def cell70_def cell75_def cell76_def cell77_def
      intro!: quiet_rules quiet_helpers)

lemma quiet_regression: "quiet (regression L)"
  unfolding regression_def
  by (intro quiet_bind quiet_cells) (auto split: prod.splits intro!: quiet_bind quiet_cells quiet_ret)

lemma quiet_classification: "quiet (classification L)"
  unfolding classification_def
  by (intro quiet_bind quiet_cells2) (auto split: prod.splits intro!: quiet_bind quiet_cells2 quiet_ret)

lemma quiet_run: "quiet (run L)"
  unfolding run_def by (intro quiet_bind quiet_regression quiet_classification)


text \<open>The classification part and the whole run on the example library.\<close>


lemma cell51_state:
  assumes "files st qso_path2 = Some tq" "parse_csv L tq 0 usecols_class = Inr q"
    and "files st star_path = Some ts" "parse_csv L ts 0 usecols_class = Inr s"
    and "files st galaxy_path = Some tg" "parse_csv L tg 0 usecols_class = Inr g"
    and "getitem_slice q None (Some 1000) = Inr first"
    and "clean (append_frame (append_frame first s) g) = Inr cleaned"
    and "getitem cleaned ''class'' = Inr all_labels"
    and "del_column ''class'' cleaned = Inr feats"
  shows "\<exists>h. cell51 L st =
           (Inr (next_ref st + 6, all_labels, next_ref st + 7, values_of feats, all_labels),
            st\<lparr>trace := trace st @ [Read_csv qso_path2, Read_csv star_path, Read_csv galaxy_path],
               heap := h, next_ref := next_ref st + 8\<rparr>) \<and>
         h (next_ref st + 6) = cleaned \<and> h (next_ref st + 7) = feats"
proof -
  let ?h = "(heap st)
       (next_ref st := q, Suc (next_ref st) := first,
        Suc (Suc (next_ref st)) := s,
        Suc (Suc (Suc (next_ref st))) := append_frame first s,
        Suc (Suc (Suc (Suc (next_ref st)))) := g,
        Suc (Suc (Suc (Suc (Suc (next_ref st))))) :=
          append_frame (append_frame first s) g,
        Suc (Suc (Suc (Suc (Suc (Suc (next_ref st)))))) := cleaned,
        Suc (Suc (Suc (Suc (Suc (Suc (Suc (next_ref st))))))) := feats)"
  have "cell51 L st =
           (Inr (next_ref st + 6, all_labels, next_ref st + 7, values_of feats, all_labels),
            st\<lparr>trace := trace st @ [Read_csv qso_path2, Read_csv star_path, Read_csv galaxy_path],
               heap := ?h, next_ref := next_ref st + 8\<rparr>)"
    using assms by (simp add: cell51_def nb_defs)
  moreover have "?h (next_ref st + 6) = cleaned" "?h (next_ref st + 7) = feats"
    by simp_all
  ultimately show ?thesis by blast
qed

lemma traverse_replicate:
  "traverse f (replicate n x) =
     (case f x of Inl e \<Rightarrow> if n = 0 then Inr [] else Inl e | Inr y \<Rightarrow> Inr (replicate n y))"
  by (induction n) (simp_all split: sum.splits)

lemma rf_grid:
  "ParameterGrid parameters =
    [[(''criterion'', T ''gini''), (''max_features'', T ''auto''), (''min_samples_leaf'', I 1), (''n_estimators'', I 50)],
     [(''criterion'', T ''gini''), (''max_features'', T ''auto''), (''min_samples_leaf'', I 1), (''n_estimators'', I 100)],
     [(''criterion'', T ''gini''), (''max_features'', T ''auto''), (''min_samples_leaf'', I 1), (''n_estimators'', I 200)],
     [(''criterion'', T ''gini''), (''max_features'', T ''auto''), (''min_samples_leaf'', I 2), (''n_estimators'', I 50)],
     [(''criterion'', T ''gini''), (''max_features'', T ''auto''), (''min_samples_leaf'', I 2), (''n_estimators'', I 100)],
     [(''criterion'', T ''gini''), (''max_features'', T ''auto''), (''min_samples_leaf'', I 2), (''n_estimators'', I 200)],
     [(''criterion'', T ''gini''), (''max_features'', I 3), (''min_samples_leaf'', I 1), (''n_estimators'', I 50)],
     [(''criterion'', T ''gini''), (''max_features'', I 3), (''min_samples_leaf'', I 1), (''n_estimators'', I 100)],
     [(''criterion'', T ''gini''), (''max_features'', I 3), (''min_samples_leaf'', I 1), (''n_estimators'', I 200)],
     [(''criterion'', T ''gini''), (''max_features'', I 3), (''min_samples_leaf'', I 2), (''n_estimators'', I 50)],
     [(''criterion'', T ''gini''), (''max_features'', I 3), (''min_samples_leaf'', I 2), (''n_estimators'', I 100)],
     [(''criterion'', T ''gini''), (''max_features'', I 3), (''min_samples_leaf'', I 2), (''n_estimators'', I 200)],
     [(''criterion'', T ''entropy''), (''max_features'', T ''auto''), (''min_samples_leaf'', I 1), (''n_estimators'', I 50)],
     [(''criterion'', T ''entropy''), (''max_features'', T ''auto''), (''min_samples_leaf'', I 1), (''n_estimators'', I 100)],
     [(''criterion'', T ''entropy''), (''max_features'', T ''auto''), (''min_samples_leaf'', I 1), (''n_estimators'', I 200)],
     [(''criterion'', T ''entropy''), (''max_features'', T ''auto''), (''min_samples_leaf'', I 2), (''n_estimators'', I 50)],
     [(''criterion'', T ''entropy''), (''max_features'', T ''auto''), (''min_samples_leaf'', I 2), (''n_estimators'', I 100)],
     [(''criterion'', T ''entropy''), (''max_features'', T ''auto''), (''min_samples_leaf'', I 2), (''n_estimators'', I 200)],
     [(''criterion'', T ''entropy''), (''max_features'', I 3), (''min_samples_leaf'', I 1), (''n_estimators'', I 50)],
     [(''criterion'', T ''entropy''), (''max_features'', I 3), (''min_samples_leaf'', I 1), (''n_estimators'', I 100)],
     [(''criterion'', T ''entropy''), (''max_features'', I 3), (''min_samples_leaf'', I 1), (''n_estimators'', I 200)],
     [(''criterion'', T ''entropy''), (''max_features'', I 3), (''min_samples_leaf'', I 2), (''n_estimators'', I 50)],
     [(''criterion'', T ''entropy''), (''max_features'', I 3), (''min_samples_leaf'', I 2), (''n_estimators'', I 100)],
     [(''criterion'', T ''entropy''), (''max_features'', I 3), (''min_samples_leaf'', I 2), (''n_estimators'', I 200)]]"
  by code_simp

lemma demo_search_rf:
  "search demo_lib s (rf_tuned rf) X y =
     Inr \<lparr>best_params = demo_rf_best, best_score = 0, best_estimator = demo_rf_best\<rparr>"
  by (simp add: search_def rf_tuned_def rf_grid candidate_def demo_fields demo_score_def
      demo_rf_best_def)

lemma demo_fit_rf:
  "GridSearchCV_fit demo_lib (rf_tuned rf) X y st =
     (Inr \<lparr>best_params = demo_rf_best, best_score = 0, best_estimator = demo_rf_best\<rparr>,
      st\<lparr>trace := trace st @ [Progress ''GridSearchCV''], rng := Suc (rng st)\<rparr>)"
proof -
  have v: "0 < verbose (rf_tuned rf)" by (simp add: rf_tuned_def)
  show ?thesis
    by (simp add: GridSearchCV_fit_def v bind_nb_def emit_def random_call_def demo_search_rf)
qed

lemma demo_classification:
  assumes "files st qso_path2 = Some ''qso''" "files st star_path = Some ''star''"
    "files st galaxy_path = Some ''galaxy''"
  shows "fst (classification demo_lib st) = Inr ()"
proof -
  let ?a = "append_frame (append_frame demo_qso demo_star) demo_galaxy"
  have a: "?a = \<lparr>names = names_class, recs = recs demo_qso @ recs demo_star @ recs demo_galaxy,
               index_dtype = Int64\<rparr>"
    unfolding appended_rows[OF demo_tables(1,2,3,4)]
    by (simp add: join_dtype_def demo_qso_def demo_star_def demo_galaxy_def)
  have c: "clean ?a = Inr demo_all"
    unfolding a
    by (simp add: demo_qso_def demo_star_def demo_galaxy_def names_class_def clean_def getitem_def
        cell_at_def series_gt_def series_lt_def mask_and_def select_rows_def demo_all_def)
  have g: "getitem demo_all ''class'' = Inr [Str ''QSO'', Str ''STAR'', Str ''STAR'']"
    by (simp add: getitem_def names_class_def cell_at_def demo_all_def)
  have d: "del_column ''class'' demo_all = Inr demo_all_features"
    by (simp add: del_column_def names_class_def drop_nth_def demo_all_def demo_all_features_def)
  from cell51_state[OF assms(1) demo_parse(2) assms(2) demo_parse(3) assms(3) demo_parse(4)
      demo_slice c g d]
  obtain h where
    r: "cell51 demo_lib st =
           (Inr (next_ref st + 6, [Str ''QSO'', Str ''STAR'', Str ''STAR''], next_ref st + 7,
                 values_of demo_all_features, [Str ''QSO'', Str ''STAR'', Str ''STAR'']),
            st\<lparr>trace := trace st @ [Read_csv qso_path2, Read_csv star_path, Read_csv galaxy_path],
               heap := h, next_ref := next_ref st + 8\<rparr>)"
    and h: "h (next_ref st + 6) = demo_all" "h (next_ref st + 7) = demo_all_features"
    by blast
  show ?thesis
    by (simp add: classification_def r h bind_nb_def
        cell53_def cell54_def cell56_def cell58_def cell60_def cell62_def cell65_def cell66_def
        cell69_def cell70_def cell75_def cell76_def cell77_def
        ret_def lift_def emit_def frame_of_def out_def print_def figure_def random_call_def
        demo_fields demo_split_def values_of_def demo_all_features_def
        demo_fit_rf column_of_def item_def traverse_replicate lookup_def curve_def colors_def)
qed


lemma read_or_display_iff:
  "read_or_display ev \<longleftrightarrow>
     ev \<in> Read_csv ` {qso_path, qso_path2, star_path, galaxy_path} \<or> (\<exists>xs. ev = Print xs) \<or>
     (\<exists>x. ev = Out x) \<or> (\<exists>n. ev = Figure n) \<or> (\<exists>s. ev = Progress s)"
  by (cases ev) auto

lemma demo_run:
  assumes "files st qso_path = Some ''qso''" "files st qso_path2 = Some ''qso''"
    "files st star_path = Some ''star''" "files st galaxy_path = Some ''galaxy''"
  shows "fst (run demo_lib st) = Inr ()"
proof -
  obtain v st1 where r: "regression demo_lib st = (Inr v, st1)"
    using demo_regression[OF assms(1)] by (cases "regression demo_lib st") auto
  from quiet_regression[of demo_lib] have "files (snd (regression demo_lib st)) = files st"
    unfolding quiet_def by blast
  with r have f: "files st1 = files st" by simp
  from demo_classification[of st1] assms f have "fst (classification demo_lib st1) = Inr ()"
    by simp
  with r show ?thesis by (simp add: run_def bind_nb_def)
qed


lemma demo_regression_trace:
  assumes "files st qso_path = Some ''qso''"
  shows "trace (snd (regression demo_lib st)) = trace st @ take 37 demo_trace"
  by (simp add: regression_def demo_cell7_state[OF assms] cell_defs2 nb_defs demo_fit
      cross_val_score_def upt_3 mean_squared_error_replicate mse_linear_def mse_knn_def
      demo_fields demo_split_def demo_score_def demo_best_def demo_features_def
      values_of_def getitem_slice_def naive_mse_def item_def demo_trace_def)

lemma demo_classification_trace:
  assumes "files st qso_path2 = Some ''qso''" "files st star_path = Some ''star''"
    "files st galaxy_path = Some ''galaxy''"
  shows "trace (snd (classification demo_lib st)) = trace st @ drop 37 demo_trace"
proof -
  let ?a = "append_frame (append_frame demo_qso demo_star) demo_galaxy"
  have a: "?a = \<lparr>names = names_class, recs = recs demo_qso @ recs demo_star @ recs demo_galaxy,
               index_dtype = Int64\<rparr>"
    unfolding appended_rows[OF demo_tables(1,2,3,4)]
    by (simp add: join_dtype_def demo_qso_def demo_star_def demo_galaxy_def)
  have c: "clean ?a = Inr demo_all"
    unfolding a
    by (simp add: demo_qso_def demo_star_def demo_galaxy_def names_class_def clean_def getitem_def
        cell_at_def series_gt_def series_lt_def mask_and_def select_rows_def demo_all_def)
  have g: "getitem demo_all ''class'' = Inr [Str ''QSO'', Str ''STAR'', Str ''STAR'']"
    by (simp add: getitem_def names_class_def cell_at_def demo_all_def)
  have d: "del_column ''class'' demo_all = Inr demo_all_features"
    by (simp add: del_column_def names_class_def drop_nth_def demo_all_def demo_all_features_def)
  from cell51_state[OF assms(1) demo_parse(2) assms(2) demo_parse(3) assms(3) demo_parse(4)
      demo_slice c g d]
  obtain h where
    r: "cell51 demo_lib st =
           (Inr (next_ref st + 6, [Str ''QSO'', Str ''STAR'', Str ''STAR''], next_ref st + 7,
                 values_of demo_all_features, [Str ''QSO'', Str ''STAR'', Str ''STAR'']),
            st\<lparr>trace := trace st @ [Read_csv qso_path2, Read_csv star_path, Read_csv galaxy_path],
               heap := h, next_ref := next_ref st + 8\<rparr>)"
    and h: "h (next_ref st + 6) = demo_all" "h (next_ref st + 7) = demo_all_features"
    by blast
  have n: "names demo_all = names_class" by (simp add: demo_all_def)
  show ?thesis
    by (simp add: classification_def r h n bind_nb_def
        cell53_def cell54_def cell56_def cell58_def cell60_def cell62_def cell65_def cell66_def
        cell69_def cell70_def cell75_def cell76_def cell77_def
        ret_def lift_def emit_def frame_of_def out_def print_def figure_def random_call_def
        demo_fields demo_split_def values_of_def demo_all_features_def
        demo_fit_rf column_of_def item_def traverse_replicate lookup_def curve_def colors_def
        demo_trace_def)
qed

lemma demo_run_trace:
  assumes "files st qso_path = Some ''qso''" "files st qso_path2 = Some ''qso''"
    "files st star_path = Some ''star''" "files st galaxy_path = Some ''galaxy''"
  shows "trace (snd (run demo_lib st)) = trace st @ demo_trace"
proof -
  obtain v st1 where r: "regression demo_lib st = (Inr v, st1)"
    using demo_regression[OF assms(1)] by (cases "regression demo_lib st") auto
  from quiet_regression[of demo_lib] have "files (snd (regression demo_lib st)) = files st"
    unfolding quiet_def by blast
  with r have f: "files st1 = files st" by simp
  from demo_regression_trace[OF assms(1)] r have t: "trace st1 = trace st @ take 37 demo_trace"
    by simp
  from demo_classification_trace[of st1] assms f t
  have "trace (snd (classification demo_lib st1)) = trace st @ (take 37 demo_trace @ drop 37 demo_trace)"
    by simp
  with r show ?thesis by (simp add: run_def bind_nb_def)
qed

text \<open>Statements that are not quiet: a write, a request, a read of another file.\<close>

lemma loud_write_file: "\<not> quiet (write_file p c)"
  by (simp add: quiet_def write_file_def)

lemma loud_urlopen: "\<not> quiet (urlopen u)"
  by (simp add: quiet_def urlopen_def emit_def)

lemma loud_read_csv:
  assumes "p \<notin> {qso_path, qso_path2, star_path, galaxy_path}"
  shows "\<not> quiet (read_csv L p i cols)"
proof
  assume q: "quiet (read_csv L p i cols)"
  let ?st = "demo_state\<lparr>files := [p \<mapsto> []]\<rparr>"
  from q obtain es where
    t: "trace (snd (read_csv L p i cols ?st)) = trace ?st @ es" and e: "list_all read_or_display es"
    unfolding quiet_def by blast
  have "trace (snd (read_csv L p i cols ?st)) = trace ?st @ [Read_csv p]"
    by (cases "parse_csv L [] i cols") (simp_all add: read_csv_def nb_defs)
  with t have "es = [Read_csv p]" by simp
  with e assms show False by simp
qed

lemma loud_after:
  assumes "fst (m st) = Inr x" "quiet m"
    and "\<And>s. \<exists>ev. \<not> read_or_display ev \<and> trace (snd (f s)) = trace s @ [ev]"
  shows "\<not> quiet (bind_nb m (\<lambda>_. f))"
proof
  assume "quiet (bind_nb m (\<lambda>_. f))"
  then obtain es where
    t: "trace (snd (bind_nb m (\<lambda>_. f) st)) = trace st @ es" and e: "list_all read_or_display es"
    unfolding quiet_def by blast
  from assms(2) obtain es1 where t1: "trace (snd (m st)) = trace st @ es1"
    unfolding quiet_def by blast
  from assms(3)[of "snd (m st)"] obtain ev where
    ev: "\<not> read_or_display ev" "trace (snd (f (snd (m st)))) = trace (snd (m st)) @ [ev]"
    by blast
  from assms(1) have "bind_nb m (\<lambda>_. f) st = f (snd (m st))"
    by (cases "m st") (simp add: bind_nb_def)
  with t t1 ev(2) have "es = es1 @ [ev]" by simp
  with e ev(1) show False by simp
qed

section \<open>Where a run stops\<close>



























































text \<open>The classification loading cell on the three further quasar catalogues.\<close>

lemma quasars_files:
  "files (quasars_state t) qso_path2 = Some t" "files (quasars_state t) star_path = Some ''star''"
  "files (quasars_state t) galaxy_path = Some ''galaxy''" "next_ref (quasars_state t) = 0"
  by (simp_all add: quasars_state_def demo_state_def demo_files_def qso_path_def qso_path2_def
      star_path_def galaxy_path_def)

lemma demo_slice_float:
  "getitem_slice demo_qso_float None (Some 1000) = Inr (demo_qso_float\<lparr>recs := []\<rparr>)"
  by (simp add: getitem_slice_def get_slice_bound_def get_loc_def demo_qso_float_def upt_rec)

lemma demo_slice_nan:
  "getitem_slice demo_qso_nan None (Some 1000) = Inl (KeyError ''1000'')"
  by (simp add: getitem_slice_def get_slice_bound_def get_loc_def demo_qso_nan_def upt_rec
      decimal.simps)

lemma float_cell51:
  "fst (cell51 demo_lib (quasars_state ''qso_float'')) =
     Inr (6, [Str ''STAR'', Str ''STAR''], 7,
          [[Num 17, Num 0, Num 1, Num 0, Num 0, Num 0, Num 0, Num 0, Num 0],
           [Num 16, Num 0, Num 2, Num 0, Num 0, Num 0, Num 0, Num 0, Num 0]],
          [Str ''STAR'', Str ''STAR''])"
proof -
  let ?e = "demo_qso_float\<lparr>recs := []\<rparr>"
  let ?a = "append_frame (append_frame ?e demo_star) demo_galaxy"
  let ?c = "\<lparr>names = names_class,
             recs = [(Num 201, [Num 17, Num 0, Num 1, Num 0, Num 0, Num 0, Num 0, Num 0, Num 0, Str ''STAR'']),
                     (Num 202, [Num 16, Num 0, Num 2, Num 0, Num 0, Num 0, Num 0, Num 0, Num 0, Str ''STAR''])],
             index_dtype = Float64\<rparr>"
  let ?f = "\<lparr>names = [''dered_r'', ''u_g_color'', ''g_r_color'', ''r_i_color'',
                  ''i_z_color'', ''diff_u'', ''diff_g1'', ''diff_i'', ''diff_z''],
             recs = [(Num 201, [Num 17, Num 0, Num 1, Num 0, Num 0, Num 0, Num 0, Num 0, Num 0]),
                     (Num 202, [Num 16, Num 0, Num 2, Num 0, Num 0, Num 0, Num 0, Num 0, Num 0])],
             index_dtype = Float64\<rparr>"
  have t: "table names_class ?e" by (simp add: table_def demo_qso_float_def)
  have a: "?a = \<lparr>names = names_class, recs = recs demo_star @ recs demo_galaxy,
               index_dtype = Float64\<rparr>"
    unfolding appended_rows[OF demo_tables(1) t demo_tables(3,4)]
    by (simp add: join_dtype_def demo_qso_float_def demo_star_def demo_galaxy_def)
  have c: "clean ?a = Inr ?c"
    unfolding a
    by (simp add: demo_star_def demo_galaxy_def names_class_def clean_def getitem_def
        cell_at_def series_gt_def series_lt_def mask_and_def select_rows_def)
  have g: "getitem ?c ''class'' = Inr [Str ''STAR'', Str ''STAR'']"
    by (simp add: getitem_def names_class_def cell_at_def)
  have d: "del_column ''class'' ?c = Inr ?f"
    by (simp add: del_column_def names_class_def drop_nth_def)
  from cell51_exec[OF quasars_files(1) demo_parse(7) quasars_files(2) demo_parse(3)
      quasars_files(3) demo_parse(4) demo_slice_float c g d]
  show ?thesis by (auto simp: quasars_files values_of_def)
qed

lemma nan_cell51:
  "fst (cell51 demo_lib (quasars_state ''qso_nan'')) = Inl (KeyError ''1000'')"
  using quasars_files(1)[of "''qso_nan''"]
  by (simp add: cell51_def nb_defs demo_parse demo_slice_nan)

lemma many_rows:
  "table names_class demo_qso_many"
  "\<forall>r \<in> set (recs demo_qso_many) \<union> set (recs demo_star) \<union> set (recs demo_galaxy).
      \<not> is_str (cell_at 0 r) \<and> \<not> is_str (cell_at 2 r)"
  "index_dtype demo_qso_many \<noteq> Float64" "length (recs demo_qso_many) = 1002"
  by (auto simp: table_def demo_qso_many_def demo_star_def demo_galaxy_def cell_at_def
      names_class_def)






section \<open>Assembling the classification data\<close>

text \<open>
  C7. When the three catalogues parse to tables of one schema, with numbers in the two
  cleaned columns, and \<^verbatim>\<open>[:1000]\<close> selects the table \<open>first\<close> from the quasar
  catalogue, the loading cell of the classification pipeline succeeds and the table it
  leaves is the cleaned concatenation of \<open>first\<close>, the whole star catalogue and the whole
  galaxy catalogue: the kept rows of \<open>first\<close>, then the kept rows of the stars, then the
  kept rows of the galaxies, kept meaning \<open>dered_r > -9999\<close> and \<open>-10 < g_r_color < 10\<close>.
  The labels \<open>y\<close> are the class column of these rows. When the index of the quasar
  catalogue holds whole numbers or objects, \<^verbatim>\<open>[:1000]\<close> does select and \<open>first\<close> is the
  first 1000 rows. The classes need not come in equal numbers, and there is a run where
  they do not.
\<close>

theorem all_sources_assembly:
  fixes L :: "'m library"
  defines "keep i j \<equiv> (\<lambda>r. \<exists>m c. cell_at i r = Num m \<and> cell_at j r = Num c \<and>
                                - 9999 < m \<and> - 10 < c \<and> c < 10)"
  assumes files: "files st qso_path2 = Some tq" "files st star_path = Some ts"
      "files st galaxy_path = Some tg"
    and parse: "parse_csv L tq 0 usecols_class = Inr q" "parse_csv L ts 0 usecols_class = Inr s"
      "parse_csv L tg 0 usecols_class = Inr g"
    and slice: "getitem_slice q None (Some 1000) = Inr first"
    and schema: "distinct ns" "table ns q" "table ns s" "table ns g"
    and cols: "position ''dered_r'' ns = Some i" "position ''g_r_color'' ns = Some j"
      "position ''class'' ns = Some k"
    and num: "\<forall>r \<in> set (recs q) \<union> set (recs s) \<union> set (recs g).
                \<not> is_str (cell_at i r) \<and> \<not> is_str (cell_at j r)"
  shows "(\<exists>all_sources all_labels all_features X y st'.
      cell51 L st = (Inr (all_sources, all_labels, all_features, X, y), st') \<and>
      clean (append_frame (append_frame first s) g) = Inr (heap st' all_sources) \<and>
      recs (append_frame (append_frame first s) g) = recs first @ recs s @ recs g \<and>
      recs (heap st' all_sources) =
        filter (keep i j) (recs first) @ filter (keep i j) (recs s) @ filter (keep i j) (recs g) \<and>
      y = map (cell_at k) (recs (heap st' all_sources))) \<and>
    (index_dtype q \<noteq> Float64 \<longrightarrow>
       recs first = take 1000 (recs q) \<and> length (filter (keep i j) (recs first)) \<le> 1000) \<and>
    (index_dtype q \<noteq> Float64 \<longrightarrow> (\<exists>first'. getitem_slice q None (Some 1000) = Inr first')) \<and>
    (\<exists>(L' :: (string \<times> pvalue) list library) st0 all_sources all_labels all_features X y st1.
      cell51 L' st0 = (Inr (all_sources, all_labels, all_features, X, y), st1) \<and>
      count_list y (Str ''QSO'') \<noteq> count_list y (Str ''STAR''))"
proof -
  let ?a = "append_frame (append_frame first s) g"
  have tf: "table ns first" by (rule table_slice[OF slice schema(2)])
  have a: "?a = \<lparr>names = ns, recs = recs first @ recs s @ recs g,
      index_dtype = join_dtype (join_dtype (index_dtype first) (index_dtype s)) (index_dtype g)\<rparr>"
    by (rule appended_rows[OF schema(1) tf schema(3,4)])
  have n: "\<forall>r \<in> set (recs ?a). \<not> is_str (cell_at i r) \<and> \<not> is_str (cell_at j r)"
    unfolding a using num getitem_slice_subset[OF slice] by auto
  have c: "clean ?a = Inr (?a\<lparr>recs := filter (keep i j) (recs ?a)\<rparr>)"
    unfolding keep_def by (rule clean_filter[OF _ _ n]) (simp_all add: a cols)
  let ?c = "?a\<lparr>recs := filter (keep i j) (recs ?a)\<rparr>"
  have g: "getitem ?c ''class'' = Inr (map (cell_at k) (recs ?c))"
    by (simp add: getitem_def a cols)
  obtain feats where d: "del_column ''class'' ?c = Inr feats"
    by (simp add: del_column_def a cols)
  from cell51_exec[OF files(1) parse(1) files(2) parse(2) files(3) parse(3) slice c g d]
  obtain st' where "cell51 L st =
      (Inr (next_ref st + 6, map (cell_at k) (recs ?c), next_ref st + 7, values_of feats,
            map (cell_at k) (recs ?c)), st')"
    and "heap st' (next_ref st + 6) = ?c" by blast
  then have main: "\<exists>all_sources all_labels all_features X y st'.
      cell51 L st = (Inr (all_sources, all_labels, all_features, X, y), st') \<and>
      clean (append_frame (append_frame first s) g) = Inr (heap st' all_sources) \<and>
      recs (append_frame (append_frame first s) g) = recs first @ recs s @ recs g \<and>
      recs (heap st' all_sources) =
        filter (keep i j) (recs first) @ filter (keep i j) (recs s) @ filter (keep i j) (recs g) \<and>
      y = map (cell_at k) (recs (heap st' all_sources))"
    using c by (simp add: a)
  have pos: "index_dtype q \<noteq> Float64 \<longrightarrow>
       recs first = take 1000 (recs q) \<and> length (filter (keep i j) (recs first)) \<le> 1000"
  proof
    assume "index_dtype q \<noteq> Float64"
    from getitem_slice_positional[OF this, of 1000] slice
    have f: "recs first = take 1000 (recs q)" by (simp add: head_def)
    have "length (filter (keep i j) (recs first)) \<le> length (recs first)"
      by (rule length_filter_le)
    with f show "recs first = take 1000 (recs q) \<and> length (filter (keep i j) (recs first)) \<le> 1000"
      by simp
  qed
  have ex: "index_dtype q \<noteq> Float64 \<longrightarrow> (\<exists>first'. getitem_slice q None (Some 1000) = Inr first')"
    by (simp add: getitem_slice_positional)
  from demo_cell51 obtain r0 f0 X0 st1 where
    "cell51 demo_lib demo_state =
       (Inr (r0, [Str ''QSO'', Str ''STAR'', Str ''STAR''], f0, X0,
             [Str ''QSO'', Str ''STAR'', Str ''STAR'']), st1)"
    by blast
  moreover have "count_list [Str ''QSO'', Str ''STAR'', Str ''STAR''] (Str ''QSO'') \<noteq>
      count_list [Str ''QSO'', Str ''STAR'', Str ''STAR''] (Str ''STAR'')"
    by simp
  ultimately have "\<exists>(L' :: (string \<times> pvalue) list library) st0 all_sources all_labels all_features X y st1.
      cell51 L' st0 = (Inr (all_sources, all_labels, all_features, X, y), st1) \<and>
      count_list y (Str ''QSO'') \<noteq> count_list y (Str ''STAR'')"
    by blast
  with main pos ex show ?thesis by blast
qed

theorem all_sources_assembly_witness:
  "length (recs demo_qso_many) = 1002 \<and>
   (\<exists>all_sources all_labels all_features X st'.
     cell51 demo_lib (quasars_state ''qso_many'') =
       (Inr (all_sources, all_labels, all_features, X,
             replicate 1000 (Str ''QSO'') @ [Str ''STAR'', Str ''STAR'']), st') \<and>
     map fst (recs (heap st' all_sources)) = map (\<lambda>i. Num (real i)) [0..<1000] @ [Num 201, Num 202])"
proof -
  let ?keep = "\<lambda>r. \<exists>m c. cell_at 0 r = Num m \<and> cell_at 2 r = Num (c :: real) \<and>
      - 9999 < (m :: real) \<and> - 10 < c \<and> c < 10"
  have sl: "getitem_slice demo_qso_many None (Some 1000) = Inr (head 1000 demo_qso_many)"
    by (rule getitem_slice_positional[OF many_rows(3)])
  note t = all_sources_assembly[OF quasars_files(1,2,3) demo_parse(6,3,4) sl
      demo_tables(1) many_rows(1) demo_tables(3,4) demo_positions many_rows(2)]
  from conjunct1[OF t] obtain all_sources all_labels all_features X y st' where
    r: "cell51 demo_lib (quasars_state ''qso_many'') =
          (Inr (all_sources, all_labels, all_features, X, y), st')"
    and h: "recs (heap st' all_sources) =
        filter ?keep (recs (head 1000 demo_qso_many)) @ filter ?keep (recs demo_star) @
        filter ?keep (recs demo_galaxy)"
    and y: "y = map (cell_at 9) (recs (heap st' all_sources))"
    by blast
  have q: "filter ?keep (recs (head 1000 demo_qso_many)) =
      map (\<lambda>i. (Num (real i),
                   [Num 19, Num 0, Num 1, Num 0, Num 0, Num 0, Num 0, Num 0, Num 0, Str ''QSO'']))
          [0..<1000]"
    by (simp add: head_def demo_qso_many_def take_map filter_map o_def cell_at_def)
  have rows: "recs (heap st' all_sources) =
      map (\<lambda>i. (Num (real i),
                   [Num 19, Num 0, Num 1, Num 0, Num 0, Num 0, Num 0, Num 0, Num 0, Str ''QSO'']))
          [0..<1000] @
      [(Num 201, [Num 17, Num 0, Num 1, Num 0, Num 0, Num 0, Num 0, Num 0, Num 0, Str ''STAR'']),
       (Num 202, [Num 16, Num 0, Num 2, Num 0, Num 0, Num 0, Num 0, Num 0, Num 0, Str ''STAR''])]"
    unfolding h q by (simp add: demo_star_def demo_galaxy_def cell_at_def)
  have "y = replicate 1000 (Str ''QSO'') @ [Str ''STAR'', Str ''STAR'']"
    unfolding y rows by (simp add: cell_at_def o_def map_replicate_const)
  moreover have "map fst (recs (heap st' all_sources)) =
      map (\<lambda>i. Num (real i)) [0..<1000] @ [Num 201, Num 202]"
    unfolding rows by (simp add: o_def)
  ultimately show ?thesis using r many_rows(4) by blast
qed

text \<open>
  The claim as stated fails on a quasar catalogue with a float index. With two good rows
  whose identifiers are 1500.5 and 1502, \<^verbatim>\<open>[:1000]\<close> selects the rows up to label 1000,
  that is none, and no quasar reaches the classification data. With a missing
  identifier the cell raises \<open>KeyError\<close>.
\<close>

theorem all_sources_assembly_counterexample:
  "parse_csv demo_lib ''qso_float'' 0 usecols_class = Inr demo_qso_float \<and>
   length (recs demo_qso_float) = 2 \<and>
   fst (cell51 demo_lib (quasars_state ''qso_float'')) =
     Inr (6, [Str ''STAR'', Str ''STAR''], 7,
          [[Num 17, Num 0, Num 1, Num 0, Num 0, Num 0, Num 0, Num 0, Num 0],
           [Num 16, Num 0, Num 2, Num 0, Num 0, Num 0, Num 0, Num 0, Num 0]],
          [Str ''STAR'', Str ''STAR'']) \<and>
   parse_csv demo_lib ''qso_nan'' 0 usecols_class = Inr demo_qso_nan \<and>
   fst (cell51 demo_lib (quasars_state ''qso_nan'')) = Inl (KeyError ''1000'')"
  by (simp add: demo_parse float_cell51 nan_cell51 demo_qso_float_def)

section \<open>Copying, then deleting a column\<close>

text \<open>
  C9. After the regression loading cell, the object \<open>qsos\<close> is still the cleaned table:
  it has the column \<open>spec_z\<close>, whose cells are the extracted \<open>qso_redshifts\<close>, and
  \<open>qso_features\<close> is another object, holding that table without the column. The same for
  \<open>all_sources\<close>, \<open>class\<close>, \<open>all_labels\<close> and \<open>all_features\<close> in the classification
  pipeline. In general, copying an existing object and deleting a column of the copy
  leaves the object as it was.
\<close>

theorem copy_del_leaves_original:
  "(cell7 L st = (Inr (qsos, qso_redshifts, qso_features), st') \<longrightarrow>
      qso_features \<noteq> qsos \<and>
      ''spec_z'' \<in> set (names (heap st' qsos)) \<and>
      getitem (heap st' qsos) ''spec_z'' = Inr qso_redshifts \<and>
      del_column ''spec_z'' (heap st' qsos) = Inr (heap st' qso_features) \<and>
      (\<exists>text df0. files st qso_path = Some text \<and> parse_csv L text 0 usecols_z = Inr df0 \<and>
                  clean df0 = Inr (heap st' qsos))) \<and>
   (cell51 L st = (Inr (all_sources, all_labels, all_features, X, y), st'') \<longrightarrow>
      all_features \<noteq> all_sources \<and>
      ''class'' \<in> set (names (heap st'' all_sources)) \<and>
      getitem (heap st'' all_sources) ''class'' = Inr all_labels \<and> y = all_labels \<and>
      del_column ''class'' (heap st'' all_sources) = Inr (heap st'' all_features)) \<and>
   (r < next_ref s \<and>
    bind_nb (copy_copy r) (\<lambda>f. bind_nb (delitem f c) (\<lambda>_. ret f)) s = (Inr f, s') \<longrightarrow>
      f \<noteq> r \<and> heap s' r = heap s r \<and> del_column c (heap s r) = Inr (heap s' f))"
proof (intro conjI impI)
  assume a: "cell7 L st = (Inr (qsos, qso_redshifts, qso_features), st')"
  from cell7_success[OF a] obtain contents df0 df1 df2 where
    f: "files st qso_path = Some contents" "parse_csv L contents 0 usecols_z = Inr df0" and
    c: "clean df0 = Inr df1" and g: "getitem df1 ''spec_z'' = Inr qso_redshifts" and
    d: "del_column ''spec_z'' df1 = Inr df2" and
    q: "qsos = Suc (next_ref st)" "qso_features = Suc (Suc (next_ref st))" and
    h: "heap st' = (heap st)(next_ref st := df0, Suc (next_ref st) := df1, Suc (Suc (next_ref st)) := df2)"
    by auto
  show "qso_features \<noteq> qsos" using q by simp
  have h1: "heap st' qsos = df1" and h2: "heap st' qso_features = df2" using q h by simp_all
  show "''spec_z'' \<in> set (names (heap st' qsos))" using g h1 by (simp add: getitem_mem)
  show "getitem (heap st' qsos) ''spec_z'' = Inr qso_redshifts" using g h1 by simp
  show "del_column ''spec_z'' (heap st' qsos) = Inr (heap st' qso_features)" using d h1 h2 by simp
  show "\<exists>text df0. files st qso_path = Some text \<and> parse_csv L text 0 usecols_z = Inr df0 \<and>
                  clean df0 = Inr (heap st' qsos)" using f c h1 by auto
next
  assume a: "cell51 L st = (Inr (all_sources, all_labels, all_features, X, y), st'')"
  from cell51_success[OF a] obtain cleaned feats where
    g: "getitem cleaned ''class'' = Inr all_labels" and d: "del_column ''class'' cleaned = Inr feats" and
    y: "y = all_labels" and n: "all_features \<noteq> all_sources" and
    h: "heap st'' all_sources = cleaned" "heap st'' all_features = feats"
    by blast
  show "all_features \<noteq> all_sources" by (rule n)
  show "''class'' \<in> set (names (heap st'' all_sources))" using g h by (simp add: getitem_mem)
  show "getitem (heap st'' all_sources) ''class'' = Inr all_labels" using g h by simp
  show "y = all_labels" by (rule y)
  show "del_column ''class'' (heap st'' all_sources) = Inr (heap st'' all_features)" using d h by simp
next
  assume a: "r < next_ref s \<and>
    bind_nb (copy_copy r) (\<lambda>f. bind_nb (delitem f c) (\<lambda>_. ret f)) s = (Inr f, s')"
  then have "f = next_ref s \<and> heap s' r = heap s r \<and> del_column c (heap s r) = Inr (heap s' f)"
    by (auto simp: nb_defs split: sum.splits)
  with a show "f \<noteq> r" "heap s' r = heap s r" "del_column c (heap s r) = Inr (heap s' f)"
    by auto
qed

theorem copy_del_leaves_original_witness:
  "(\<exists>st'. cell7 demo_lib demo_state = (Inr (1, [Num 2], 2), st') \<and>
     getitem (heap st' 1) ''spec_z'' = Inr [Num 2] \<and>
     ''spec_z'' \<in> set (names (heap st' 1)) \<and>
     length (names (heap st' 2)) < length (names (heap st' 1))) \<and>
   (\<exists>all_sources all_features X st'.
     cell51 demo_lib demo_state =
       (Inr (all_sources, [Str ''QSO'', Str ''STAR'', Str ''STAR''], all_features, X,
             [Str ''QSO'', Str ''STAR'', Str ''STAR'']), st') \<and>
     getitem (heap st' all_sources) ''class'' = Inr [Str ''QSO'', Str ''STAR'', Str ''STAR''] \<and>
     length (names (heap st' all_features)) < length (names (heap st' all_sources))) \<and>
   (\<exists>s'. bind_nb (copy_copy 0) (\<lambda>f. bind_nb (delitem f ''spec_z'') (\<lambda>_. ret f))
            (demo_state\<lparr>heap := (\<lambda>r. demo_cleaned), next_ref := Suc 0\<rparr>) = (Inr (Suc 0), s') \<and>
         heap s' 0 = demo_cleaned \<and> del_column ''spec_z'' demo_cleaned = Inr (heap s' (Suc 0)))"
proof -
  from demo_cell7 obtain st' where r: "cell7 demo_lib demo_state = (Inr (1, [Num 2], 2), st')"
    by blast
  from copy_del_leaves_original[of demo_lib demo_state 1 "[Num 2]" 2 st'] r
  have "getitem (heap st' 1) ''spec_z'' = Inr [Num 2]" "''spec_z'' \<in> set (names (heap st' 1))"
    "del_column ''spec_z'' (heap st' 1) = Inr (heap st' 2)"
    by blast+
  with r have a: "\<exists>st'. cell7 demo_lib demo_state = (Inr (1, [Num 2], 2), st') \<and>
     getitem (heap st' 1) ''spec_z'' = Inr [Num 2] \<and>
     ''spec_z'' \<in> set (names (heap st' 1)) \<and>
     length (names (heap st' 2)) < length (names (heap st' 1))"
    by (auto dest: del_column_names)
  from demo_cell51 obtain src feats X st2 where
    r2: "cell51 demo_lib demo_state =
       (Inr (src, [Str ''QSO'', Str ''STAR'', Str ''STAR''], feats, X,
             [Str ''QSO'', Str ''STAR'', Str ''STAR'']), st2)"
    by blast
  note t2 = copy_del_leaves_original[where L = demo_lib and st = demo_state and all_sources = src
      and all_labels = "[Str ''QSO'', Str ''STAR'', Str ''STAR'']" and all_features = feats
      and X = X and y = "[Str ''QSO'', Str ''STAR'', Str ''STAR'']" and st'' = st2]
  from mp[OF conjunct1[OF conjunct2[OF t2]] r2]
  have "getitem (heap st2 src) ''class'' = Inr [Str ''QSO'', Str ''STAR'', Str ''STAR'']"
    "del_column ''class'' (heap st2 src) = Inr (heap st2 feats)"
    by blast+
  with r2 have b: "\<exists>all_sources all_features X st'.
     cell51 demo_lib demo_state =
       (Inr (all_sources, [Str ''QSO'', Str ''STAR'', Str ''STAR''], all_features, X,
             [Str ''QSO'', Str ''STAR'', Str ''STAR'']), st') \<and>
     getitem (heap st' all_sources) ''class'' = Inr [Str ''QSO'', Str ''STAR'', Str ''STAR''] \<and>
     length (names (heap st' all_features)) < length (names (heap st' all_sources))"
    by (blast dest: del_column_names)
  let ?s = "demo_state\<lparr>heap := (\<lambda>r. demo_cleaned), next_ref := Suc 0\<rparr>"
  let ?s' = "demo_state\<lparr>heap := (\<lambda>r. demo_cleaned)(Suc 0 := demo_features), next_ref := Suc (Suc 0)\<rparr>"
  note t3 = copy_del_leaves_original[where r = 0 and s = ?s and c = "''spec_z''" and f = "Suc 0"
      and s' = ?s']
  have "0 < next_ref ?s \<and>
    bind_nb (copy_copy 0) (\<lambda>f. bind_nb (delitem f ''spec_z'') (\<lambda>_. ret f)) ?s = (Inr (Suc 0), ?s')"
    by (simp add: demo_copy_del)
  from mp[OF conjunct2[OF conjunct2[OF t3]] this]
  have "heap ?s' 0 = heap ?s 0" "del_column ''spec_z'' (heap ?s 0) = Inr (heap ?s' (Suc 0))"
    by blast+
  then have c: "\<exists>s'. bind_nb (copy_copy 0) (\<lambda>f. bind_nb (delitem f ''spec_z'') (\<lambda>_. ret f)) ?s
        = (Inr (Suc 0), s') \<and>
         heap s' 0 = demo_cleaned \<and> del_column ''spec_z'' demo_cleaned = Inr (heap s' (Suc 0))"
    by (intro exI[of _ ?s']) (simp add: demo_copy_del)
  from a b c show ?thesis by blast
qed

section \<open>The two printed errors\<close>

text \<open>
  C4. The linear-regression cell splits the data, fits the linear model on the training
  part and predicts the test part; the value it computes and prints after
  \<open>Linear regression: MSE =\<close> is the square root of the mean squared error of these
  predictions against the test targets. The KNN cell predicts its test part with the
  KNN model; the value it prints after \<open>MSE (KNN) =\<close> is the mean squared error of
  these predictions, with no root, and the same cell prints the linear value beside it.
  In a run, the KNN cell gets the model and the test part of the cell that fitted the
  KNN model, and the linear value of the linear-regression cell. On numeric arrays of one
  length the first formula is the root of the second; on the arrays \<open>[0]\<close> and \<open>[2]\<close>
  they give 2 and 4.
\<close>

theorem rmse_printed_as_mse:
  "(cell15 L X y st = (Inr ((X_train, X_test, y_train, y_test), y_lr_pred, v, r2), st') \<longrightarrow>
      (\<exists>linear.
         train_test_split L [rng st] X y (Some (1 / 4)) = Inr (X_train, X_test, y_train, y_test) \<and>
         fit L [Suc (rng st)] (LinearRegression L) X_train y_train = Inr linear \<and>
         predict L linear X_test = Inr y_lr_pred \<and>
         score L linear X_test y_test = Inr r2) \<and>
      (\<exists>m. mean_squared_error y_test y_lr_pred = Inr m \<and> v = sqrt m) \<and>
      trace st' = trace st @ [Print [Text ''Linear regression: MSE = '', Number v],
                              Print [Text ''R2 score ='', Number r2]]) \<and>
   (cell21 L KNN X_test' y_test' v r2 st1 = (Inr (y_knn_pred, w, r2k), st2) \<longrightarrow>
      predict L KNN X_test' = Inr y_knn_pred \<and>
      mean_squared_error y_test' y_knn_pred = Inr w \<and>
      score L KNN X_test' y_test' = Inr r2k \<and>
      trace st2 = trace st1 @ [Print [Text ''MSE (KNN) ='', Number w],
                               Print [Text ''R2 score (KNN) ='', Number r2k],
                               Print [Text ''cf.''],
                               Print [Text ''MSE (linear regression) = '', Number v],
                               Print [Text ''R2 score (linear regression) ='', Number r2]]) \<and>
   (regression L st0 = (Inr ((Xa, Xb, ya, yb), K, fitted, KNNz, zphoto), st9) \<longrightarrow>
      (\<exists>X y sp y_lr_pred v r2 sa sb X_scaled sc sd y_knn_pred w r2k se.
         cell15 L X y sa = (Inr (sp, y_lr_pred, v, r2), sb) \<and>
         cell20 L X y sc = (Inr (X_scaled, K, (Xa, Xb, ya, yb)), sd) \<and>
         (\<exists>s. fit L s (KNeighborsRegressor L 5) Xa ya = Inr K) \<and>
         cell21 L K Xb yb v r2 sd = (Inr (y_knn_pred, w, r2k), se))) \<and>
   (length ys = length ps \<and> ys \<noteq> [] \<longrightarrow>
      mse_linear (map Num ys) (map Num ps) =
        Inr (sqrt ((\<Sum>(a, b)\<leftarrow>zip ys ps. (a - b) ^ 2) / real (length ys))) \<and>
      mse_knn (map Num ys) (map Num ps) =
        Inr ((\<Sum>(a, b)\<leftarrow>zip ys ps. (a - b) ^ 2) / real (length ys))) \<and>
   mse_linear [Num 0] [Num 2] = Inr 2 \<and> mse_knn [Num 0] [Num 2] = Inr 4"
proof (intro conjI impI)
  assume a: "cell15 L X y st = (Inr ((X_train, X_test, y_train, y_test), y_lr_pred, v, r2), st')"
  then show "\<exists>linear.
         train_test_split L [rng st] X y (Some (1 / 4)) = Inr (X_train, X_test, y_train, y_test) \<and>
         fit L [Suc (rng st)] (LinearRegression L) X_train y_train = Inr linear \<and>
         predict L linear X_test = Inr y_lr_pred \<and>
         score L linear X_test y_test = Inr r2"
    by (auto simp add: cell15_def nb_defs mse_linear_def bind_e_Inr split: sum.splits prod.splits)
  from cell15_success[OF a]
  show "\<exists>m. mean_squared_error y_test y_lr_pred = Inr m \<and> v = sqrt m"
    and "trace st' = trace st @ [Print [Text ''Linear regression: MSE = '', Number v],
                              Print [Text ''R2 score ='', Number r2]]"
    by blast+
next
  assume a: "cell21 L KNN X_test' y_test' v r2 st1 = (Inr (y_knn_pred, w, r2k), st2)"
  from cell21_success[OF a]
  show "predict L KNN X_test' = Inr y_knn_pred"
    and "mean_squared_error y_test' y_knn_pred = Inr w"
    and "score L KNN X_test' y_test' = Inr r2k"
    and "trace st2 = trace st1 @ [Print [Text ''MSE (KNN) ='', Number w],
                               Print [Text ''R2 score (KNN) ='', Number r2k],
                               Print [Text ''cf.''],
                               Print [Text ''MSE (linear regression) = '', Number v],
                               Print [Text ''R2 score (linear regression) ='', Number r2]]"
    by blast+
next
  assume a: "regression L st0 = (Inr ((Xa, Xb, ya, yb), K, fitted, KNNz, zphoto), st9)"
  from regression_cells[OF a] obtain X y sp y_lr_pred v r2 sa sb X_scaled sc sd y_knn_pred w r2k se
    where c: "cell15 L X y sa = (Inr (sp, y_lr_pred, v, r2), sb)"
      "cell20 L X y sc = (Inr (X_scaled, K, (Xa, Xb, ya, yb)), sd)"
      "cell21 L K Xb yb v r2 sd = (Inr (y_knn_pred, w, r2k), se)"
    by blast
  from cell20_success[OF c(2)] have "\<exists>s. fit L s (KNeighborsRegressor L 5) Xa ya = Inr K"
    by simp
  with c show "\<exists>X y sp y_lr_pred v r2 sa sb X_scaled sc sd y_knn_pred w r2k se.
         cell15 L X y sa = (Inr (sp, y_lr_pred, v, r2), sb) \<and>
         cell20 L X y sc = (Inr (X_scaled, K, (Xa, Xb, ya, yb)), sd) \<and>
         (\<exists>s. fit L s (KNeighborsRegressor L 5) Xa ya = Inr K) \<and>
         cell21 L K Xb yb v r2 sd = (Inr (y_knn_pred, w, r2k), se)"
    by blast
next
  assume a: "length ys = length ps \<and> ys \<noteq> []"
  then show "mse_linear (map Num ys) (map Num ps) =
        Inr (sqrt ((\<Sum>(a, b)\<leftarrow>zip ys ps. (a - b) ^ 2) / real (length ys)))"
    by (simp add: mse_linear_def mean_squared_error_nums)
  from a show "mse_knn (map Num ys) (map Num ps) =
        Inr ((\<Sum>(a, b)\<leftarrow>zip ys ps. (a - b) ^ 2) / real (length ys))"
    by (simp add: mse_knn_def mean_squared_error_nums)
next
  have "sqrt 4 = 2" by (rule real_sqrt_unique) simp_all
  then show "mse_linear [Num 0] [Num 2] = Inr 2"
    by (simp add: mse_linear_def mean_squared_error_def)
  show "mse_knn [Num 0] [Num 2] = Inr 4"
    by (simp add: mse_knn_def mean_squared_error_def)
qed

theorem rmse_printed_as_mse_witness:
  "mse_linear (map Num [5, 0]) (map Num [0, 5]) = Inr 5 \<and>
   mse_knn (map Num [5, 0]) (map Num [0, 5]) = Inr 25 \<and>
   (\<exists>st'. cell15 demo_lib [demo_row] [Num 2] demo_state =
       (Inr (([demo_row], replicate 572 demo_row, [Num 2], replicate 572 (Num 2)),
             replicate 572 (Num 1), 1, 1 / 2), st') \<and>
     last (trace st') = Print [Text ''R2 score ='', Number (1 / 2)]) \<and>
   predict demo_lib [] (replicate 572 demo_row) = Inr (replicate 572 (Num 1)) \<and>
   (\<exists>m. mean_squared_error (replicate 572 (Num 2)) (replicate 572 (Num 1)) = Inr m \<and> 1 = sqrt m) \<and>
   (\<exists>st'. cell21 demo_lib [] (replicate 572 demo_row) (replicate 572 (Num 3)) 1 (1 / 2) demo_state =
       (Inr (replicate 572 (Num 1), 4, 1 / 2), st')) \<and>
   mean_squared_error (replicate 572 (Num 3)) (replicate 572 (Num 1)) = Inr 4 \<and>
   (\<exists>st9. regression demo_lib demo_state =
       (Inr (([demo_row], replicate 572 demo_row, [Num 2], replicate 572 (Num 2)),
             [(''n_neighbors'', I 5)],
             \<lparr>best_params = demo_best, best_score = 0, best_estimator = demo_best\<rparr>,
             demo_best, replicate 572 (Num 1)), st9)) \<and>
   (\<exists>v r2 sd y_knn_pred w r2k se.
       cell21 demo_lib [(''n_neighbors'', I 5)] (replicate 572 demo_row) (replicate 572 (Num 2))
         v r2 sd = (Inr (y_knn_pred, w, r2k), se))"
proof -
  have s: "sqrt 25 = 5" by (rule real_sqrt_unique) simp_all
  have h: "length [5, 0 :: real] = length [0, 5 :: real] \<and> [5, 0 :: real] \<noteq> []" by simp
  obtain st9 where r: "regression demo_lib demo_state =
       (Inr (([demo_row], replicate 572 demo_row, [Num 2], replicate 572 (Num 2)),
             [(''n_neighbors'', I 5)],
             \<lparr>best_params = demo_best, best_score = 0, best_estimator = demo_best\<rparr>,
             demo_best, replicate 572 (Num 1)), st9)"
    using demo_regression[OF demo_files(1)] by (cases "regression demo_lib demo_state") auto
  note t = rmse_printed_as_mse [where ys = "[5, 0]" and ps = "[0, 5]" and L = demo_lib
      and st = demo_state and ?st1.0 = demo_state and ?st0.0 = demo_state]
  from mp [OF conjunct1 [OF conjunct2 [OF conjunct2 [OF conjunct2 [OF t]]]] h]
  have a: "mse_linear (map Num [5, 0]) (map Num [0, 5]) =
          Inr (sqrt ((\<Sum>(a, b)\<leftarrow>zip [5, 0] [0, 5]. (a - b) ^ 2) / real (length [5, 0 :: real]))) \<and>
        mse_knn (map Num [5, 0]) (map Num [0, 5]) =
          Inr ((\<Sum>(a, b)\<leftarrow>zip [5, 0] [0, 5]. (a - b) ^ 2) / real (length [5, 0 :: real]))" .
  from mp [OF conjunct1 [OF t] demo_cell15]
  have b: "(\<exists>m. mean_squared_error (replicate 572 (Num 2)) (replicate 572 (Num 1)) = Inr m \<and> 1 = sqrt m)"
    and b': "\<exists>linear. predict demo_lib linear (replicate 572 demo_row) = Inr (replicate 572 (Num 1))"
    by blast+
  from mp [OF conjunct1 [OF conjunct2 [OF t]] demo_cell21]
  have c: "mean_squared_error (replicate 572 (Num 3)) (replicate 572 (Num 1)) = Inr 4"
    by blast
  from mp [OF conjunct1 [OF conjunct2 [OF conjunct2 [OF t]]] r]
  have d: "\<exists>v r2 sd y_knn_pred w r2k se.
       cell21 demo_lib [(''n_neighbors'', I 5)] (replicate 572 demo_row) (replicate 572 (Num 2))
         v r2 sd = (Inr (y_knn_pred, w, r2k), se)"
    by blast
  have p: "predict demo_lib [] (replicate 572 demo_row) = Inr (replicate 572 (Num 1))"
    using b' by (simp add: demo_fields)
  from a b c s r d p show ?thesis
    by (simp add: demo_cell15 demo_cell21)
qed

section \<open>The reported generalisation score\<close>

text \<open>
  C2. When the 3-fold cross-validation of the tuned model returns, \<open>R2\<close> holds three
  scores, the \<open>k\<close>-th being the \<open>r2\<close> score, on the held-out part of fold \<open>k\<close>, of the
  best estimator of a grid search fitted on the rest of the fold. The printed
  \<open>Mean score\<close> is the arithmetic mean of \<open>R2\<close>, and the printed error is the standard
  deviation of \<open>R2\<close> divided by the square root of its length (floats read as reals).
\<close>


theorem mean_score_of_folds:
  assumes "cell38 L KNN X_scaled y st = (Inr R2, st')"
  shows "length R2 = 3 \<and>
    (\<forall>k < 3. \<exists>X_tr X_te y_tr y_te f s.
        kfold L 3 k X_scaled y = Inr (X_tr, X_te, y_tr, y_te) \<and>
        search L s (KNN_tuned KNN) X_tr y_tr = Inr f \<and>
        scorer L ''r2'' (best_estimator f) X_te y_te = Inr (R2 ! k)) \<and>
    meanR2 R2 = Some (arithmetic_mean R2) \<and>
    errR2 R2 = Some (standard_deviation R2 / sqrt (real (length R2))) \<and>
    cell39 R2 st' =
      (Inr (), st'\<lparr>trace := trace st' @
         [Print [Text ''Mean score:'', Float (Some (arithmetic_mean R2)), Text ''+/-'',
                 Float (Some (standard_deviation R2 / sqrt 3))]]\<rparr>)"
proof -
  from cross_val_score_success[OF assms[unfolded cell38_def]]
  have l: "length R2 = 3" and
    k: "\<forall>k < 3. \<exists>X_tr X_te y_tr y_te f s.
        kfold L 3 k X_scaled y = Inr (X_tr, X_te, y_tr, y_te) \<and>
        search L s (KNN_tuned KNN) X_tr y_tr = Inr f \<and>
        scorer L ''r2'' (best_estimator f) X_te y_te = Inr (R2 ! k)"
    by blast+
  from l have ne: "R2 \<noteq> []" by auto
  have m: "meanR2 R2 = Some (arithmetic_mean R2)"
    by (simp add: meanR2_def np_mean_eq[OF ne])
  note e = errR2_eq[OF ne]
  have "cell39 R2 st' =
      (Inr (), st'\<lparr>trace := trace st' @
         [Print [Text ''Mean score:'', Float (Some (arithmetic_mean R2)), Text ''+/-'',
                 Float (Some (standard_deviation R2 / sqrt 3))]]\<rparr>)"
    by (simp add: cell39_def print_def emit_def m e l)
  with l k m e show ?thesis by blast
qed


theorem mean_score_of_folds_witness:
  "\<exists>st'. cell38 demo_lib [] [[Num 1], [Num 2], [Num 3]] [Num 1, Num 2, Num 3] demo_state =
           (Inr [1, 2, 3], st') \<and>
         meanR2 [1, 2, 3] = Some 2 \<and>
         errR2 [1, 2, 3] = Some (sqrt (2 / 3) / sqrt 3)"
proof -
  from demo_cell38 obtain st' where
    r: "cell38 demo_lib [] [[Num 1], [Num 2], [Num 3]] [Num 1, Num 2, Num 3] demo_state =
           (Inr [1, 2, 3], st')"
    by blast
  from mean_score_of_folds[OF r]
  have "meanR2 [1, 2, 3] = Some (arithmetic_mean [1, 2, 3])"
    and "errR2 [1, 2, 3] = Some (standard_deviation [1, 2, 3] / sqrt (real (length [1, 2, 3 :: real])))"
    by blast+
  moreover have "arithmetic_mean [1, 2, 3] = 2"
    by (simp add: arithmetic_mean_def)
  moreover have "standard_deviation [1, 2, 3] = sqrt (2 / 3)"
    by (simp add: standard_deviation_def arithmetic_mean_def)
  ultimately show ?thesis using r by auto
qed

section \<open>Tuning the k-nearest-neighbours model\<close>

text \<open>
  C5. The candidates of the KNN grid search are exactly the 28 combinations of
  \<open>n_neighbors\<close> in 1, 2, 4, 8, 16, 32, 64, \<open>p\<close> in 1, 2 and \<open>weights\<close> in \<open>uniform\<close>,
  \<open>distance\<close>. When the regression part runs to its end, the fitted search was run on the
  training split of the scaled data, with the KNN estimator fitted there before; every
  candidate got its mean cross-validation score; the best parameters are the candidate
  at the first position with the highest score, and the best score is the score at that
  position; the best estimator is the estimator with these parameters fitted on the
  training split; the final model \<open>KNNz\<close> is that best estimator, fitted once more on the
  same training split; and the final predictions are those of \<open>KNNz\<close> on the test part
  of the same split.
\<close>

theorem tuned_by_grid_search:
  "set (ParameterGrid (param_grid (KNN_tuned KNN))) =
     {[(''n_neighbors'', I n), (''p'', I q), (''weights'', T w)] | n q w.
        n \<in> {1, 2, 4, 8, 16, 32, 64} \<and> q \<in> {1, 2} \<and> w \<in> {''uniform'', ''distance''}} \<and>
   distinct (ParameterGrid (param_grid (KNN_tuned KNN))) \<and>
   length (ParameterGrid (param_grid (KNN_tuned KNN))) = 28 \<and>
   (regression L st = (Inr ((X_train, X_test, y_train, y_test), KNN, fitted, KNNz, zphoto), st') \<longrightarrow>
      (\<exists>s scores est i.
         search L s (KNN_tuned KNN) X_train y_train = Inr fitted \<and>
         best_params fitted \<in> set (ParameterGrid knn_param_grid) \<and>
         length scores = 28 \<and>
         (\<forall>k < 28. \<exists>c. candidate L KNN (ParameterGrid knn_param_grid ! k) = Inr c \<and>
                        cv_mean_score L (k # s) c None X_train y_train = Inr (scores ! k) \<and>
                        scores ! k \<le> best_score fitted) \<and>
         i < 28 \<and>
         best_params fitted = ParameterGrid knn_param_grid ! i \<and>
         best_score fitted = scores ! i \<and>
         (\<forall>k < i. scores ! k < scores ! i) \<and>
         candidate L KNN (best_params fitted) = Inr est \<and>
         fit L (28 # s) est X_train y_train = Inr (best_estimator fitted)) \<and>
      (\<exists>s. fit L s (best_estimator fitted) X_train y_train = Inr KNNz) \<and>
      predict L KNNz X_test = Inr zphoto \<and>
      (\<exists>X y X_scaled s s'.
         scale L X = Inr X_scaled \<and>
         train_test_split L s X_scaled y None = Inr (X_train, X_test, y_train, y_test) \<and>
         fit L s' (KNeighborsRegressor L 5) X_train y_train = Inr KNN))"
proof (intro conjI impI)
  have p: "param_grid (KNN_tuned KNN) = knn_param_grid" by (simp add: KNN_tuned_def)
  show "set (ParameterGrid (param_grid (KNN_tuned KNN))) =
     {[(''n_neighbors'', I n), (''p'', I q), (''weights'', T w)] | n q w.
        n \<in> {1, 2, 4, 8, 16, 32, 64} \<and> q \<in> {1, 2} \<and> w \<in> {''uniform'', ''distance''}}"
    unfolding p by (rule knn_grid_set)
  show "distinct (ParameterGrid (param_grid (KNN_tuned KNN)))"
    unfolding p by (rule knn_grid_distinct)
  show "length (ParameterGrid (param_grid (KNN_tuned KNN))) = 28"
    unfolding p by (rule knn_grid_length)
  assume r: "regression L st =
    (Inr ((X_train, X_test, y_train, y_test), KNN, fitted, KNNz, zphoto), st')"
  from regression_success[OF r] obtain X y X_scaled s1 s2 s3 s4 where
    sc: "scale L X = Inr X_scaled" and
    sp: "train_test_split L s1 X_scaled y None = Inr (X_train, X_test, y_train, y_test)" and
    kn: "fit L s2 (KNeighborsRegressor L 5) X_train y_train = Inr KNN" and
    se: "search L s3 (KNN_tuned KNN) X_train y_train = Inr fitted" and
    ft: "fit L s4 (best_estimator fitted) X_train y_train = Inr KNNz" and
    pr: "predict L KNNz X_test = Inr zphoto"
    by blast
  show "\<exists>s. fit L s (best_estimator fitted) X_train y_train = Inr KNNz" using ft by blast
  show "predict L KNNz X_test = Inr zphoto" by (rule pr)
  show "\<exists>X y X_scaled s s'.
         scale L X = Inr X_scaled \<and>
         train_test_split L s X_scaled y None = Inr (X_train, X_test, y_train, y_test) \<and>
         fit L s' (KNeighborsRegressor L 5) X_train y_train = Inr KNN"
    using sc sp kn by blast
  have e: "estimator (KNN_tuned KNN) = KNN" and c: "cv (KNN_tuned KNN) = None"
    by (simp_all add: KNN_tuned_def)
  from search_success[OF se, unfolded p e c knn_grid_length] obtain scores i est where
    i: "i < 28" and l: "length scores = 28" and
    k: "\<forall>k<28. \<exists>c. candidate L KNN (ParameterGrid knn_param_grid ! k) = Inr c \<and>
           cv_mean_score L (k # s3) c None X_train y_train = Inr (scores ! k)" and
    m: "\<forall>k<28. scores ! k \<le> scores ! i" and
    lt: "\<forall>k<i. scores ! k < scores ! i" and
    b: "best_params fitted = ParameterGrid knn_param_grid ! i" "best_score fitted = scores ! i" and
    f: "candidate L KNN (best_params fitted) = Inr est"
       "fit L (28 # s3) est X_train y_train = Inr (best_estimator fitted)"
    by blast
  from i b(1) have "best_params fitted \<in> set (ParameterGrid knn_param_grid)"
    by (simp add: knn_grid_length)
  moreover from k m b(2) have
    "\<forall>k < 28. \<exists>c. candidate L KNN (ParameterGrid knn_param_grid ! k) = Inr c \<and>
                        cv_mean_score L (k # s3) c None X_train y_train = Inr (scores ! k) \<and>
                        scores ! k \<le> best_score fitted"
    by auto
  ultimately show "\<exists>s scores est i.
         search L s (KNN_tuned KNN) X_train y_train = Inr fitted \<and>
         best_params fitted \<in> set (ParameterGrid knn_param_grid) \<and>
         length scores = 28 \<and>
         (\<forall>k < 28. \<exists>c. candidate L KNN (ParameterGrid knn_param_grid ! k) = Inr c \<and>
                        cv_mean_score L (k # s) c None X_train y_train = Inr (scores ! k) \<and>
                        scores ! k \<le> best_score fitted) \<and>
         i < 28 \<and>
         best_params fitted = ParameterGrid knn_param_grid ! i \<and>
         best_score fitted = scores ! i \<and>
         (\<forall>k < i. scores ! k < scores ! i) \<and>
         candidate L KNN (best_params fitted) = Inr est \<and>
         fit L (28 # s) est X_train y_train = Inr (best_estimator fitted)"
    using se l f i b lt by blast
qed

theorem tuned_by_grid_search_witness:
  "\<exists>st'. regression demo_lib demo_state =
       (Inr (([demo_row], replicate 572 demo_row, [Num 2], replicate 572 (Num 2)),
             [(''n_neighbors'', I 5)],
             \<lparr>best_params = demo_best, best_score = 0, best_estimator = demo_best\<rparr>,
             demo_best, replicate 572 (Num 1)), st') \<and>
     demo_best \<in> set (ParameterGrid knn_param_grid) \<and>
     demo_best = ParameterGrid knn_param_grid ! 12 \<and>
     (\<exists>scores :: real list. scores ! 12 = 0 \<and> scores ! 0 = - 7 \<and> scores ! 11 = - 4 \<and>
        scores ! 16 = - 8) \<and>
     predict demo_lib demo_best (replicate 572 demo_row) = Inr (replicate 572 (Num 1))"
proof -
  obtain st' where r: "regression demo_lib demo_state =
       (Inr (([demo_row], replicate 572 demo_row, [Num 2], replicate 572 (Num 2)),
             [(''n_neighbors'', I 5)],
             \<lparr>best_params = demo_best, best_score = 0, best_estimator = demo_best\<rparr>,
             demo_best, replicate 572 (Num 1)), st')"
    using demo_regression[OF demo_files(1)] by (cases "regression demo_lib demo_state") auto
  note t = tuned_by_grid_search[of "[(''n_neighbors'', I 5)]" demo_lib demo_state "[demo_row]" "replicate 572 demo_row"
      "[Num 2]" "replicate 572 (Num 2)"
      "\<lparr>best_params = demo_best, best_score = 0, best_estimator = demo_best\<rparr>"
      demo_best "replicate 572 (Num 1)" st']
  from mp[OF conjunct2[OF conjunct2[OF conjunct2[OF t]]] r]
  obtain s scores i where
    m: "demo_best \<in> set (ParameterGrid knn_param_grid)" and
    k: "\<forall>k < 28. \<exists>c. candidate demo_lib [(''n_neighbors'', I 5)] (ParameterGrid knn_param_grid ! k) = Inr c \<and>
                        cv_mean_score demo_lib (k # s) c None [demo_row] [Num 2] = Inr (scores ! k) \<and>
                        scores ! k \<le> 0" and
    i: "i < 28" "demo_best = ParameterGrid knn_param_grid ! i" "scores ! i = 0" and
    p: "predict demo_lib demo_best (replicate 572 demo_row) = Inr (replicate 572 (Num 1))"
    by auto
  have g: "ParameterGrid knn_param_grid ! 12 = demo_best"
    by (simp add: knn_grid demo_best_def)
  with i(2) have "ParameterGrid knn_param_grid ! i = ParameterGrid knn_param_grid ! 12"
    by simp
  with nth_eq_iff_index_eq[OF knn_grid_distinct, of i 12] i(1) have "i = 12"
    by (simp add: knn_grid_length)
  moreover have "scores ! 0 = - 7" "scores ! 11 = - 4" "scores ! 16 = - 8"
    using k[rule_format, of 0] k[rule_format, of 11] k[rule_format, of 16]
    by (simp_all add: knn_grid candidate_def demo_fields demo_score_def)
  ultimately have "\<exists>scores :: real list. scores ! 12 = 0 \<and> scores ! 0 = - 7 \<and> scores ! 11 = - 4 \<and>
        scores ! 16 = - 8"
    using i(3) by auto
  with r m g p show ?thesis by auto
qed

section \<open>Class labels\<close>

text \<open>
  C6. The code does not check the class column, so the claim holds for catalogues
  whose class column holds the three labels only. The
  label-to-colour mapping gives a number to precisely the three labels \<open>QSO\<close> (0),
  \<open>STAR\<close> (1/2) and \<open>GALAXY\<close> (1) and leaves every other value as it is; the colour
  table of the ROC figure has precisely these three keys; the ROC loop makes one entry
  for each class of the fitted classifier and no other. When the three catalogues are
  tables of one schema whose class column holds only the three labels, every label in
  \<open>y\<close> is one of the three and every value of \<open>yy\<close> is one of the three numbers.
\<close>

theorem class_labels:
  "yy ls = map (\<lambda>c. if c = Str ''QSO'' then Num 0
                     else if c = Str ''STAR'' then Num (1 / 2)
                     else if c = Str ''GALAXY'' then Num 1 else c) ls \<and>
   ((\<exists>v. yy [Str l] = [Num v]) \<longleftrightarrow> l \<in> {''QSO'', ''STAR'', ''GALAXY''}) \<and>
   dom colors = {Str ''QSO'', Str ''STAR'', Str ''GALAXY''} \<and>
   (cell76 L m y_test y_prob st = (Inr (labels, (fpr, tpr, roc_auc)), st') \<longrightarrow>
      classes L m = Inr labels \<and> dom fpr = set labels \<and> dom tpr = set labels \<and>
      dom roc_auc = set labels) \<and>
   (cell51 L st0 = (Inr (all_sources, all_labels, all_features, X, y), st1) \<and>
    files st0 qso_path2 = Some tq \<and> parse_csv L tq 0 usecols_class = Inr q \<and>
    files st0 star_path = Some ts \<and> parse_csv L ts 0 usecols_class = Inr s \<and>
    files st0 galaxy_path = Some tg \<and> parse_csv L tg 0 usecols_class = Inr g \<and>
    distinct ns \<and> table ns q \<and> table ns s \<and> table ns g \<and> position ''class'' ns = Some k \<and>
    (\<forall>r \<in> set (recs q) \<union> set (recs s) \<union> set (recs g).
        cell_at k r \<in> {Str ''QSO'', Str ''STAR'', Str ''GALAXY''}) \<longrightarrow>
      set y \<subseteq> {Str ''QSO'', Str ''STAR'', Str ''GALAXY''} \<and>
      set (yy y) \<subseteq> {Num 0, Num (1 / 2), Num 1})"
proof (intro conjI impI)
  show "yy ls = map (\<lambda>c. if c = Str ''QSO'' then Num 0
                     else if c = Str ''STAR'' then Num (1 / 2)
                     else if c = Str ''GALAXY'' then Num 1 else c) ls"
    by (rule yy_map)
  show "(\<exists>v. yy [Str l] = [Num v]) \<longleftrightarrow> l \<in> {''QSO'', ''STAR'', ''GALAXY''}"
  proof -
    have "\<exists>v::real. v * 2 = 1" by (rule exI[of _ "1 / 2"]) simp
    then show ?thesis
      by (cases "l = ''QSO''"; cases "l = ''STAR''"; cases "l = ''GALAXY''")
         (simp_all add: yy_map)
  qed
  show "dom colors = {Str ''QSO'', Str ''STAR'', Str ''GALAXY''}"
    by (rule colors_dom)
next
  assume a: "cell76 L m y_test y_prob st = (Inr (labels, (fpr, tpr, roc_auc)), st')"
  from cell76_success[OF a]
  show "classes L m = Inr labels" "dom fpr = set labels" "dom tpr = set labels"
    "dom roc_auc = set labels" by simp_all
next
  assume h: "cell51 L st0 = (Inr (all_sources, all_labels, all_features, X, y), st1) \<and>
    files st0 qso_path2 = Some tq \<and> parse_csv L tq 0 usecols_class = Inr q \<and>
    files st0 star_path = Some ts \<and> parse_csv L ts 0 usecols_class = Inr s \<and>
    files st0 galaxy_path = Some tg \<and> parse_csv L tg 0 usecols_class = Inr g \<and>
    distinct ns \<and> table ns q \<and> table ns s \<and> table ns g \<and> position ''class'' ns = Some k \<and>
    (\<forall>r \<in> set (recs q) \<union> set (recs s) \<union> set (recs g).
        cell_at k r \<in> {Str ''QSO'', Str ''STAR'', Str ''GALAXY''})"
  then have r: "cell51 L st0 = (Inr (all_sources, all_labels, all_features, X, y), st1)"
    and sch: "distinct ns" "table ns q" "table ns s" "table ns g"
    and k: "position ''class'' ns = Some k"
    and three: "\<forall>r \<in> set (recs q) \<union> set (recs s) \<union> set (recs g).
        cell_at k r \<in> {Str ''QSO'', Str ''STAR'', Str ''GALAXY''}"
    by blast+
  from cell51_success[OF r] h obtain first cleaned where
    sl: "getitem_slice q None (Some 1000) = Inr first" and
    c: "clean (append_frame (append_frame first s) g) = Inr cleaned" and
    g: "getitem cleaned ''class'' = Inr all_labels" and y: "y = all_labels"
    by auto
  from clean_subset[OF c] appended_rows[OF sch(1) table_slice[OF sl sch(2)] sch(3,4)]
    getitem_slice_subset[OF sl]
  have n: "names cleaned = ns" and
    sub: "set (recs cleaned) \<subseteq> set (recs q) \<union> set (recs s) \<union> set (recs g)"
    by auto
  from g n k have "all_labels = map (cell_at k) (recs cleaned)"
    by (simp add: getitem_def)
  with y sub three show ys: "set y \<subseteq> {Str ''QSO'', Str ''STAR'', Str ''GALAXY''}"
    by auto
  then show "set (yy y) \<subseteq> {Num 0, Num (1 / 2), Num 1}"
    by (auto simp: yy_map)
qed


theorem class_labels_witness:
  "(\<exists>all_sources all_features X st'.
     cell51 demo_lib demo_state =
       (Inr (all_sources, [Str ''QSO'', Str ''STAR'', Str ''STAR''], all_features, X,
             [Str ''QSO'', Str ''STAR'', Str ''STAR'']), st') \<and>
     set [Str ''QSO'', Str ''STAR'', Str ''STAR''] \<subseteq> {Str ''QSO'', Str ''STAR'', Str ''GALAXY''} \<and>
     set (yy [Str ''QSO'', Str ''STAR'', Str ''STAR'']) \<subseteq> {Num 0, Num (1 / 2), Num 1}) \<and>
   (\<exists>fpr tpr roc_auc.
     cell76 demo_lib [] [Str ''QSO''] [[1 / 2, 1 / 4, 1 / 4]] demo_state =
       (Inr ([Str ''GALAXY'', Str ''QSO'', Str ''STAR''], (fpr, tpr, roc_auc)), demo_state) \<and>
     dom roc_auc = {Str ''GALAXY'', Str ''QSO'', Str ''STAR''})"
proof -
  from demo_cell51 obtain a f X st' where
    r: "cell51 demo_lib demo_state =
       (Inr (a, [Str ''QSO'', Str ''STAR'', Str ''STAR''], f, X,
             [Str ''QSO'', Str ''STAR'', Str ''STAR'']), st')"
    by blast
  have three: "\<forall>r \<in> set (recs demo_qso) \<union> set (recs demo_star) \<union> set (recs demo_galaxy).
        cell_at 9 r \<in> {Str ''QSO'', Str ''STAR'', Str ''GALAXY''}"
    by (simp add: demo_qso_def demo_star_def demo_galaxy_def cell_at_def)
  note t = class_labels[where L = demo_lib and ?st0.0 = demo_state and all_sources = a
      and all_labels = "[Str ''QSO'', Str ''STAR'', Str ''STAR'']" and all_features = f and X = X
      and y = "[Str ''QSO'', Str ''STAR'', Str ''STAR'']" and ?st1.0 = st'
      and tq = "''qso''" and ts = "''star''" and tg = "''galaxy''"
      and q = demo_qso and s = demo_star and g = demo_galaxy and ns = names_class and k = 9]
  have "set [Str ''QSO'', Str ''STAR'', Str ''STAR''] \<subseteq> {Str ''QSO'', Str ''STAR'', Str ''GALAXY''} \<and>
     set (yy [Str ''QSO'', Str ''STAR'', Str ''STAR'']) \<subseteq> {Num 0, Num (1 / 2), Num 1}"
    by (rule mp[OF conjunct2[OF conjunct2[OF conjunct2[OF conjunct2[OF t]]]]])
       (intro conjI r demo_files(2,3,4) demo_parse(2,3,4) demo_tables(1,2,3,4) demo_positions(3) three)
  with r have a: "\<exists>all_sources all_features X st'.
     cell51 demo_lib demo_state =
       (Inr (all_sources, [Str ''QSO'', Str ''STAR'', Str ''STAR''], all_features, X,
             [Str ''QSO'', Str ''STAR'', Str ''STAR'']), st') \<and>
     set [Str ''QSO'', Str ''STAR'', Str ''STAR''] \<subseteq> {Str ''QSO'', Str ''STAR'', Str ''GALAXY''} \<and>
     set (yy [Str ''QSO'', Str ''STAR'', Str ''STAR'']) \<subseteq> {Num 0, Num (1 / 2), Num 1}"
    by blast
  from demo_cell76[of "[]" demo_state] obtain fpr tpr roc_auc where
    c: "cell76 demo_lib [] [Str ''QSO''] [[1 / 2, 1 / 4, 1 / 4]] demo_state =
       (Inr ([Str ''GALAXY'', Str ''QSO'', Str ''STAR''], (fpr, tpr, roc_auc)), demo_state)"
    by blast
  note t' = class_labels[where L = demo_lib and m = "[]" and y_test = "[Str ''QSO'']"
      and y_prob = "[[1 / 2, 1 / 4, 1 / 4]]" and st = demo_state
      and labels = "[Str ''GALAXY'', Str ''QSO'', Str ''STAR'']" and fpr = fpr and tpr = tpr
      and roc_auc = roc_auc and st' = demo_state]
  from mp[OF conjunct1[OF conjunct2[OF conjunct2[OF conjunct2[OF t']]]] c]
  have "dom roc_auc = set [Str ''GALAXY'', Str ''QSO'', Str ''STAR'']" by blast
  with c have b: "\<exists>fpr tpr roc_auc.
     cell76 demo_lib [] [Str ''QSO''] [[1 / 2, 1 / 4, 1 / 4]] demo_state =
       (Inr ([Str ''GALAXY'', Str ''QSO'', Str ''STAR''], (fpr, tpr, roc_auc)), demo_state) \<and>
     dom roc_auc = {Str ''GALAXY'', Str ''QSO'', Str ''STAR''}"
    by auto
  from a b show ?thesis by blast
qed


text \<open>
  The claim as stated fails: a star catalogue whose class column holds \<open>UNKNOWN\<close> is
  loaded, cleaned and consumed like any other, and the mapping leaves the label as it is.
\<close>

theorem class_labels_counterexample:
  "fst (cell51 demo_lib other_state) =
     Inr (6, [Str ''QSO'', Str ''UNKNOWN''], 7,
          [demo_row, [Num 15, Num 0, Num 1, Num 0, Num 0, Num 0, Num 0, Num 0, Num 0]],
          [Str ''QSO'', Str ''UNKNOWN'']) \<and>
   yy [Str ''QSO'', Str ''UNKNOWN''] = [Num 0, Str ''UNKNOWN'']"
  by (simp add: other_cell51 yy_map)

section \<open>External effects\<close>

text \<open>
  C8. Whatever the libraries compute and whether the run ends or raises, a run leaves
  the file system as it found it, and every event it adds to the trace is the reading of
  one of the catalogue files (the quasar file under its two spellings of the path, the
  star file, the galaxy file) or an output on the notebook's display: a figure, a printed
  line, the value of a cell, the progress lines of a verbose search. No event is the
  writing of a file or a request over the network. A statement that writes a file, sends
  a request or reads another file does not have this property, alone or after a run.
\<close>

theorem only_reads_and_display:
  "files (snd (run L st)) = files st \<and>
   (\<exists>es. trace (snd (run L st)) = trace st @ es \<and>
      (\<forall>ev \<in> set es.
          ev \<in> Read_csv ` {qso_path, qso_path2, star_path, galaxy_path} \<or> (\<exists>xs. ev = Print xs) \<or>
          (\<exists>x. ev = Out x) \<or> (\<exists>n. ev = Figure n) \<or> (\<exists>s. ev = Progress s)) \<and>
      (\<forall>p. Write_file p \<notin> set es) \<and> (\<forall>u. Request u \<notin> set es)) \<and>
   quiet (run L) \<and>
   \<not> quiet (write_file p c) \<and>
   \<not> quiet (urlopen u) \<and>
   (p \<notin> {qso_path, qso_path2, star_path, galaxy_path} \<longrightarrow> \<not> quiet (read_csv L p 0 cols)) \<and>
   \<not> quiet (bind_nb (run demo_lib) (\<lambda>_. write_file p c)) \<and>
   \<not> quiet (bind_nb (run demo_lib) (\<lambda>_. urlopen u))"
proof (intro conjI impI)
  from quiet_run[of L] obtain es where es: "files (snd (run L st)) = files st"
    "trace (snd (run L st)) = trace st @ es" "list_all read_or_display es"
    unfolding quiet_def by blast
  show "files (snd (run L st)) = files st" by (rule es(1))
  from es(3) have "\<forall>ev \<in> set es.
          ev \<in> Read_csv ` {qso_path, qso_path2, star_path, galaxy_path} \<or> (\<exists>xs. ev = Print xs) \<or>
          (\<exists>x. ev = Out x) \<or> (\<exists>n. ev = Figure n) \<or> (\<exists>s. ev = Progress s)"
    unfolding list_all_iff read_or_display_iff by blast
  moreover from es(3) have "(\<forall>p. Write_file p \<notin> set es) \<and> (\<forall>u. Request u \<notin> set es)"
    by (auto simp: list_all_iff)
  ultimately show "\<exists>es. trace (snd (run L st)) = trace st @ es \<and>
      (\<forall>ev \<in> set es.
          ev \<in> Read_csv ` {qso_path, qso_path2, star_path, galaxy_path} \<or> (\<exists>xs. ev = Print xs) \<or>
          (\<exists>x. ev = Out x) \<or> (\<exists>n. ev = Figure n) \<or> (\<exists>s. ev = Progress s)) \<and>
      (\<forall>p. Write_file p \<notin> set es) \<and> (\<forall>u. Request u \<notin> set es)"
    using es(2) by blast
  show "quiet (run L)" by (rule quiet_run)
  show "\<not> quiet (write_file p c)" by (rule loud_write_file)
  show "\<not> quiet (urlopen u)" by (rule loud_urlopen)
  show "\<not> quiet (bind_nb (run demo_lib) (\<lambda>_. write_file p c))"
    by (rule loud_after[OF demo_run[OF demo_files] quiet_run])
       (simp add: write_file_def exI[of _ "Write_file p"])
  show "\<not> quiet (bind_nb (run demo_lib) (\<lambda>_. urlopen u))"
    by (rule loud_after[OF demo_run[OF demo_files] quiet_run])
       (simp add: urlopen_def emit_def exI[of _ "Request u"])
next
  assume "p \<notin> {qso_path, qso_path2, star_path, galaxy_path}"
  then show "\<not> quiet (read_csv L p 0 cols)" by (rule loud_read_csv)
qed

theorem only_reads_and_display_witness:
  "fst (run demo_lib demo_state) = Inr () \<and>
   files (snd (run demo_lib demo_state)) = demo_files \<and>
   trace (snd (run demo_lib demo_state)) = demo_trace \<and>
   list_all read_or_display demo_trace \<and>
   ''out.csv'' \<notin> {qso_path, qso_path2, star_path, galaxy_path} \<and>
   \<not> quiet (read_csv demo_lib ''out.csv'' 0 usecols_z)"
proof -
  note t = only_reads_and_display[of demo_lib demo_state "''out.csv''" _ _ usecols_z]
  from t obtain es where
    f: "files (snd (run demo_lib demo_state)) = files demo_state" and
    t: "trace (snd (run demo_lib demo_state)) = trace demo_state @ es" and
    e: "\<forall>ev \<in> set es.
          ev \<in> Read_csv ` {qso_path, qso_path2, star_path, galaxy_path} \<or> (\<exists>xs. ev = Print xs) \<or>
          (\<exists>x. ev = Out x) \<or> (\<exists>n. ev = Figure n) \<or> (\<exists>s. ev = Progress s)" and
    r: "''out.csv'' \<notin> {qso_path, qso_path2, star_path, galaxy_path} \<longrightarrow>
          \<not> quiet (read_csv demo_lib ''out.csv'' 0 usecols_z)"
    by blast
  have p: "''out.csv'' \<notin> {qso_path, qso_path2, star_path, galaxy_path}"
    by (simp add: qso_path_def qso_path2_def star_path_def galaxy_path_def)
  from e have "list_all read_or_display es"
    unfolding list_all_iff read_or_display_iff by blast
  moreover from t demo_run_trace[OF demo_files] have "es = demo_trace"
    by (simp add: demo_state_fields)
  moreover from f have "files (snd (run demo_lib demo_state)) = demo_files"
    by (simp add: demo_state_def)
  moreover note demo_run[OF demo_files] demo_run_trace[OF demo_files] p mp[OF r p]
  ultimately show ?thesis by (simp add: demo_state_fields)
qed

text \<open>
  The claim as stated fails: a run also writes text on the display. The eighth event of
  the example run is a printed line, which is neither the reading of a catalogue nor a
  plot, and it is not the only one.
\<close>

theorem only_reads_and_display_counterexample:
  "trace (snd (run demo_lib demo_state)) = demo_trace \<and>
   demo_trace ! 7 = Print [Text ''Linear regression: MSE = '', Number 1] \<and>
   \<not> read_or_plot (demo_trace ! 7) \<and>
   \<not> list_all read_or_plot demo_trace \<and>
   length (filter read_or_plot demo_trace) = 13 \<and> length demo_trace = 53"
proof -
  have "trace (snd (run demo_lib demo_state)) = demo_trace"
    using demo_run_trace[OF demo_files] by (simp add: demo_state_fields)
  moreover have "demo_trace ! 7 = Print [Text ''Linear regression: MSE = '', Number 1]"
    by (simp add: demo_trace_def)
  moreover have "length (filter read_or_plot demo_trace) = 13" "length demo_trace = 53"
    by (simp_all add: demo_trace_def qso_path_def qso_path2_def star_path_def galaxy_path_def)
  moreover have "\<not> list_all read_or_plot demo_trace"
    by (simp add: demo_trace_def)
  ultimately show ?thesis by simp
qed

section \<open>Errors\<close>



end
